theory Spec2Isabelle
  imports Complex_Main "HOL-Library.AList"
begin

section \<open>JavaScript values\<close>

text \<open>
  Values that travel between the services, the CRUD helpers and the database are JSON
  values. JavaScript's \<open>undefined\<close> (an optional field that is not present) is
  \<open>None\<close> of an option type. Numbers are modelled as integers.
\<close>

datatype json =
  JNull
  | JBool bool
  | JNum int
  | JStr string
  | JArr "json list"
  | JObj "(string \<times> json) list"

text \<open>An exception thrown by a collaborator (database driver, HTTP client), with its message.\<close>

datatype thrown = Thrown string

text \<open>Truthiness of an optional string: \<open>undefined\<close> and the empty string are falsy.\<close>

definition truthy :: "string option \<Rightarrow> bool" where
  "truthy s = (case s of None \<Rightarrow> False | Some v \<Rightarrow> v \<noteq> [])"

text \<open>\<open>x || d\<close> on an optional string.\<close>

definition str_or :: "string option \<Rightarrow> string \<Rightarrow> string" where
  "str_or s d = (case s of None \<Rightarrow> d | Some v \<Rightarrow> if v = [] then d else v)"

text \<open>\<open>x || null\<close> on an optional string.\<close>

definition str_or_null :: "string option \<Rightarrow> json" where
  "str_or_null s = (case s of None \<Rightarrow> JNull | Some v \<Rightarrow> if v = [] then JNull else JStr v)"

text \<open>
  A property set to a value that may be undefined (\<open>name: clientData.name\<close>): the
  driver binds \<open>undefined\<close> as \<open>NULL\<close>.
\<close>

definition jstr :: "string option \<Rightarrow> json" where
  "jstr s = (case s of None \<Rightarrow> JNull | Some v \<Rightarrow> JStr v)"

text \<open>\<open>x ?? d\<close> and \<open>x || d\<close> on an optional number (\<open>0\<close> is falsy).\<close>

definition num_nullish :: "int option \<Rightarrow> int \<Rightarrow> int" where
  "num_nullish n d = (case n of None \<Rightarrow> d | Some v \<Rightarrow> v)"

definition num_or :: "int option \<Rightarrow> int \<Rightarrow> int" where
  "num_or n d = (case n of None \<Rightarrow> d | Some v \<Rightarrow> if v = 0 then d else v)"

text \<open>An array of strings as a JSON value.\<close>

definition JStrs :: "string list \<Rightarrow> json" where
  "JStrs xs = JArr (map JStr xs)"

text \<open>\<open>if (x) data.c = x\<close> on an optional string: the value when truthy.\<close>

definition if_truthy :: "string option \<Rightarrow> json option" where
  "if_truthy s = (if truthy s then map_option JStr s else None)"

text \<open>
  \<open>String.prototype.trim\<close>. A string is a list of 8-bit characters, the code units
  below 256. The white space and line terminators that \<open>trim\<close> strips are, in that
  range, the space, the tab, the line feed, the vertical tab, the form feed, the carriage
  return and the no-break space U+00A0; the others (U+1680, U+2000 to U+200A, U+2028,
  U+2029, U+202F, U+205F, U+3000, U+FEFF) are not characters of a string here.
\<close>

definition is_space :: "char \<Rightarrow> bool" where
  "is_space c =
    (c \<in> set [CHR 0x20, CHR 0x09, CHR 0x0A, CHR 0x0B, CHR 0x0C, CHR 0x0D, CHR 0xA0])"

definition trim :: "string \<Rightarrow> string" where
  "trim s = rev (dropWhile is_space (rev (dropWhile is_space s)))"

text \<open>
  The data object handed to the CRUD helpers is a list of column/value pairs in
  insertion order. \<open>present\<close> keeps the conditional assignments whose value is there:
  one entry per \<open>if (...) data.c = v\<close> of the source.
\<close>

definition present :: "(string \<times> json option) list \<Rightarrow> (string \<times> json) list" where
  "present xs = List.map_filter (\<lambda>(c, v). map_option (Pair c) v) xs"

subsection \<open>JSON.stringify\<close>

text \<open>
  \<open>JSON.stringify\<close> on the values above: integers in decimal, strings quoted with the
  quote, the backslash and the control characters escaped, arrays and objects without
  white space.
\<close>

definition digit_char :: "nat \<Rightarrow> char" where
  "digit_char d = ''0123456789abcdef'' ! d"

fun digits :: "nat \<Rightarrow> string" where
  "digits n = (if n < 10 then [digit_char n] else digits (n div 10) @ [digit_char (n mod 10)])"

definition show_int :: "int \<Rightarrow> string" where
  "show_int i = (if i < 0 then CHR ''-'' # digits (nat (- i)) else digits (nat i))"

definition escape_char :: "char \<Rightarrow> string" where
  "escape_char c =
    (if c = CHR 0x22 then [CHR 0x5C, CHR 0x22]
     else if c = CHR 0x5C then [CHR 0x5C, CHR 0x5C]
     else if c = CHR 0x08 then [CHR 0x5C, CHR ''b'']
     else if c = CHR 0x0C then [CHR 0x5C, CHR ''f'']
     else if c = CHR 0x0A then [CHR 0x5C, CHR ''n'']
     else if c = CHR 0x0D then [CHR 0x5C, CHR ''r'']
     else if c = CHR 0x09 then [CHR 0x5C, CHR ''t'']
     else if (of_char c :: nat) < 32 then
       [CHR 0x5C, CHR ''u'', CHR ''0'', CHR ''0'',
        digit_char (of_char c div 16), digit_char (of_char c mod 16)]
     else [c])"

definition quote :: "string \<Rightarrow> string" where
  "quote s = CHR 0x22 # concat (map escape_char s) @ [CHR 0x22]"

fun join :: "string \<Rightarrow> string list \<Rightarrow> string" where
  "join sep [] = []"
| "join sep [x] = x"
| "join sep (x # y # ys) = x @ sep @ join sep (y # ys)"

primrec JSON_stringify :: "json \<Rightarrow> string" where
  "JSON_stringify JNull = ''null''"
| "JSON_stringify (JBool b) = (if b then ''true'' else ''false'')"
| "JSON_stringify (JNum n) = show_int n"
| "JSON_stringify (JStr s) = quote s"
| "JSON_stringify (JArr xs) = ''['' @ join '','' (map JSON_stringify xs) @ '']''"
| "JSON_stringify (JObj kvs) =
     ''{'' @ join '','' (map (\<lambda>(k, s). quote k @ '':'' @ s)
                          (map (map_prod id JSON_stringify) kvs)) @ ''}''"

section \<open>Domain services: the data handed to the CRUD helpers\<close>

text \<open>Errors thrown by the services themselves (\<open>throw new Error(...)\<close>).\<close>

datatype service_error =
  TitleRequired
  | ClientRequired
  | StartDateRequired
  | DueDateRequired
  | UserNotIdentified
  | AssigneeRequired
  | NoFieldsToUpdate

subsection \<open>Projects\<close>

text \<open>
  \<open>CreateProjectData\<close> as it arrives at run time: every field may be absent (the
  required ones are checked by \<open>createProject\<close>). \<open>UpdateProjectData\<close> is its
  \<open>Partial\<close>, the same record.
\<close>

record CreateProjectData =
  title :: "string option"
  description :: "string option"
  clientId :: "string option"
  clientName :: "string option"
  organization :: "string option"
  address :: "string option"
  budget :: "int option"
  currency :: "string option"
  status :: "string option"
  priority :: "string option"
  progress :: "int option"
  startDate :: "string option"
  dueDate :: "string option"
  tags :: "string list option"
  assignedTo :: "string list option"
  notes' :: "string option"
  contacts :: "json list option"

type_synonym UpdateProjectData = CreateProjectData

definition createProject_data ::
  "CreateProjectData \<Rightarrow> string \<Rightarrow> service_error + (string \<times> json) list" where
  "createProject_data projectData createdBy =
    (if \<not> truthy (CreateProjectData.title projectData) then Inl TitleRequired
     else if \<not> truthy (CreateProjectData.clientName projectData) then Inl ClientRequired
     else if \<not> truthy (CreateProjectData.startDate projectData) then Inl StartDateRequired
     else if \<not> truthy (CreateProjectData.dueDate projectData) then Inl DueDateRequired
     else if createdBy = [] then Inl UserNotIdentified
     else Inr
       [(''title'', jstr (CreateProjectData.title projectData)),
        (''client_name'', jstr (CreateProjectData.clientName projectData)),
        (''status'', JStr (str_or (CreateProjectData.status projectData) ''contacted'')),
        (''priority'', JStr (str_or (CreateProjectData.priority projectData) ''medium'')),
        (''start_date'', jstr (CreateProjectData.startDate projectData)),
        (''due_date'', jstr (CreateProjectData.dueDate projectData)),
        (''created_by'', JStr createdBy),
        (''description'', JStr (str_or (CreateProjectData.description projectData) [])),
        (''client_id'', str_or_null (CreateProjectData.clientId projectData)),
        (''organization'', JStr (str_or (CreateProjectData.organization projectData) [])),
        (''address'', JStr (str_or (CreateProjectData.address projectData) [])),
        (''budget'', JNum (num_nullish (CreateProjectData.budget projectData) 0)),
        (''currency'', JStr (str_or (CreateProjectData.currency projectData) ''BRL'')),
        (''progress'', JNum (num_nullish (CreateProjectData.progress projectData) 0)),
        (''tags'', JStrs (case CreateProjectData.tags projectData of None \<Rightarrow> [] | Some ts \<Rightarrow> ts)),
        (''assigned_to'',
           JStrs (case CreateProjectData.assignedTo projectData of None \<Rightarrow> [] | Some a \<Rightarrow> a)),
        (''contacts'',
           JArr (case CreateProjectData.contacts projectData of None \<Rightarrow> [] | Some cs \<Rightarrow> cs)),
        (''notes'', JStr (str_or (CreateProjectData.notes' projectData) []))])"

definition updateProject_data :: "UpdateProjectData \<Rightarrow> (string \<times> json) list" where
  "updateProject_data updateData = present
     [(''title'', map_option JStr (CreateProjectData.title updateData)),
      (''description'', map_option JStr (CreateProjectData.description updateData)),
      (''client_id'', map_option JStr (CreateProjectData.clientId updateData)),
      (''client_name'', map_option JStr (CreateProjectData.clientName updateData)),
      (''organization'', map_option JStr (CreateProjectData.organization updateData)),
      (''address'', map_option JStr (CreateProjectData.address updateData)),
      (''budget'', map_option JNum (CreateProjectData.budget updateData)),
      (''currency'', map_option JStr (CreateProjectData.currency updateData)),
      (''status'', map_option JStr (CreateProjectData.status updateData)),
      (''priority'', map_option JStr (CreateProjectData.priority updateData)),
      (''progress'', map_option JNum (CreateProjectData.progress updateData)),
      (''start_date'', map_option JStr (CreateProjectData.startDate updateData)),
      (''due_date'', map_option JStr (CreateProjectData.dueDate updateData)),
      (''tags'', map_option JStrs (CreateProjectData.tags updateData)),
      (''assigned_to'', map_option JStrs (CreateProjectData.assignedTo updateData)),
      (''notes'', map_option JStr (CreateProjectData.notes' updateData)),
      (''contacts'', map_option JArr (CreateProjectData.contacts updateData))]"

subsection \<open>Tasks\<close>

record CreateTaskData =
  title :: "string option"
  description :: "string option"
  projectId :: "string option"
  projectTitle :: "string option"
  clientId :: "string option"
  clientName :: "string option"
  assignedTo :: "string option"
  status :: "string option"
  priority :: "string option"
  startDate :: "string option"
  endDate :: "string option"
  estimatedHours :: "int option"
  actualHours :: "int option"
  progress :: "int option"
  tags :: "string list option"
  notes' :: "string option"
  subtasks :: "json list option"

type_synonym UpdateTaskData = CreateTaskData

definition createTask_data ::
  "CreateTaskData \<Rightarrow> string \<Rightarrow> service_error + (string \<times> json) list" where
  "createTask_data taskData createdBy =
    (if \<not> truthy (CreateTaskData.title taskData) then Inl TitleRequired
     else if \<not> truthy (CreateTaskData.assignedTo taskData) then Inl AssigneeRequired
     else Inr
       ([(''title'', jstr (CreateTaskData.title taskData)),
         (''assigned_to'', jstr (CreateTaskData.assignedTo taskData)),
         (''status'', JStr (str_or (CreateTaskData.status taskData) ''not_started'')),
         (''priority'', JStr (str_or (CreateTaskData.priority taskData) ''medium'')),
         (''progress'', JNum (num_or (CreateTaskData.progress taskData) 0)),
         (''created_by'', JStr createdBy)]
        @ present
        [(''description'', if_truthy (CreateTaskData.description taskData)),
         (''project_id'',
            if truthy (CreateTaskData.projectId taskData)
               \<and> CreateTaskData.projectId taskData \<noteq> Some ''none''
            then map_option JStr (CreateTaskData.projectId taskData) else None),
         (''project_title'', if_truthy (CreateTaskData.projectTitle taskData)),
         (''client_id'', if_truthy (CreateTaskData.clientId taskData)),
         (''client_name'', if_truthy (CreateTaskData.clientName taskData)),
         (''start_date'', if_truthy (CreateTaskData.startDate taskData)),
         (''end_date'', if_truthy (CreateTaskData.endDate taskData)),
         (''estimated_hours'', map_option JNum (CreateTaskData.estimatedHours taskData)),
         (''actual_hours'', map_option JNum (CreateTaskData.actualHours taskData)),
         (''notes'', if_truthy (CreateTaskData.notes' taskData)),
         (''tags'',
            case CreateTaskData.tags taskData of
              None \<Rightarrow> None
            | Some ts \<Rightarrow> if length ts > 0 then Some (JStrs ts) else None),
         (''subtasks'',
            case CreateTaskData.subtasks taskData of
              None \<Rightarrow> None
            | Some ss \<Rightarrow> if length ss > 0 then Some (JStr (JSON_stringify (JArr ss)))
                         else None)]))"

definition updateTask_data :: "UpdateTaskData \<Rightarrow> (string \<times> json) list" where
  "updateTask_data updateData = present
     [(''title'', map_option JStr (CreateTaskData.title updateData)),
      (''description'', map_option JStr (CreateTaskData.description updateData)),
      (''project_id'', map_option JStr (CreateTaskData.projectId updateData)),
      (''project_title'', map_option JStr (CreateTaskData.projectTitle updateData)),
      (''client_id'', map_option JStr (CreateTaskData.clientId updateData)),
      (''client_name'', map_option JStr (CreateTaskData.clientName updateData)),
      (''assigned_to'', map_option JStr (CreateTaskData.assignedTo updateData)),
      (''status'', map_option JStr (CreateTaskData.status updateData)),
      (''priority'', map_option JStr (CreateTaskData.priority updateData)),
      (''start_date'', map_option JStr (CreateTaskData.startDate updateData)),
      (''end_date'', map_option JStr (CreateTaskData.endDate updateData)),
      (''estimated_hours'', map_option JNum (CreateTaskData.estimatedHours updateData)),
      (''actual_hours'', map_option JNum (CreateTaskData.actualHours updateData)),
      (''progress'', map_option JNum (CreateTaskData.progress updateData)),
      (''tags'', map_option JStrs (CreateTaskData.tags updateData)),
      (''notes'', map_option JStr (CreateTaskData.notes' updateData)),
      (''subtasks'',
         map_option (\<lambda>ss. JStr (JSON_stringify (JArr ss))) (CreateTaskData.subtasks updateData))]"

subsection \<open>Clients\<close>

record CreateClientData =
  name :: "string option"
  email :: "string option"
  mobile :: "string option"
  phone :: "string option"
  organization :: "string option"
  country :: "string option"
  state :: "string option"
  city :: "string option"
  address :: "string option"
  zipCode :: "string option"
  budget :: "int option"
  currency :: "string option"
  level :: "string option"
  status :: "string option"
  tags :: "string list option"
  notes' :: "string option"
  description :: "string option"
  cpf :: "string option"
  rg :: "string option"
  pis :: "string option"
  cei :: "string option"
  professionalTitle :: "string option"
  maritalStatus :: "string option"
  birthDate :: "string option"
  inssStatus :: "string option"
  amountPaid :: "int option"
  referredBy :: "string option"
  registeredBy :: "string option"

type_synonym UpdateClientData = CreateClientData

definition createClient_data :: "CreateClientData \<Rightarrow> string \<Rightarrow> (string \<times> json) list" where
  "createClient_data clientData createdBy =
     [(''name'', jstr (CreateClientData.name clientData)),
      (''email'', jstr (CreateClientData.email clientData)),
      (''phone'',
         if truthy (CreateClientData.mobile clientData)
         then jstr (CreateClientData.mobile clientData)
         else str_or_null (CreateClientData.phone clientData)),
      (''organization'', str_or_null (CreateClientData.organization clientData)),
      (''address'', JStr (JSON_stringify (JObj
         [(''street'', JStr (str_or (CreateClientData.address clientData) [])),
          (''city'', JStr (str_or (CreateClientData.city clientData) [])),
          (''state'', JStr (str_or (CreateClientData.state clientData) [])),
          (''zipCode'', JStr (str_or (CreateClientData.zipCode clientData) [])),
          (''country'', JStr (str_or (CreateClientData.country clientData) ''BR''))]))),
      (''budget'',
         case CreateClientData.budget clientData of
           None \<Rightarrow> JNull | Some b \<Rightarrow> if b = 0 then JNull else JNum b),
      (''currency'', JStr (str_or (CreateClientData.currency clientData) ''BRL'')),
      (''status'', JStr (str_or (CreateClientData.status clientData) ''active'')),
      (''tags'', JStrs (case CreateClientData.tags clientData of None \<Rightarrow> [] | Some ts \<Rightarrow> ts)),
      (''notes'',
         if truthy (CreateClientData.description clientData)
         then jstr (CreateClientData.description clientData)
         else str_or_null (CreateClientData.notes' clientData)),
      (''cpf'', str_or_null (CreateClientData.cpf clientData)),
      (''rg'', str_or_null (CreateClientData.rg clientData)),
      (''professional_title'', str_or_null (CreateClientData.professionalTitle clientData)),
      (''marital_status'', str_or_null (CreateClientData.maritalStatus clientData)),
      (''created_by'', JStr createdBy)]
     @ present
     [(''birth_date'',
         case CreateClientData.birthDate clientData of
           None \<Rightarrow> None
         | Some b \<Rightarrow> if b \<noteq> [] \<and> trim b \<noteq> [] then Some (JStr b) else None)]"

definition updateClient_data :: "UpdateClientData \<Rightarrow> (string \<times> json) list" where
  "updateClient_data updateData = present
     [(''name'', map_option JStr (CreateClientData.name updateData)),
      (''email'', map_option JStr (CreateClientData.email updateData)),
      (''phone'', map_option JStr (CreateClientData.phone updateData)),
      (''organization'', map_option JStr (CreateClientData.organization updateData)),
      (''address'',
         map_option (\<lambda>a. JStr (JSON_stringify (JStr a))) (CreateClientData.address updateData)),
      (''budget'', map_option JNum (CreateClientData.budget updateData)),
      (''currency'', map_option JStr (CreateClientData.currency updateData)),
      (''status'', map_option JStr (CreateClientData.status updateData)),
      (''tags'', map_option JStrs (CreateClientData.tags updateData)),
      (''notes'', map_option JStr (CreateClientData.notes' updateData)),
      (''cpf'', map_option JStr (CreateClientData.cpf updateData)),
      (''rg'', map_option JStr (CreateClientData.rg updateData)),
      (''professional_title'', map_option JStr (CreateClientData.professionalTitle updateData)),
      (''marital_status'', map_option JStr (CreateClientData.maritalStatus updateData)),
      (''birth_date'', map_option JStr (CreateClientData.birthDate updateData))]"

section \<open>Tenant tables and SQL\<close>

text \<open>
  A table of a tenant schema is the list of its rows, a row the list of its columns with
  their values; a column that is absent or \<open>JNull\<close> is SQL \<open>NULL\<close>. Timestamps are
  integers. The model keeps each bound value as it was bound.
\<close>

type_synonym row = "(string \<times> json) list"

definition col :: "row \<Rightarrow> string \<Rightarrow> json" where
  "col r c = (case map_of r c of None \<Rightarrow> JNull | Some v \<Rightarrow> v)"

definition set_cols :: "(string \<times> json) list \<Rightarrow> row \<Rightarrow> row" where
  "set_cols data r = foldl (\<lambda>acc (c, v). AList.update c v acc) r data"

text \<open>\<open>is_active = TRUE\<close> and \<open>id::text = $1\<close>.\<close>

definition is_active :: "row \<Rightarrow> bool" where
  "is_active r = (col r ''is_active'' = JBool True)"

definition has_id :: "string \<Rightarrow> row \<Rightarrow> bool" where
  "has_id i r = (col r ''id'' = JStr i)"

definition ids :: "row list \<Rightarrow> json list" where
  "ids rs = map (\<lambda>r. col r ''id'') rs"

text \<open>Failures of an operation: thrown by the service, by the CRUD helper, or by the database.\<close>

datatype failure =
  Service service_error
  | ValidationError string
  | HelperNoFieldsToUpdate
  | QueryError
  | NotModelled

text \<open>
  \<open>NotModelled\<close> is not an outcome of the program: it marks a statement whose outcome
  this model does not determine, because it binds a value that the database reads in a
  way the model does not follow (see \<open>Undecided\<close> below).
\<close>

subsection \<open>Column types\<close>

text \<open>
  The column types of the DDL in the services, and what PostgreSQL does with a value that
  is bound to a column of each type. \<open>Accepted\<close>: the value is stored and denotes what
  was bound. \<open>Refused\<close>: the statement fails. \<open>Undecided\<close>: the model does not follow
  the database.
\<close>

datatype sql_type =
  UUID
  | VARCHAR "nat option"
  | TEXT
  | DATE
  | DECIMAL nat nat
  | INTEGER
  | JSONB
  | BOOLEAN
  | TIMESTAMP

datatype verdict = Accepted | Refused | Undecided

text \<open>
  Lower case, as \<open>lower()\<close> computes it in a database with a UTF-8 locale: of the
  letters A to Z and, in the range of the characters here, of U+00C0 to U+00DE but the
  multiplication sign U+00D7.
\<close>

definition upper_letters :: string where
  "upper_letters =
    ''ABCDEFGHIJKLMNOPQRSTUVWXYZ'' @
     [CHR 0xC0, CHR 0xC1, CHR 0xC2, CHR 0xC3, CHR 0xC4, CHR 0xC5, CHR 0xC6, CHR 0xC7,
      CHR 0xC8, CHR 0xC9, CHR 0xCA, CHR 0xCB, CHR 0xCC, CHR 0xCD, CHR 0xCE, CHR 0xCF,
      CHR 0xD0, CHR 0xD1, CHR 0xD2, CHR 0xD3, CHR 0xD4, CHR 0xD5, CHR 0xD6, CHR 0xD8,
      CHR 0xD9, CHR 0xDA, CHR 0xDB, CHR 0xDC, CHR 0xDD, CHR 0xDE]"

definition lower_letters :: string where
  "lower_letters =
    ''abcdefghijklmnopqrstuvwxyz'' @
     [CHR 0xE0, CHR 0xE1, CHR 0xE2, CHR 0xE3, CHR 0xE4, CHR 0xE5, CHR 0xE6, CHR 0xE7,
      CHR 0xE8, CHR 0xE9, CHR 0xEA, CHR 0xEB, CHR 0xEC, CHR 0xED, CHR 0xEE, CHR 0xEF,
      CHR 0xF0, CHR 0xF1, CHR 0xF2, CHR 0xF3, CHR 0xF4, CHR 0xF5, CHR 0xF6, CHR 0xF8,
      CHR 0xF9, CHR 0xFA, CHR 0xFB, CHR 0xFC, CHR 0xFD, CHR 0xFE]"

definition lower_char :: "char \<Rightarrow> char" where
  "lower_char c = (case map_of (zip upper_letters lower_letters) c of None \<Rightarrow> c | Some l \<Rightarrow> l)"

text \<open>
  The input syntax of \<open>uuid\<close>: 32 hexadecimal digits of either case, a hyphen allowed
  after each group of four digits but the last, braces allowed around the whole.
  \<open>uuid_in\<close> is the value read, as its 32 digits in lower case; \<open>uuid_out\<close> is the text
  PostgreSQL prints for it.
\<close>

definition is_hex :: "char \<Rightarrow> bool" where
  "is_hex c = (c \<in> set ''0123456789abcdefABCDEF'')"

definition lower_hex :: "char \<Rightarrow> char" where
  "lower_hex c = (case map_of (zip ''ABCDEF'' ''abcdef'') c of None \<Rightarrow> c | Some l \<Rightarrow> l)"

definition hex4 :: "string \<Rightarrow> (string \<times> string) option" where
  "hex4 s =
    (case s of
      a # b # c # d # t \<Rightarrow>
        if is_hex a \<and> is_hex b \<and> is_hex c \<and> is_hex d
        then Some (map lower_hex [a, b, c, d], t) else None
    | _ \<Rightarrow> None)"

definition hyphen :: "string \<Rightarrow> string" where
  "hyphen s = (case s of c # t \<Rightarrow> if c = CHR ''-'' then t else s | [] \<Rightarrow> s)"

primrec uuid_groups :: "bool list \<Rightarrow> string \<Rightarrow> (string \<times> string) option" where
  "uuid_groups [] s = Some ([], s)"
| "uuid_groups (h # hs) s =
    (case hex4 s of
      None \<Rightarrow> None
    | Some (g, t) \<Rightarrow>
        map_option (\<lambda>(ds, rest). (g @ ds, rest))
          (uuid_groups hs (if h then hyphen t else t)))"

definition uuid_in :: "string \<Rightarrow> string option" where
  "uuid_in s =
    (let braces = (case s of c # _ \<Rightarrow> c = CHR ''{'' | [] \<Rightarrow> False);
         body = (if braces then tl s else s)
     in case uuid_groups [True, True, True, True, True, True, True, False] body of
          None \<Rightarrow> None
        | Some (ds, rest) \<Rightarrow> if rest = (if braces then ''}'' else []) then Some ds else None)"

definition uuid_out :: "string \<Rightarrow> string" where
  "uuid_out ds =
    take 8 ds @ ''-'' @ take 4 (drop 8 ds) @ ''-'' @ take 4 (drop 12 ds) @ ''-''
    @ take 4 (drop 16 ds) @ ''-'' @ drop 20 ds"

text \<open>
  A date written \<open>YYYY-MM-DD\<close>, from year 1 on, with a month and a day of the calendar.
  PostgreSQL reads many other forms too.
\<close>

definition is_digit :: "char \<Rightarrow> bool" where
  "is_digit c = (c \<in> set ''0123456789'')"

definition number :: "string \<Rightarrow> nat" where
  "number ds = foldl (\<lambda>n c. 10 * n + (of_char c - 48)) 0 ds"

definition days_in_month :: "nat \<Rightarrow> nat \<Rightarrow> nat" where
  "days_in_month y m =
    (if m = 2 then (if y mod 4 = 0 \<and> (0 < y mod 100 \<or> y mod 400 = 0) then 29 else 28)
     else if m \<in> set [4, 6, 9, 11] then 30 else 31)"

definition iso_date :: "string \<Rightarrow> bool" where
  "iso_date s =
    (length s = 10 \<and> s ! 4 = CHR ''-'' \<and> s ! 7 = CHR ''-''
     \<and> list_all is_digit (take 4 s @ take 2 (drop 5 s) @ drop 8 s)
     \<and> (let y = number (take 4 s); m = number (take 2 (drop 5 s)); d = number (drop 8 s)
        in 1 \<le> y \<and> 1 \<le> m \<and> m \<le> 12 \<and> 1 \<le> d \<and> d \<le> days_in_month y m))"

text \<open>No string of the value holds the character U+0000, which PostgreSQL stores nowhere.\<close>

primrec nul_free :: "json \<Rightarrow> bool" where
  "nul_free JNull = True"
| "nul_free (JBool b) = True"
| "nul_free (JNum n) = True"
| "nul_free (JStr s) = (CHR 0x00 \<notin> set s)"
| "nul_free (JArr xs) = list_all (\<lambda>b. b) (map nul_free xs)"
| "nul_free (JObj kvs) =
     list_all (\<lambda>(k, b). CHR 0x00 \<notin> set k \<and> b) (map (map_prod id nul_free) kvs)"

text \<open>
  A value bound to a column of a type. \<open>NULL\<close> is a value of every type. A text is
  refused when it holds U+0000 and, by \<open>VARCHAR(n)\<close>, when it has more than \<open>n\<close>
  characters that are not all spaces past the \<open>n\<close>-th (when they are, the database
  stores the first \<open>n\<close>: undecided here). A \<open>uuid\<close> is accepted in the form the database
  prints, undecided in the other forms it reads, refused otherwise. A date is accepted when
  written \<open>YYYY-MM-DD\<close>, refused when the string is empty, undecided otherwise. A number
  is refused by \<open>DECIMAL(p,s)\<close> from \<open>10 ^ (p - s)\<close> on and by \<open>INTEGER\<close> outside 32
  bits. An array or an object reaches a \<open>JSONB\<close> column as its JSON text (the CRUD
  helper serializes it); a string bound to a \<open>JSONB\<close> column is read by the database as
  JSON text, so that what is stored is not the string: undecided here.
\<close>

fun column_input :: "sql_type \<Rightarrow> json \<Rightarrow> verdict" where
  "column_input ty JNull = Accepted"
| "column_input UUID (JStr s) =
    (case uuid_in s of
      None \<Rightarrow> Refused
    | Some ds \<Rightarrow> if uuid_out ds = s then Accepted else Undecided)"
| "column_input (VARCHAR None) (JStr s) = (if CHR 0x00 \<in> set s then Refused else Accepted)"
| "column_input (VARCHAR (Some n)) (JStr s) =
    (if CHR 0x00 \<in> set s then Refused
     else if length s \<le> n then Accepted
     else if list_all (\<lambda>c. c = CHR 0x20) (drop n s) then Undecided
     else Refused)"
| "column_input TEXT (JStr s) = (if CHR 0x00 \<in> set s then Refused else Accepted)"
| "column_input DATE (JStr s) =
    (if s = [] then Refused else if iso_date s then Accepted else Undecided)"
| "column_input (DECIMAL p q) (JNum n) = (if \<bar>n\<bar> < 10 ^ (p - q) then Accepted else Refused)"
| "column_input INTEGER (JNum n) =
    (if - (2 ^ 31) \<le> n \<and> n < 2 ^ 31 then Accepted else Refused)"
| "column_input JSONB (JArr xs) = (if nul_free (JArr xs) then Accepted else Refused)"
| "column_input JSONB (JObj kvs) = (if nul_free (JObj kvs) then Accepted else Refused)"
| "column_input BOOLEAN (JBool b) = Accepted"
| "column_input _ _ = Undecided"

subsection \<open>Tables\<close>

text \<open>
  What the DDL of a table contributes: the columns with their types, the NOT NULL columns
  that have no default, the defaults and the CHECK constraints.
\<close>

record table_def =
  columns :: "(string \<times> sql_type) list"
  required :: "string list"
  defaults :: row
  checks :: "row \<Rightarrow> bool"

text \<open>
  The values of a statement as the table reads them: refused when one of them is
  (a column the table does not have is refused too), undecided when none is refused and
  one is undecided.
\<close>

definition column_inputs :: "table_def \<Rightarrow> (string \<times> json) list \<Rightarrow> verdict list" where
  "column_inputs T data =
    map (\<lambda>(c, v). case map_of (columns T) c of
                     None \<Rightarrow> Refused
                   | Some ty \<Rightarrow> column_input ty v) data"

definition binds :: "table_def \<Rightarrow> (string \<times> json) list \<Rightarrow> verdict" where
  "binds T data =
    (let vs = column_inputs T data
     in if Refused \<in> set vs then Refused
        else if Undecided \<in> set vs then Undecided
        else Accepted)"

text \<open>A CHECK constraint \<open>c IN (...)\<close> passes on \<open>NULL\<close>.\<close>

definition check_in :: "row \<Rightarrow> string \<Rightarrow> string list \<Rightarrow> bool" where
  "check_in r c tokens =
    (case col r c of JNull \<Rightarrow> True | JStr s \<Rightarrow> s \<in> set tokens | _ \<Rightarrow> False)"

definition task_statuses :: "string list" where
  "task_statuses = [''not_started'', ''in_progress'', ''completed'', ''on_hold'', ''cancelled'']"

definition task_priorities :: "string list" where
  "task_priorities = [''low'', ''medium'', ''high'', ''urgent'']"

definition client_statuses :: "string list" where
  "client_statuses = [''active'', ''inactive'', ''pending'']"

definition currencies :: "string list" where
  "currencies = [''BRL'', ''USD'', ''EUR'']"

definition project_statuses :: "string list" where
  "project_statuses = [''contacted'', ''proposal'', ''won'', ''lost'']"

definition project_priorities :: "string list" where
  "project_priorities = [''low'', ''medium'', ''high'']"

text \<open>The \<open>tasks\<close> table of \<open>TasksService.ensureTables\<close>.\<close>

definition tasks_table :: table_def where
  "tasks_table =
    \<lparr>columns =
       [(''id'', UUID), (''title'', VARCHAR None), (''description'', TEXT),
        (''project_id'', UUID), (''project_title'', VARCHAR None), (''client_id'', UUID),
        (''client_name'', VARCHAR None), (''assigned_to'', VARCHAR None),
        (''status'', VARCHAR None), (''priority'', VARCHAR None), (''start_date'', DATE),
        (''end_date'', DATE), (''estimated_hours'', DECIMAL 5 2),
        (''actual_hours'', DECIMAL 5 2), (''progress'', INTEGER), (''tags'', JSONB),
        (''notes'', TEXT), (''subtasks'', JSONB), (''created_by'', VARCHAR None),
        (''created_at'', TIMESTAMP), (''updated_at'', TIMESTAMP), (''is_active'', BOOLEAN)],
     required = [''title'', ''assigned_to'', ''created_by''],
     defaults = [(''status'', JStr ''not_started''), (''priority'', JStr ''medium''),
                 (''progress'', JNum 0), (''tags'', JArr []), (''subtasks'', JArr []),
                 (''is_active'', JBool True)],
     checks = (\<lambda>r. check_in r ''status'' task_statuses
                \<and> check_in r ''priority'' task_priorities
                \<and> (case col r ''progress'' of
                      JNull \<Rightarrow> True | JNum n \<Rightarrow> 0 \<le> n \<and> n \<le> 100 | _ \<Rightarrow> False))\<rparr>"

text \<open>The \<open>clients\<close> table of \<open>ClientsService.ensureTables\<close>: it has no CHECK constraint.\<close>

definition clients_table :: table_def where
  "clients_table =
    \<lparr>columns =
       [(''id'', UUID), (''name'', VARCHAR None), (''email'', VARCHAR None),
        (''phone'', VARCHAR None), (''organization'', VARCHAR None), (''address'', JSONB),
        (''budget'', DECIMAL 15 2), (''currency'', VARCHAR (Some 3)), (''level'', VARCHAR None),
        (''status'', VARCHAR None), (''tags'', JSONB), (''notes'', TEXT),
        (''description'', TEXT), (''cpf'', VARCHAR None), (''rg'', VARCHAR None),
        (''pis'', VARCHAR None), (''cei'', VARCHAR None),
        (''professional_title'', VARCHAR None), (''marital_status'', VARCHAR None),
        (''birth_date'', DATE), (''inss_status'', VARCHAR None),
        (''amount_paid'', DECIMAL 15 2), (''referred_by'', VARCHAR None),
        (''registered_by'', VARCHAR None), (''created_by'', VARCHAR None),
        (''created_at'', TIMESTAMP), (''updated_at'', TIMESTAMP), (''is_active'', BOOLEAN)],
     required = [''name'', ''email'', ''created_by''],
     defaults = [(''address'', JObj []), (''currency'', JStr ''BRL''),
                 (''status'', JStr ''active''), (''tags'', JArr []),
                 (''is_active'', JBool True)],
     checks = (\<lambda>r. True)\<rparr>"

subsection \<open>Queries\<close>

text \<open>
  A text parameter is refused when it holds the character U+0000; a parameter compared
  with a \<open>uuid\<close> column is read as a \<open>uuid\<close>, and refused when it is none. A filter
  is bound only when truthy.
\<close>

definition text_param :: "string option \<Rightarrow> bool" where
  "text_param f = (case f of None \<Rightarrow> True | Some s \<Rightarrow> CHR 0x00 \<notin> set s)"

definition tags_param :: "string list option \<Rightarrow> bool" where
  "tags_param f = (case f of None \<Rightarrow> True | Some ts \<Rightarrow> list_all (\<lambda>t. CHR 0x00 \<notin> set t) ts)"

definition uuid_param :: "string option \<Rightarrow> bool" where
  "uuid_param f = (case f of None \<Rightarrow> True | Some s \<Rightarrow> s = [] \<or> uuid_in s \<noteq> None)"

text \<open>\<open>c = $n\<close> for a filter that is applied only when truthy, on a character column.\<close>

definition eq_filter :: "string option \<Rightarrow> string \<Rightarrow> row \<Rightarrow> bool" where
  "eq_filter f c r = (case f of None \<Rightarrow> True | Some s \<Rightarrow> s = [] \<or> col r c = JStr s)"

text \<open>The same on a \<open>uuid\<close> column: the two sides are equal as \<open>uuid\<close> values.\<close>

definition uuid_filter :: "string option \<Rightarrow> string \<Rightarrow> row \<Rightarrow> bool" where
  "uuid_filter f c r =
    (case f of
      None \<Rightarrow> True
    | Some s \<Rightarrow>
        s = [] \<or>
        (case col r c of
          JStr t \<Rightarrow> uuid_in t \<noteq> None \<and> uuid_in t = uuid_in s
        | _ \<Rightarrow> False))"

text \<open>
  \<open>LIKE\<close>: \<open>%\<close> matches any sequence, \<open>_\<close> any character, the backslash escapes the
  next character of the pattern. \<open>ILIKE\<close> compares the lower case of the two sides. A
  pattern ending in a lone backslash (an error in PostgreSQL) matches nothing; the
  patterns built by the services end in \<open>%\<close>.
\<close>

fun like_match :: "string \<Rightarrow> string \<Rightarrow> bool" where
  "like_match [] t = (t = [])"
| "like_match (p # ps) [] = (p = CHR ''%'' \<and> like_match ps [])"
| "like_match (p # ps) (c # cs) =
    (if p = CHR ''%'' then like_match ps (c # cs) \<or> like_match (p # ps) cs
     else if p = CHR ''_'' then like_match ps cs
     else if p = CHR 0x5C then (case ps of [] \<Rightarrow> False | q # qs \<Rightarrow> q = c \<and> like_match qs cs)
     else p = c \<and> like_match ps cs)"

definition ilike :: "json \<Rightarrow> string \<Rightarrow> bool" where
  "ilike v pattern =
    (case v of JStr t \<Rightarrow> like_match (map lower_char pattern) (map lower_char t) | _ \<Rightarrow> False)"

text \<open>\<open>(c1 ILIKE $n OR c2 ILIKE $n ...)\<close> with \<open>$n = `%${search}%`\<close>, when search is truthy.\<close>

definition search_filter :: "string option \<Rightarrow> string list \<Rightarrow> row \<Rightarrow> bool" where
  "search_filter f cs r =
    (case f of
      None \<Rightarrow> True
    | Some s \<Rightarrow> s = [] \<or> list_ex (\<lambda>c. ilike (col r c) (''%'' @ s @ ''%'')) cs)"

text \<open>
  \<open>tags ?| $n\<close>, when the filter has at least one tag: some tag is a string element of
  the array in the column, a key of the object, or the string itself.
\<close>

definition top_level_strings :: "json \<Rightarrow> string list" where
  "top_level_strings v =
    (case v of
      JArr xs \<Rightarrow> List.map_filter (\<lambda>x. case x of JStr s \<Rightarrow> Some s | _ \<Rightarrow> None) xs
    | JObj kvs \<Rightarrow> map fst kvs
    | JStr s \<Rightarrow> [s]
    | _ \<Rightarrow> [])"

definition tags_filter :: "string list option \<Rightarrow> row \<Rightarrow> bool" where
  "tags_filter f r =
    (case f of
      None \<Rightarrow> True
    | Some ts \<Rightarrow>
        length ts = 0 \<or> list_ex (\<lambda>t. t \<in> set (top_level_strings (col r ''tags''))) ts)"

text \<open>\<open>ORDER BY created_at DESC\<close>; rows of equal time keep their order.\<close>

definition created_at :: "row \<Rightarrow> int" where
  "created_at r = (case col r ''created_at'' of JNum n \<Rightarrow> n | _ \<Rightarrow> 0)"

definition newest_first :: "row list \<Rightarrow> row list" where
  "newest_first rs = sort_key (\<lambda>r. - created_at r) rs"

text \<open>
  \<open>LIMIT l OFFSET o\<close>: PostgreSQL refuses a negative limit or offset. Numbers are
  integers here; from \<open>2 ^ 53\<close> on, where a number of JavaScript is no longer exact
  (and short of \<open>2 ^ 63\<close>, where a \<open>bigint\<close> parameter ends), the model does not
  follow the call.
\<close>

definition limit_offset :: "int \<Rightarrow> int \<Rightarrow> row list \<Rightarrow> failure + row list" where
  "limit_offset l off rs =
    (if l < 0 \<or> off < 0 then Inl QueryError
     else if 2 ^ 53 \<le> l \<or> 2 ^ 53 \<le> off then Inl NotModelled
     else Inr (take (nat l) (drop (nat off) rs)))"

section \<open>CRUD helpers\<close>

text \<open>
  Modelled from the spec: \<open>insertInTenantSchema\<close> of the tenant helpers module, which is
  not part of the sources. It takes a mapping of column to value, fails with a validation
  error when a required column is absent, and returns the inserted row with the
  server-generated \<open>id\<close>, \<open>created_at\<close> and \<open>updated_at\<close>. The generated id and the
  clock are inputs; a statement the table refuses (a value its column does not read, a
  CHECK constraint, a duplicate primary key) is a query error and changes nothing.
\<close>

definition insertInTenantSchema ::
  "row list \<Rightarrow> table_def \<Rightarrow> string \<Rightarrow> int \<Rightarrow> (string \<times> json) list \<Rightarrow>
   failure + row \<times> row list" where
  "insertInTenantSchema rows T new_id now data =
    (case filter (\<lambda>c. col data c = JNull) (required T) of
      c # _ \<Rightarrow> Inl (ValidationError c)
    | [] \<Rightarrow>
        (let r = set_cols data
                   ([(''id'', JStr new_id), (''created_at'', JNum now),
                     (''updated_at'', JNum now)] @ defaults T)
         in if binds T data = Refused \<or> \<not> checks T r \<or> list_ex (has_id new_id) rows
            then Inl QueryError
            else if binds T data = Undecided then Inl NotModelled
            else Inr (r, rows @ [r])))"

text \<open>
  Modelled from the spec: \<open>updateInTenantSchema\<close> of the tenant helpers module, which is
  not part of the sources. It takes a partial mapping of column to new value, changes
  only the keys present, always refreshes \<open>updated_at\<close>, returns the updated row or a
  not-found signal when no row matches the id, and fails when the mapping is empty. The
  values are read by the database whether or not a row matches.
\<close>

definition updated_row :: "int \<Rightarrow> (string \<times> json) list \<Rightarrow> row \<Rightarrow> row" where
  "updated_row now data r = AList.update ''updated_at'' (JNum now) (set_cols data r)"

definition updateInTenantSchema ::
  "row list \<Rightarrow> table_def \<Rightarrow> int \<Rightarrow> string \<Rightarrow> (string \<times> json) list \<Rightarrow>
   failure + row option \<times> row list" where
  "updateInTenantSchema rows T now i data =
    (if data = [] then Inl HelperNoFieldsToUpdate
     else if binds T data = Refused then Inl QueryError
     else
       (case filter (has_id i) rows of
         [] \<Rightarrow> if binds T data = Undecided then Inl NotModelled else Inr (None, rows)
       | r # _ \<Rightarrow>
           if list_ex (\<lambda>r'. has_id i r' \<and> \<not> checks T (updated_row now data r')) rows
           then Inl QueryError
           else if binds T data = Undecided then Inl NotModelled
           else Inr (Some (updated_row now data r),
                     map (\<lambda>r'. if has_id i r' then updated_row now data r' else r') rows)))"

text \<open>
  Modelled from the spec: \<open>softDeleteInTenantSchema\<close> of the tenant helpers module, which
  is not part of the sources. It sets \<open>is_active = false\<close> for the row matching the id and
  returns the now inactive row, or a not-found signal.
\<close>

definition deactivated :: "row \<Rightarrow> row" where
  "deactivated r = AList.update ''is_active'' (JBool False) r"

definition softDeleteInTenantSchema :: "row list \<Rightarrow> string \<Rightarrow> row option \<times> row list" where
  "softDeleteInTenantSchema rows i =
    (case filter (has_id i) rows of
      [] \<Rightarrow> (None, rows)
    | r # _ \<Rightarrow> (Some (deactivated r), map (\<lambda>r'. if has_id i r' then deactivated r' else r') rows))"

section \<open>Domain services: the operations\<close>

text \<open>
  The operations on the contents of the service's table, once \<open>ensureTables\<close> has
  returned. The \<open>SELECT\<close> lists (\<open>COALESCE\<close> defaults, \<open>to_char\<close> formats) are not
  modelled: a query returns the stored rows it selects. A list call runs the page query
  and the count query with the same parameters, and fails when the database refuses one
  of them.
\<close>

record Pagination =
  page :: int
  limit :: int
  total :: int
  totalPages :: int
  hasNext :: bool
  hasPrev :: bool

subsection \<open>Projects\<close>

text \<open>
  The table of the projects service is created outside the sources; its \<open>status\<close> and
  \<open>priority\<close> columns are character columns here, as those of the other tables.
\<close>

record ProjectFilters =
  page :: "int option"
  limit :: "int option"
  status :: "string option"
  priority :: "string option"
  search :: "string option"
  tags :: "string list option"

record ProjectsPage =
  projects :: "row list"
  pagination :: Pagination

definition projects_where :: "ProjectFilters \<Rightarrow> row \<Rightarrow> bool" where
  "projects_where filters r =
    (is_active r
     \<and> eq_filter (ProjectFilters.status filters) ''status'' r
     \<and> eq_filter (ProjectFilters.priority filters) ''priority'' r
     \<and> search_filter (ProjectFilters.search filters)
         [''title'', ''client_name'', ''organization'', ''description''] r
     \<and> tags_filter (ProjectFilters.tags filters) r)"

definition projects_params :: "ProjectFilters \<Rightarrow> bool" where
  "projects_params filters =
    (text_param (ProjectFilters.status filters) \<and> text_param (ProjectFilters.priority filters)
     \<and> text_param (ProjectFilters.search filters) \<and> tags_param (ProjectFilters.tags filters))"

definition getProjects :: "row list \<Rightarrow> ProjectFilters \<Rightarrow> failure + ProjectsPage" where
  "getProjects rows filters =
    (let page = num_or (ProjectFilters.page filters) 1;
         limit = num_or (ProjectFilters.limit filters) 50;
         offset = (page - 1) * limit;
         matching = filter (projects_where filters) rows
     in if \<not> projects_params filters then Inl QueryError
        else case limit_offset limit offset (newest_first matching) of
          Inl e \<Rightarrow> Inl e
        | Inr found \<Rightarrow>
            (let total = int (length matching);
                 totalPages = - ((- total) div limit)
             in Inr \<lparr>projects = found,
                     pagination = \<lparr>Pagination.page = page, limit = limit, total = total,
                                    totalPages = totalPages, hasNext = page < totalPages,
                                    hasPrev = page > 1\<rparr>\<rparr>))"

definition getProjectById :: "row list \<Rightarrow> string \<Rightarrow> row option" where
  "getProjectById rows projectId' =
    (case filter (\<lambda>r. has_id projectId' r \<and> is_active r) rows of
      [] \<Rightarrow> None
    | r # _ \<Rightarrow> Some r)"

definition createProject ::
  "row list \<Rightarrow> table_def \<Rightarrow> string \<Rightarrow> int \<Rightarrow> CreateProjectData \<Rightarrow> string \<Rightarrow>
   failure + row \<times> row list" where
  "createProject rows T new_id now projectData createdBy =
    (case createProject_data projectData createdBy of
      Inl e \<Rightarrow> Inl (Service e)
    | Inr data \<Rightarrow> insertInTenantSchema rows T new_id now data)"

definition updateProject ::
  "row list \<Rightarrow> table_def \<Rightarrow> int \<Rightarrow> string \<Rightarrow> UpdateProjectData \<Rightarrow>
   failure + row option \<times> row list" where
  "updateProject rows T now projectId' updateData =
    (let data = updateProject_data updateData
     in if length data = 0 then Inl (Service NoFieldsToUpdate)
        else updateInTenantSchema rows T now projectId' data)"

definition deleteProject :: "row list \<Rightarrow> string \<Rightarrow> bool \<times> row list" where
  "deleteProject rows projectId' =
    (let (project, rows') = softDeleteInTenantSchema rows projectId'
     in (project \<noteq> None, rows'))"

subsection \<open>Tasks\<close>

record TaskFilters =
  page :: "int option"
  limit :: "int option"
  status :: "string option"
  priority :: "string option"
  search :: "string option"
  assignedTo :: "string option"
  projectId :: "string option"

record TasksPage =
  tasks :: "row list"
  pagination :: Pagination

definition tasks_where :: "TaskFilters \<Rightarrow> row \<Rightarrow> bool" where
  "tasks_where filters r =
    (is_active r
     \<and> eq_filter (TaskFilters.status filters) ''status'' r
     \<and> eq_filter (TaskFilters.priority filters) ''priority'' r
     \<and> eq_filter (TaskFilters.assignedTo filters) ''assigned_to'' r
     \<and> uuid_filter (TaskFilters.projectId filters) ''project_id'' r
     \<and> search_filter (TaskFilters.search filters) [''title'', ''description''] r)"

definition tasks_params :: "TaskFilters \<Rightarrow> bool" where
  "tasks_params filters =
    (text_param (TaskFilters.status filters) \<and> text_param (TaskFilters.priority filters)
     \<and> text_param (TaskFilters.assignedTo filters) \<and> uuid_param (TaskFilters.projectId filters)
     \<and> text_param (TaskFilters.search filters))"

definition getTasks :: "row list \<Rightarrow> TaskFilters \<Rightarrow> failure + TasksPage" where
  "getTasks rows filters =
    (let page = num_or (TaskFilters.page filters) 1;
         limit = num_or (TaskFilters.limit filters) 50;
         offset = (page - 1) * limit;
         matching = filter (tasks_where filters) rows
     in if \<not> tasks_params filters then Inl QueryError
        else case limit_offset limit offset (newest_first matching) of
          Inl e \<Rightarrow> Inl e
        | Inr found \<Rightarrow>
            (let total = int (length matching);
                 totalPages = - ((- total) div limit)
             in Inr \<lparr>tasks = found,
                     pagination = \<lparr>Pagination.page = page, limit = limit, total = total,
                                    totalPages = totalPages, hasNext = page < totalPages,
                                    hasPrev = page > 1\<rparr>\<rparr>))"

definition getTaskById :: "row list \<Rightarrow> string \<Rightarrow> row option" where
  "getTaskById rows taskId =
    (case filter (\<lambda>r. has_id taskId r \<and> is_active r) rows of
      [] \<Rightarrow> None
    | r # _ \<Rightarrow> Some r)"

definition createTask ::
  "row list \<Rightarrow> string \<Rightarrow> int \<Rightarrow> CreateTaskData \<Rightarrow> string \<Rightarrow> failure + row \<times> row list" where
  "createTask rows new_id now taskData createdBy =
    (case createTask_data taskData createdBy of
      Inl e \<Rightarrow> Inl (Service e)
    | Inr data \<Rightarrow> insertInTenantSchema rows tasks_table new_id now data)"

definition updateTask ::
  "row list \<Rightarrow> int \<Rightarrow> string \<Rightarrow> UpdateTaskData \<Rightarrow> failure + row option \<times> row list" where
  "updateTask rows now taskId updateData =
    (let data = updateTask_data updateData
     in if length data = 0 then Inl (Service NoFieldsToUpdate)
        else updateInTenantSchema rows tasks_table now taskId data)"

definition deleteTask :: "row list \<Rightarrow> string \<Rightarrow> bool \<times> row list" where
  "deleteTask rows taskId =
    (let (task, rows') = softDeleteInTenantSchema rows taskId
     in (task \<noteq> None, rows'))"

subsection \<open>Clients\<close>

record ClientFilters =
  page :: "int option"
  limit :: "int option"
  status :: "string option"
  search :: "string option"
  tags :: "string list option"

record ClientsPage =
  clients :: "row list"
  pagination :: Pagination

definition clients_where :: "ClientFilters \<Rightarrow> row \<Rightarrow> bool" where
  "clients_where filters r =
    (is_active r
     \<and> eq_filter (ClientFilters.status filters) ''status'' r
     \<and> search_filter (ClientFilters.search filters) [''name'', ''email''] r
     \<and> tags_filter (ClientFilters.tags filters) r)"

definition clients_params :: "ClientFilters \<Rightarrow> bool" where
  "clients_params filters =
    (text_param (ClientFilters.status filters) \<and> text_param (ClientFilters.search filters)
     \<and> tags_param (ClientFilters.tags filters))"

definition getClients :: "row list \<Rightarrow> ClientFilters \<Rightarrow> failure + ClientsPage" where
  "getClients rows filters =
    (let page = num_or (ClientFilters.page filters) 1;
         limit = num_or (ClientFilters.limit filters) 50;
         offset = (page - 1) * limit;
         matching = filter (clients_where filters) rows
     in if \<not> clients_params filters then Inl QueryError
        else case limit_offset limit offset (newest_first matching) of
          Inl e \<Rightarrow> Inl e
        | Inr found \<Rightarrow>
            (let total = int (length matching);
                 totalPages = - ((- total) div limit)
             in Inr \<lparr>clients = found,
                     pagination = \<lparr>Pagination.page = page, limit = limit, total = total,
                                    totalPages = totalPages, hasNext = page < totalPages,
                                    hasPrev = page > 1\<rparr>\<rparr>))"

definition getClientById :: "row list \<Rightarrow> string \<Rightarrow> row option" where
  "getClientById rows clientId' =
    (case filter (\<lambda>r. has_id clientId' r \<and> is_active r) rows of
      [] \<Rightarrow> None
    | r # _ \<Rightarrow> Some r)"

definition createClient ::
  "row list \<Rightarrow> string \<Rightarrow> int \<Rightarrow> CreateClientData \<Rightarrow> string \<Rightarrow> failure + row \<times> row list" where
  "createClient rows new_id now clientData createdBy =
    insertInTenantSchema rows clients_table new_id now (createClient_data clientData createdBy)"

definition updateClient ::
  "row list \<Rightarrow> int \<Rightarrow> string \<Rightarrow> UpdateClientData \<Rightarrow> failure + row option \<times> row list" where
  "updateClient rows now clientId' updateData =
    (let data = updateClient_data updateData
     in if length data = 0 then Inl (Service NoFieldsToUpdate)
        else updateInTenantSchema rows clients_table now clientId' data)"

definition deleteClient :: "row list \<Rightarrow> string \<Rightarrow> bool \<times> row list" where
  "deleteClient rows clientId' =
    (let (client, rows') = softDeleteInTenantSchema rows clientId'
     in (client \<noteq> None, rows'))"

section \<open>ensureTables\<close>

text \<open>
  The schema statements the services issue. The database decides which of them throw:
  \<open>throws db s = Some e\<close> when executing \<open>s\<close> raises \<open>e\<close>. \<open>tableExists db\<close> is
  the result of the table-existence query, one \<open>exists\<close> flag per returned row.
\<close>

datatype stmt =
  CheckTableExists
  | AddColumn string
  | MigrateEndDate
  | FillStartDate
  | FillDueDate
  | SetNotNull string
  | CreateTable string
  | CreateIndex string

record schema_db =
  throws :: "stmt \<Rightarrow> thrown option"
  tableExists :: "bool list"

datatype log_entry = TableMissing | Ignored stmt thrown

text \<open>A loop whose body is \<open>try { execute } catch (e) { console.log }\<close>: the failures logged.\<close>

fun run_ignoring :: "(stmt \<Rightarrow> thrown option) \<Rightarrow> stmt list \<Rightarrow> log_entry list" where
  "run_ignoring ex [] = []"
| "run_ignoring ex (s # ss) =
    (case ex s of
      None \<Rightarrow> run_ignoring ex ss
    | Some e \<Rightarrow> Ignored s e # run_ignoring ex ss)"

text \<open>A loop whose body awaits the statement without a guard: the first failure leaves it.\<close>

fun run_all :: "(stmt \<Rightarrow> thrown option) \<Rightarrow> stmt list \<Rightarrow> thrown option" where
  "run_all ex [] = None"
| "run_all ex (s # ss) = (case ex s of Some e \<Rightarrow> Some e | None \<Rightarrow> run_all ex ss)"

definition alterStatements :: "stmt list" where
  "alterStatements =
    [AddColumn ''organization'', AddColumn ''address'', AddColumn ''currency'',
     AddColumn ''due_date'', AddColumn ''completed_at'', AddColumn ''assigned_to'',
     AddColumn ''contacts'']"

text \<open>Every statement \<open>ProjectsService.ensureTables\<close> issues after the existence query.\<close>

definition projects_migrations :: "stmt list" where
  "projects_migrations =
    alterStatements @ [MigrateEndDate, FillStartDate, FillDueDate,
                       SetNotNull ''start_date'', SetNotNull ''due_date'']"

definition ProjectsService_ensureTables :: "schema_db \<Rightarrow> thrown + log_entry list" where
  "ProjectsService_ensureTables db =
    (case throws db CheckTableExists of
      Some e \<Rightarrow> Inl e
    | None \<Rightarrow>
        (case tableExists db of
          [] \<Rightarrow> Inr [TableMissing]
        | ex # _ \<Rightarrow>
            if \<not> ex then Inr [TableMissing]
            else Inr (run_ignoring (throws db) alterStatements
                      @ run_ignoring (throws db) [MigrateEndDate]
                      @ run_ignoring (throws db) [FillStartDate]
                      @ run_ignoring (throws db) [FillDueDate]
                      @ run_ignoring (throws db) [SetNotNull ''start_date'']
                      @ run_ignoring (throws db) [SetNotNull ''due_date''])))"

definition tasks_indexes :: "stmt list" where
  "tasks_indexes =
    [CreateIndex ''idx_tasks_assigned_to'', CreateIndex ''idx_tasks_status'',
     CreateIndex ''idx_tasks_priority'', CreateIndex ''idx_tasks_project_id'',
     CreateIndex ''idx_tasks_client_id'', CreateIndex ''idx_tasks_active'',
     CreateIndex ''idx_tasks_created_by'']"

definition TasksService_ensureTables :: "schema_db \<Rightarrow> thrown + log_entry list" where
  "TasksService_ensureTables db =
    (case throws db (CreateTable ''tasks'') of
      Some e \<Rightarrow> Inl e
    | None \<Rightarrow> (case run_all (throws db) tasks_indexes of Some e \<Rightarrow> Inl e | None \<Rightarrow> Inr []))"

definition clients_indexes :: "stmt list" where
  "clients_indexes =
    [CreateIndex ''idx_clients_name'', CreateIndex ''idx_clients_email'',
     CreateIndex ''idx_clients_status'', CreateIndex ''idx_clients_active'',
     CreateIndex ''idx_clients_created_by'']"

definition ClientsService_ensureTables :: "schema_db \<Rightarrow> thrown + log_entry list" where
  "ClientsService_ensureTables db =
    (case throws db (CreateTable ''clients'') of
      Some e \<Rightarrow> Inl e
    | None \<Rightarrow> (case run_all (throws db) clients_indexes of Some e \<Rightarrow> Inl e | None \<Rightarrow> Inr []))"

text \<open>
  Every public method of a service starts with \<open>await this.ensureTables(tenantDB)\<close>;
  \<open>rest\<close> is what the remainder of the method returns.
\<close>

definition after_ensureTables :: "thrown + log_entry list \<Rightarrow> 'a \<Rightarrow> thrown + 'a" where
  "after_ensureTables ensured rest = (case ensured of Inl e \<Rightarrow> Inl e | Inr lg \<Rightarrow> Inr rest)"

text \<open>The failures \<open>ProjectsService.ensureTables\<close> logs when the table exists.\<close>

definition ignored_failures :: "schema_db \<Rightarrow> log_entry list" where
  "ignored_failures db =
    List.map_filter (\<lambda>s. map_option (Ignored s) (throws db s)) projects_migrations"

text \<open>Databases used to exercise \<open>ensureTables\<close>.\<close>

definition drifted_db :: schema_db where
  "drifted_db =
    \<lparr>throws = (\<lambda>s. if s = CheckTableExists then None else Some (Thrown ''permission denied'')),
     tableExists = [True]\<rparr>"

definition no_index_db :: schema_db where
  "no_index_db =
    \<lparr>throws = (\<lambda>s. if s = CreateIndex ''idx_tasks_status''
                    then Some (Thrown ''permission denied'') else None),
     tableExists = [True]\<rparr>"

section \<open>Tenant access middleware\<close>

text \<open>
  The request carries the authenticated user (if any); the middleware may attach the
  tenant and the tenant database handle. \<open>user.id\<close> and \<open>tenant.id\<close> are the
  fields \<open>id'\<close> (\<open>id\<close> is the identity function of HOL).
\<close>

record AuthUser =
  id' :: "string option"
  userId :: "string option"
  role :: "string option"
  tenantId :: "string option"
  accountType :: "string option"

record Tenant =
  id' :: string
  name :: string
  isActive :: bool

record TenantDatabase =
  tenantId :: string
  schemaName :: string

record TenantRequest =
  user :: "AuthUser option"
  tenant :: "Tenant option"
  tenantDB :: "TenantDatabase option"

text \<open>
  A middleware either ends the request with a status code and a JSON body
  (\<open>res.status(c).json(body)\<close>), or calls \<open>next()\<close> with the request as it left it.
\<close>

datatype 'r outcome = Respond nat "(string \<times> string) list" | Next 'r

text \<open>
  \<open>validateTenantAccess\<close>. The tenant directory \<open>database.getTenantById\<close> and the
  handle factory \<open>tenantDB.getTenantDatabase\<close> live in the database configuration
  module and are parameters; either may throw.
\<close>

definition validateTenantAccess ::
  "(string \<Rightarrow> thrown + Tenant option) \<Rightarrow> (string \<Rightarrow> thrown + TenantDatabase) \<Rightarrow>
   TenantRequest \<Rightarrow> TenantRequest outcome" where
  "validateTenantAccess getTenantById getTenantDatabase req =
    (case user req of
      None \<Rightarrow> Respond 401 [(''error'', ''Authentication required'')]
    | Some u \<Rightarrow>
        if role u = Some ''admin'' \<or> role u = Some ''superadmin'' then Next req
        else if AuthUser.id' u = Some ''demo-user-id'' then
          Next (req\<lparr>tenant := Some \<lparr>Tenant.id' = ''demo-tenant-id'', name = ''Demo Tenant'',
                                      isActive = True\<rparr>,
                     tenantDB := Some \<lparr>TenantDatabase.tenantId = ''demo-tenant-id'',
                                        schemaName = ''tenant_demotenantid''\<rparr>\<rparr>)
        else if \<not> truthy (AuthUser.tenantId u) then
          Respond 403 [(''error'', ''Access denied: Invalid user tenant association'')]
        else
          (case AuthUser.tenantId u of
            None \<Rightarrow> Respond 403 [(''error'', ''Access denied: Invalid user tenant association'')]
          | Some tid \<Rightarrow>
              (case getTenantById tid of
                Inl dbError \<Rightarrow>
                  Respond 503 [(''error'', ''Service temporarily unavailable''),
                               (''code'', ''DB_CONNECTION_ERROR'')]
              | Inr None \<Rightarrow> Respond 403 [(''error'', ''Access denied: Tenant not found'')]
              | Inr (Some t) \<Rightarrow>
                  if \<not> isActive t then
                    Respond 403 [(''error'', ''Access denied: Tenant is inactive'')]
                  else
                    (case getTenantDatabase tid of
                      Inl dbError \<Rightarrow>
                        Respond 503 [(''error'', ''Service temporarily unavailable''),
                                     (''code'', ''DB_CONNECTION_ERROR'')]
                    | Inr h \<Rightarrow>
                        Next (req\<lparr>tenant := Some \<lparr>Tenant.id' = Tenant.id' t,
                                                    name = name t, isActive = isActive t\<rparr>,
                                   tenantDB := Some h\<rparr>)))))"

text \<open>
  A route is the middleware followed by a handler that runs the domain service; the
  handler runs only when the middleware calls \<open>next()\<close>.
\<close>

definition handle_request ::
  "(TenantRequest \<Rightarrow> TenantRequest outcome) \<Rightarrow> (TenantRequest \<Rightarrow> 'a outcome) \<Rightarrow>
   TenantRequest \<Rightarrow> 'a outcome" where
  "handle_request middleware handler req =
    (case middleware req of
      Respond c body \<Rightarrow> Respond c body
    | Next req' \<Rightarrow> handler req')"

text \<open>The body of the 403 answer to a user whose tenant is missing or inactive.\<close>

definition denied_body ::
  "(string \<Rightarrow> thrown + Tenant option) \<Rightarrow> string \<Rightarrow> (string \<times> string) list" where
  "denied_body getTenantById tid =
    (if tid = [] then [(''error'', ''Access denied: Invalid user tenant association'')]
     else if getTenantById tid = Inr None then [(''error'', ''Access denied: Tenant not found'')]
     else [(''error'', ''Access denied: Tenant is inactive'')])"

text \<open>Concrete requests used to exercise the middleware.\<close>

definition admin_user :: AuthUser where
  "admin_user = \<lparr>AuthUser.id' = Some ''u-1'', userId = Some ''u-1'', role = Some ''admin'',
                 AuthUser.tenantId = Some ''ghost'', accountType = None\<rparr>"

definition demo_user :: AuthUser where
  "demo_user = \<lparr>AuthUser.id' = Some ''demo-user-id'', userId = None, role = Some ''user'',
                AuthUser.tenantId = None, accountType = None\<rparr>"

definition regular_user :: AuthUser where
  "regular_user = \<lparr>AuthUser.id' = Some ''u-2'', userId = Some ''u-2'', role = Some ''user'',
                   AuthUser.tenantId = Some ''t-1'', accountType = Some ''basic''\<rparr>"

definition request_of :: "AuthUser \<Rightarrow> TenantRequest" where
  "request_of u = \<lparr>user = Some u, tenant = None, tenantDB = None\<rparr>"

definition empty_directory :: "string \<Rightarrow> thrown + Tenant option" where
  "empty_directory tid = Inr None"

definition inactive_directory :: "string \<Rightarrow> thrown + Tenant option" where
  "inactive_directory tid = Inr (Some \<lparr>Tenant.id' = tid, name = ''Closed'', isActive = False\<rparr>)"

definition some_handles :: "string \<Rightarrow> thrown + TenantDatabase" where
  "some_handles tid = Inr \<lparr>TenantDatabase.tenantId = tid, schemaName = ''tenant_x''\<rparr>"

definition ok_handler :: "TenantRequest \<Rightarrow> unit outcome" where
  "ok_handler req = Respond 200 [(''ran'', ''service'')]"

section \<open>Client-side list hooks\<close>

text \<open>
  A hook's load function returns either the response of the API or an object built from
  the mock data (\<open>return { clients: mockClients }\<close>).
\<close>

datatype ('m, 'r) loaded = Mock 'm | Response 'r

subsection \<open>useClients\<close>

record 'c ClientsHook =
  clients :: "'c list"
  isLoading :: bool
  error :: "string option"

text \<open>The response of \<open>apiService.getClients\<close>; \<open>response.clients\<close> may be undefined.\<close>

record 'c ClientsResponse =
  clients :: "'c list option"

text \<open>
  \<open>loadClients\<close>: the state after the call and the value returned. \<open>mockClients\<close>
  (the mock data module) is a parameter; \<open>api\<close> is the outcome of awaiting
  \<open>apiService.getClients(params)\<close>, \<open>Inl\<close> when it throws.
\<close>

definition loadClients ::
  "'c list \<Rightarrow> thrown + ('c, 'z) ClientsResponse_scheme \<Rightarrow> 'c ClientsHook \<Rightarrow>
   'c ClientsHook \<times> ('c list, ('c, 'z) ClientsResponse_scheme) loaded" where
  "loadClients mockClients api st =
    (let st1 = st\<lparr>ClientsHook.isLoading := True\<rparr>;
         st2 = st1\<lparr>ClientsHook.error := None\<rparr>;
         (st3, ret) =
           (case api of
             Inr response \<Rightarrow>
               (case ClientsResponse.clients response of
                 None \<Rightarrow> (st2\<lparr>ClientsHook.clients := mockClients\<rparr>, Mock mockClients)
               | Some cs \<Rightarrow>
                   if length cs = 0
                   then (st2\<lparr>ClientsHook.clients := mockClients\<rparr>, Mock mockClients)
                   else (st2\<lparr>ClientsHook.clients := cs\<rparr>, Response response))
           | Inl err \<Rightarrow>
               (st2\<lparr>ClientsHook.error := None, ClientsHook.clients := mockClients\<rparr>,
                Mock mockClients))
     in (st3\<lparr>ClientsHook.isLoading := False\<rparr>, ret))"

subsection \<open>useTasks\<close>

record 't TasksHook =
  tasks :: "'t list"
  isLoading :: bool
  error :: "string option"

record 't TasksResponse =
  tasks :: "'t list option"

definition loadTasks ::
  "'t list \<Rightarrow> thrown + ('t, 'z) TasksResponse_scheme \<Rightarrow> 't TasksHook \<Rightarrow>
   't TasksHook \<times> ('t list, ('t, 'z) TasksResponse_scheme) loaded" where
  "loadTasks mockTasks api st =
    (let st1 = st\<lparr>TasksHook.isLoading := True\<rparr>;
         st2 = st1\<lparr>TasksHook.error := None\<rparr>;
         (st3, ret) =
           (case api of
             Inr response \<Rightarrow>
               (case TasksResponse.tasks response of
                 None \<Rightarrow> (st2\<lparr>TasksHook.tasks := mockTasks\<rparr>, Mock mockTasks)
               | Some ts \<Rightarrow>
                   if length ts = 0
                   then (st2\<lparr>TasksHook.tasks := mockTasks\<rparr>, Mock mockTasks)
                   else (st2\<lparr>TasksHook.tasks := ts\<rparr>, Response response))
           | Inl err \<Rightarrow>
               (st2\<lparr>TasksHook.error := None, TasksHook.tasks := mockTasks\<rparr>,
                Mock mockTasks))
     in (st3\<lparr>TasksHook.isLoading := False\<rparr>, ret))"

subsection \<open>useProjects\<close>

text \<open>
  The hook's \<open>Project\<close>. The elements of the mock data carry the same fields, with a
  priority that may also be \<open>urgent\<close>.
\<close>

record HookProject =
  id' :: string
  title :: string
  description :: "string option"
  clientId :: "string option"
  clientName :: string
  organization :: "string option"
  address :: "string option"
  budget :: "int option"
  currency :: string
  status :: string
  priority :: string
  progress :: int
  startDate :: "string option"
  dueDate :: "string option"
  completedAt :: "string option"
  tags :: "string list"
  assignedTo :: "string list"
  notes' :: "string option"
  contacts :: "json list"
  createdAt :: string
  updatedAt :: string

record StatusCounts =
  contacted :: nat
  proposal :: nat
  won :: nat
  lost :: nat

record PriorityCounts =
  low :: nat
  medium :: nat
  high :: nat

record ProjectStats =
  total :: nat
  avgProgress :: int
  overdue :: nat
  revenue :: int
  byStatus :: StatusCounts
  byPriority :: PriorityCounts

record ProjectsHook =
  projects :: "HookProject list"
  stats :: "ProjectStats option"
  isLoading :: bool
  error :: "string option"

record ProjectsResponse =
  projects :: "HookProject list option"

text \<open>\<open>Math.round(s / n)\<close> for integers \<open>s\<close> and \<open>n > 0\<close>: halves round up.\<close>

definition round_div :: "int \<Rightarrow> int \<Rightarrow> int" where
  "round_div s n = (2 * s + n) div (2 * n)"

text \<open>
  \<open>calculateStatsFromProjects\<close>. \<open>before_today d\<close> stands for the comparison of the
  two \<open>Date\<close> objects: the day of the date string \<open>d\<close> is before the current day.
\<close>

definition calculateStatsFromProjects ::
  "(string \<Rightarrow> bool) \<Rightarrow> HookProject list \<Rightarrow> ProjectStats" where
  "calculateStatsFromProjects before_today projectsList =
    \<lparr>total = length projectsList,
     avgProgress =
       (if length projectsList > 0
        then round_div (sum_list (map HookProject.progress projectsList))
               (int (length projectsList))
        else 0),
     overdue = length (filter (\<lambda>p.
         case HookProject.dueDate p of
           None \<Rightarrow> False
         | Some d \<Rightarrow> d \<noteq> [] \<and> before_today d
             \<and> HookProject.status p \<noteq> ''won'' \<and> HookProject.status p \<noteq> ''lost'')
         projectsList),
     revenue = sum_list (map (\<lambda>p. case HookProject.budget p of None \<Rightarrow> 0 | Some b \<Rightarrow> b)
         (filter (\<lambda>p. HookProject.status p = ''won'') projectsList)),
     byStatus =
       \<lparr>contacted = length (filter (\<lambda>p. HookProject.status p = ''contacted'') projectsList),
        proposal = length (filter (\<lambda>p. HookProject.status p = ''proposal'') projectsList),
        won = length (filter (\<lambda>p. HookProject.status p = ''won'') projectsList),
        lost = length (filter (\<lambda>p. HookProject.status p = ''lost'') projectsList)\<rparr>,
     byPriority =
       \<lparr>low = length (filter (\<lambda>p. HookProject.priority p = ''low'') projectsList),
        medium = length (filter (\<lambda>p. HookProject.priority p = ''medium'') projectsList),
        high = length (filter (\<lambda>p. HookProject.priority p = ''high'') projectsList)\<rparr>\<rparr>"

text \<open>\<open>convertProjects\<close>: every field is copied, an \<open>urgent\<close> priority becomes \<open>high\<close>.\<close>

definition convertProjects :: "HookProject list \<Rightarrow> HookProject list" where
  "convertProjects projectsList = map (\<lambda>p.
     \<lparr>HookProject.id' = HookProject.id' p,
      title = HookProject.title p,
      description = HookProject.description p,
      clientId = HookProject.clientId p,
      clientName = HookProject.clientName p,
      organization = HookProject.organization p,
      address = HookProject.address p,
      budget = HookProject.budget p,
      currency = HookProject.currency p,
      status = HookProject.status p,
      priority = (if HookProject.priority p = ''urgent'' then ''high'' else HookProject.priority p),
      progress = HookProject.progress p,
      startDate = HookProject.startDate p,
      dueDate = HookProject.dueDate p,
      completedAt = HookProject.completedAt p,
      tags = HookProject.tags p,
      assignedTo = HookProject.assignedTo p,
      notes' = HookProject.notes' p,
      contacts = HookProject.contacts p,
      createdAt = HookProject.createdAt p,
      updatedAt = HookProject.updatedAt p\<rparr>) projectsList"

text \<open>
  \<open>loadProjects\<close>. The \<open>catch\<close> branch maps the mock data with the same field list
  as \<open>convertProjects\<close>.
\<close>

definition loadProjects ::
  "HookProject list \<Rightarrow> (string \<Rightarrow> bool) \<Rightarrow> thrown + 'z ProjectsResponse_scheme \<Rightarrow>
   ProjectsHook \<Rightarrow> ProjectsHook \<times> (HookProject list, 'z ProjectsResponse_scheme) loaded" where
  "loadProjects mockProjectsData before_today api st =
    (let st1 = st\<lparr>ProjectsHook.isLoading := True\<rparr>;
         st2 = st1\<lparr>ProjectsHook.error := None\<rparr>;
         (st3, ret) =
           (case api of
             Inr response \<Rightarrow>
               (if (case ProjectsResponse.projects response of
                      None \<Rightarrow> True | Some ps \<Rightarrow> length ps = 0)
                then
                  (let convertedProjects = convertProjects mockProjectsData;
                       mockStats = calculateStatsFromProjects before_today convertedProjects
                   in (st2\<lparr>ProjectsHook.projects := convertedProjects,
                           stats := Some mockStats\<rparr>,
                       Mock convertedProjects))
                else
                  (st2\<lparr>ProjectsHook.projects :=
                         (case ProjectsResponse.projects response of
                            None \<Rightarrow> [] | Some ps \<Rightarrow> ps)\<rparr>,
                   Response response))
           | Inl err \<Rightarrow>
               (let st4 = st2\<lparr>ProjectsHook.error := None\<rparr>;
                    convertedProjects = convertProjects mockProjectsData;
                    mockStats = calculateStatsFromProjects before_today convertedProjects
                in (st4\<lparr>ProjectsHook.projects := convertedProjects,
                        stats := Some mockStats\<rparr>,
                    Mock convertedProjects)))
     in (st3\<lparr>ProjectsHook.isLoading := False\<rparr>, ret))"

text \<open>Whether a response of the API counts as "no rows" for the hooks.\<close>

definition no_clients :: "('c, 'z) ClientsResponse_scheme \<Rightarrow> bool" where
  "no_clients r = (ClientsResponse.clients r = None \<or> ClientsResponse.clients r = Some [])"

definition no_tasks :: "('t, 'z) TasksResponse_scheme \<Rightarrow> bool" where
  "no_tasks r = (TasksResponse.tasks r = None \<or> TasksResponse.tasks r = Some [])"

definition no_projects :: "'z ProjectsResponse_scheme \<Rightarrow> bool" where
  "no_projects r = (ProjectsResponse.projects r = None \<or> ProjectsResponse.projects r = Some [])"

text \<open>Concrete hook states and data used to exercise the hooks.\<close>

definition stale_clients :: "string ClientsHook" where
  "stale_clients = \<lparr>ClientsHook.clients = [], isLoading = False, error = Some ''old error''\<rparr>"

definition stale_tasks :: "string TasksHook" where
  "stale_tasks = \<lparr>TasksHook.tasks = [], isLoading = False, error = Some ''old error''\<rparr>"

definition stale_projects :: ProjectsHook where
  "stale_projects = \<lparr>ProjectsHook.projects = [], stats = None, isLoading = False,
                       error = Some ''old error''\<rparr>"

definition sample_project :: HookProject where
  "sample_project =
     \<lparr>HookProject.id' = ''1'', title = ''Sample'', description = None, clientId = None,
      clientName = ''Acme'', organization = None, address = None, budget = Some 100,
      currency = ''BRL'', status = ''won'', priority = ''urgent'', progress = 40,
      startDate = None, dueDate = None, completedAt = None, tags = [], assignedTo = [],
      notes' = None, contacts = [], createdAt = ''2024-01-01'', updatedAt = ''2024-01-01''\<rparr>"

definition never_before :: "string \<Rightarrow> bool" where
  "never_before d = False"

section \<open>Sample inputs\<close>

text \<open>The double quote character, for JSON texts.\<close>

definition dq :: string where
  "dq = [CHR 0x22]"

text \<open>A task whose optional fields are absent, empty or \<open>none\<close>.\<close>

definition bare_task :: CreateTaskData where
  "bare_task =
    \<lparr>CreateTaskData.title = Some ''Draft'', description = Some [], projectId = Some ''none'',
     projectTitle = None, clientId = Some [], clientName = None, assignedTo = Some ''bob'',
     status = None, priority = None, startDate = Some [], endDate = None,
     estimatedHours = None, actualHours = None, progress = None, tags = Some [],
     notes' = Some [], subtasks = Some []\<rparr>"

text \<open>The same task with two tags and one subtask.\<close>

definition task_with_subtasks :: CreateTaskData where
  "task_with_subtasks =
    bare_task\<lparr>CreateTaskData.tags := Some [''a'', ''b''],
               subtasks := Some [JObj [(''title'', JStr ''s'')]]\<rparr>"

text \<open>A client with only a name and an e-mail address, and a birth date of two spaces.\<close>

definition plain_client :: CreateClientData where
  "plain_client =
    \<lparr>CreateClientData.name = Some ''Ana'', email = Some ''ana@example.com'', mobile = None,
     phone = None, organization = None, country = None, state = None, city = None,
     address = None, zipCode = None, budget = None, currency = None, level = None,
     status = None, tags = None, notes' = None, description = None, cpf = None, rg = None,
     pis = None, cei = None, professionalTitle = None, maritalStatus = None,
     birthDate = Some ''  '', inssStatus = None, amountPaid = None, referredBy = None,
     registeredBy = None\<rparr>"

text \<open>An update payload for a client with no key present.\<close>

definition no_client_keys :: UpdateClientData where
  "no_client_keys =
    \<lparr>CreateClientData.name = None, email = None, mobile = None,
     phone = None, organization = None, country = None, state = None, city = None,
     address = None, zipCode = None, budget = None, currency = None, level = None,
     status = None, tags = None, notes' = None, description = None, cpf = None, rg = None,
     pis = None, cei = None, professionalTitle = None, maritalStatus = None,
     birthDate = None, inssStatus = None, amountPaid = None, referredBy = None,
     registeredBy = None\<rparr>"

text \<open>An update payload for a task with no key present.\<close>

definition no_task_keys :: UpdateTaskData where
  "no_task_keys =
    \<lparr>CreateTaskData.title = None, description = None, projectId = None,
     projectTitle = None, clientId = None, clientName = None, assignedTo = None,
     status = None, priority = None, startDate = None, endDate = None,
     estimatedHours = None, actualHours = None, progress = None, tags = None,
     notes' = None, subtasks = None\<rparr>"

text \<open>An update payload for a project with no key present.\<close>

definition no_project_keys :: UpdateProjectData where
  "no_project_keys =
    \<lparr>CreateProjectData.title = None, description = None, clientId = None, clientName = None,
     organization = None, address = None, budget = None, currency = None, status = None,
     priority = None, progress = None, startDate = None, dueDate = None, tags = None,
     assignedTo = None, notes' = None, contacts = None\<rparr>"

text \<open>
  The pagination descriptor and the number of rows a list call promises for page \<open>p\<close>,
  limit \<open>L\<close> and \<open>N\<close> active matching rows, in the words of the specification.
\<close>

definition page_descriptor_ok :: "int \<Rightarrow> int \<Rightarrow> int \<Rightarrow> Pagination \<Rightarrow> nat \<Rightarrow> bool" where
  "page_descriptor_ok p L N pg n =
    (Pagination.page pg = p \<and> Pagination.limit pg = L \<and> Pagination.total pg = N
     \<and> Pagination.totalPages pg = \<lceil>real_of_int N / real_of_int L\<rceil>
     \<and> Pagination.hasNext pg = (p < Pagination.totalPages pg)
     \<and> Pagination.hasPrev pg = (p > 1)
     \<and> int n = min L (max 0 (N - (p - 1) * L)))"

text \<open>Filters with no key present.\<close>

definition no_project_filters :: ProjectFilters where
  "no_project_filters =
    \<lparr>ProjectFilters.page = None, limit = None, status = None, priority = None,
     search = None, tags = None\<rparr>"

definition no_task_filters :: TaskFilters where
  "no_task_filters =
    \<lparr>TaskFilters.page = None, limit = None, status = None, priority = None,
     search = None, assignedTo = None, projectId = None\<rparr>"

definition no_client_filters :: ClientFilters where
  "no_client_filters =
    \<lparr>ClientFilters.page = None, limit = None, status = None, search = None, tags = None\<rparr>"

text \<open>A table of two active rows, and the same table once the first row is deactivated.\<close>

definition two_rows :: "row list" where
  "two_rows =
    [[(''id'', JStr ''r-1''), (''created_at'', JNum 1), (''is_active'', JBool True)],
     [(''id'', JStr ''r-2''), (''created_at'', JNum 2), (''is_active'', JBool True)]]"

definition first_deleted :: "row list" where
  "first_deleted =
    [[(''id'', JStr ''r-1''), (''created_at'', JNum 1), (''is_active'', JBool False)],
     [(''id'', JStr ''r-2''), (''created_at'', JNum 2), (''is_active'', JBool True)]]"

text \<open>
  The rows a list call counts, in the words of the specification: the active rows that
  match every filter that is supplied -- the status, the priority and, for a task, the
  person assigned and the project by equality, the search text by a case-insensitive
  substring match in one of the columns searched, the tags by intersection with the tags
  of the row. A search text that holds a character which a \<open>LIKE\<close> pattern reads as
  a wild card or as an escape (\<open>%\<close>, \<open>_\<close>, the backslash) is not matched as a
  substring: it is matched as the pattern that the query builds from it.
\<close>

definition supplied :: "string option \<Rightarrow> string list" where
  "supplied f = (case f of None \<Rightarrow> [] | Some s \<Rightarrow> if s = [] then [] else [s])"

fun contains :: "string \<Rightarrow> string \<Rightarrow> bool" where
  "contains s [] = (s = [])"
| "contains s (c # cs) = (take (length s) (c # cs) = s \<or> contains s cs)"

definition contains_ci :: "json \<Rightarrow> string \<Rightarrow> bool" where
  "contains_ci v s =
    (case v of JStr t \<Rightarrow> contains (map lower_char s) (map lower_char t) | _ \<Rightarrow> False)"

definition plain :: "string \<Rightarrow> bool" where
  "plain s = list_all (\<lambda>c. c \<notin> set [CHR ''%'', CHR ''_'', CHR 0x5C]) s"

definition found_in :: "json \<Rightarrow> string \<Rightarrow> bool" where
  "found_in v s = (if plain s then contains_ci v s else ilike v (''%'' @ s @ ''%''))"

definition same_uuid :: "json \<Rightarrow> string \<Rightarrow> bool" where
  "same_uuid v s =
    (case v of JStr t \<Rightarrow> uuid_in t \<noteq> None \<and> uuid_in t = uuid_in s | _ \<Rightarrow> False)"

definition shares_tag :: "json \<Rightarrow> string list option \<Rightarrow> bool" where
  "shares_tag v f =
    (case f of
      None \<Rightarrow> True
    | Some ts \<Rightarrow> ts = [] \<or> set ts \<inter> set (top_level_strings v) \<noteq> {})"

definition active_matching_project :: "ProjectFilters \<Rightarrow> row \<Rightarrow> bool" where
  "active_matching_project f r =
    (col r ''is_active'' = JBool True
     \<and> list_all (\<lambda>s. col r ''status'' = JStr s) (supplied (ProjectFilters.status f))
     \<and> list_all (\<lambda>s. col r ''priority'' = JStr s) (supplied (ProjectFilters.priority f))
     \<and> list_all (\<lambda>s. list_ex (\<lambda>c. found_in (col r c) s)
                        [''title'', ''client_name'', ''organization'', ''description''])
         (supplied (ProjectFilters.search f))
     \<and> shares_tag (col r ''tags'') (ProjectFilters.tags f))"

definition active_matching_task :: "TaskFilters \<Rightarrow> row \<Rightarrow> bool" where
  "active_matching_task f r =
    (col r ''is_active'' = JBool True
     \<and> list_all (\<lambda>s. col r ''status'' = JStr s) (supplied (TaskFilters.status f))
     \<and> list_all (\<lambda>s. col r ''priority'' = JStr s) (supplied (TaskFilters.priority f))
     \<and> list_all (\<lambda>s. col r ''assigned_to'' = JStr s) (supplied (TaskFilters.assignedTo f))
     \<and> list_all (same_uuid (col r ''project_id'')) (supplied (TaskFilters.projectId f))
     \<and> list_all (\<lambda>s. list_ex (\<lambda>c. found_in (col r c) s) [''title'', ''description''])
         (supplied (TaskFilters.search f)))"

definition active_matching_client :: "ClientFilters \<Rightarrow> row \<Rightarrow> bool" where
  "active_matching_client f r =
    (col r ''is_active'' = JBool True
     \<and> list_all (\<lambda>s. col r ''status'' = JStr s) (supplied (ClientFilters.status f))
     \<and> list_all (\<lambda>s. list_ex (\<lambda>c. found_in (col r c) s) [''name'', ''email''])
         (supplied (ClientFilters.search f))
     \<and> shares_tag (col r ''tags'') (ClientFilters.tags f))"

text \<open>
  A page and a limit (after the defaults) from 1 on, with a limit and an offset below
  \<open>2 ^ 53\<close>.
\<close>

definition page_in_range :: "int \<Rightarrow> int \<Rightarrow> bool" where
  "page_in_range p L = (1 \<le> p \<and> 1 \<le> L \<and> L < 2 ^ 53 \<and> (p - 1) * L < 2 ^ 53)"

text \<open>
  A projects table for the examples. The DDL of the projects table is not part of the
  sources: the columns are those the projects service writes, with the types that the
  statements of its \<open>ensureTables\<close> name and, for the others, those of the tasks and
  clients tables.
\<close>

definition sample_projects_table :: table_def where
  "sample_projects_table =
    \<lparr>columns =
       [(''id'', UUID), (''title'', VARCHAR None), (''description'', TEXT),
        (''client_id'', UUID), (''client_name'', VARCHAR None),
        (''organization'', VARCHAR (Some 255)), (''address'', VARCHAR (Some 255)),
        (''budget'', DECIMAL 15 2), (''currency'', VARCHAR (Some 3)),
        (''status'', VARCHAR None), (''priority'', VARCHAR None), (''progress'', INTEGER),
        (''start_date'', TIMESTAMP), (''due_date'', TIMESTAMP), (''completed_at'', TIMESTAMP),
        (''tags'', JSONB), (''assigned_to'', JSONB), (''notes'', TEXT), (''contacts'', JSONB),
        (''created_by'', VARCHAR None), (''created_at'', TIMESTAMP),
        (''updated_at'', TIMESTAMP), (''is_active'', BOOLEAN)],
     required = [''title'', ''client_name'', ''created_by''],
     defaults = [(''currency'', JStr ''BRL''), (''assigned_to'', JArr []),
                 (''contacts'', JArr []), (''is_active'', JBool True)],
     checks = (\<lambda>r. True)\<rparr>"

text \<open>
  A table of 120 active projects that were won for Acme and are tagged \<open>vip\<close>, one
  project that was lost and one that was won and has been deleted; and the filters
  \<open>status = won\<close>, \<open>search = acme\<close>, \<open>tags = [vip]\<close> with a limit of 50.
\<close>

definition won_project :: row where
  "won_project =
    [(''id'', JStr ''3f2b8c1e-5d47-4a9b-8e21-6c0d9f7a1b34''), (''title'', JStr ''Merger''),
     (''client_name'', JStr ''Acme Ltd''), (''status'', JStr ''won''),
     (''tags'', JArr [JStr ''vip'', JStr ''q3'']), (''created_at'', JNum 1),
     (''is_active'', JBool True)]"

definition lost_project :: row where
  "lost_project =
    [(''id'', JStr ''0a1b2c3d-4e5f-4a6b-8c7d-9e0f1a2b3c4d''), (''title'', JStr ''Lease''),
     (''client_name'', JStr ''Acme Ltd''), (''status'', JStr ''lost''),
     (''tags'', JArr [JStr ''vip'']), (''created_at'', JNum 2),
     (''is_active'', JBool True)]"

definition deleted_project :: row where
  "deleted_project =
    [(''id'', JStr ''9c8b7a6f-5e4d-4c3b-a2a1-0f9e8d7c6b5a''), (''title'', JStr ''Audit''),
     (''client_name'', JStr ''Acme Ltd''), (''status'', JStr ''won''),
     (''tags'', JArr [JStr ''vip'']), (''created_at'', JNum 3),
     (''is_active'', JBool False)]"

definition many_projects :: "row list" where
  "many_projects = lost_project # deleted_project # replicate 120 won_project"

definition won_acme_vip :: ProjectFilters where
  "won_acme_vip =
    \<lparr>ProjectFilters.page = None, limit = Some 50, status = Some ''won'', priority = None,
     search = Some ''acme'', tags = Some [''vip'']\<rparr>"

text \<open>
  A table of 120 active tasks of one project and one task of another project, and the
  filter on the first project, written in upper case.
\<close>

definition project_task :: row where
  "project_task =
    [(''id'', JStr ''7d9f2a10-3b5c-4e8d-9a61-0c2e4f6a8b1d''), (''title'', JStr ''Draft''),
     (''project_id'', JStr ''3f2b8c1e-5d47-4a9b-8e21-6c0d9f7a1b34''),
     (''status'', JStr ''in_progress''), (''created_at'', JNum 1),
     (''is_active'', JBool True)]"

definition other_task :: row where
  "other_task =
    [(''id'', JStr ''1e2d3c4b-5a69-4788-9786-a5b4c3d2e1f0''), (''title'', JStr ''Review''),
     (''project_id'', JStr ''0a1b2c3d-4e5f-4a6b-8c7d-9e0f1a2b3c4d''),
     (''status'', JStr ''in_progress''), (''created_at'', JNum 2),
     (''is_active'', JBool True)]"

definition many_tasks :: "row list" where
  "many_tasks = other_task # replicate 120 project_task"

definition of_project :: TaskFilters where
  "of_project =
    \<lparr>TaskFilters.page = Some 3, limit = Some 50, status = None, priority = None,
     search = None, assignedTo = None,
     projectId = Some ''3F2B8C1E-5D47-4A9B-8E21-6C0D9F7A1B34''\<rparr>"





text \<open>A table holding one project, and an update that empties its title and its tags.\<close>

definition one_project :: row where
  "one_project =
    [(''id'', JStr ''3f2b8c1e-5d47-4a9b-8e21-6c0d9f7a1b34''), (''title'', JStr ''Old''),
     (''description'', JStr ''Keep''), (''status'', JStr ''contacted''),
     (''tags'', JArr [JStr ''x'']), (''updated_at'', JNum 1), (''is_active'', JBool True)]"



text \<open>The same project once won, at time 9.\<close>

definition won_one_project :: row where
  "won_one_project =
    [(''id'', JStr ''3f2b8c1e-5d47-4a9b-8e21-6c0d9f7a1b34''), (''title'', JStr ''Old''),
     (''description'', JStr ''Keep''), (''status'', JStr ''won''),
     (''tags'', JArr [JStr ''x'']), (''updated_at'', JNum 9), (''is_active'', JBool True)]"

text \<open>A table holding one client, and updates that name a key \<open>updateClient\<close> does not map.\<close>

definition one_client :: row where
  "one_client =
    [(''id'', JStr ''5a4b3c2d-1e0f-4a9b-8c7d-6e5f4a3b2c1d''), (''name'', JStr ''Ana''),
     (''level'', JStr ''basic''), (''currency'', JStr ''BRL''), (''status'', JStr ''active''),
     (''updated_at'', JNum 1), (''is_active'', JBool True)]"



text \<open>A table holding one task that has not started.\<close>

definition one_task :: row where
  "one_task =
    [(''id'', JStr ''7d9f2a10-3b5c-4e8d-9a61-0c2e4f6a8b1d''), (''title'', JStr ''Draft''),
     (''description'', JStr ''First''), (''status'', JStr ''not_started''),
     (''priority'', JStr ''medium''), (''start_date'', JStr ''2024-02-29''),
     (''progress'', JNum 0), (''tags'', JArr [JStr ''x'']),
     (''subtasks'', JArr [JObj [(''title'', JStr ''s'')]]), (''updated_at'', JNum 1),
     (''is_active'', JBool True)]"

definition status_only :: "string \<Rightarrow> UpdateTaskData" where
  "status_only s = no_task_keys\<lparr>CreateTaskData.status := Some s\<rparr>"

definition client_status_only :: "string \<Rightarrow> UpdateClientData" where
  "client_status_only s = no_client_keys\<lparr>CreateClientData.status := Some s\<rparr>"

definition project_status_only :: "string \<Rightarrow> UpdateProjectData" where
  "project_status_only s = no_project_keys\<lparr>CreateProjectData.status := Some s\<rparr>"



definition completed_task :: row where
  "completed_task =
    [(''id'', JStr ''7d9f2a10-3b5c-4e8d-9a61-0c2e4f6a8b1d''), (''title'', JStr ''Draft''),
     (''description'', JStr ''First''), (''status'', JStr ''completed''),
     (''priority'', JStr ''medium''), (''start_date'', JStr ''2024-02-29''),
     (''progress'', JNum 0), (''tags'', JArr [JStr ''x'']),
     (''subtasks'', JArr [JObj [(''title'', JStr ''s'')]]), (''updated_at'', JNum 9),
     (''is_active'', JBool True)]"

text \<open>The client above once pending, once archived and once billed in \<open>XYZ\<close>, at time 9.\<close>

definition pending_client :: row where
  "pending_client =
    [(''id'', JStr ''5a4b3c2d-1e0f-4a9b-8c7d-6e5f4a3b2c1d''), (''name'', JStr ''Ana''),
     (''level'', JStr ''basic''), (''currency'', JStr ''BRL''), (''status'', JStr ''pending''),
     (''updated_at'', JNum 9), (''is_active'', JBool True)]"

definition archived_client :: row where
  "archived_client =
    [(''id'', JStr ''5a4b3c2d-1e0f-4a9b-8c7d-6e5f4a3b2c1d''), (''name'', JStr ''Ana''),
     (''level'', JStr ''basic''), (''currency'', JStr ''BRL''), (''status'', JStr ''archived''),
     (''updated_at'', JNum 9), (''is_active'', JBool True)]"

definition xyz_client :: row where
  "xyz_client =
    [(''id'', JStr ''5a4b3c2d-1e0f-4a9b-8c7d-6e5f4a3b2c1d''), (''name'', JStr ''Ana''),
     (''level'', JStr ''basic''), (''currency'', JStr ''XYZ''), (''status'', JStr ''active''),
     (''updated_at'', JNum 9), (''is_active'', JBool True)]"



text \<open>A project to create, with the status \<open>archived\<close> and no priority or currency.\<close>

definition archived_new_project :: CreateProjectData where
  "archived_new_project =
    no_project_keys\<lparr>CreateProjectData.title := Some ''Merger'',
                     CreateProjectData.clientName := Some ''Acme Ltd'',
                     CreateProjectData.status := Some ''archived'',
                     CreateProjectData.startDate := Some ''2024-01-15'',
                     CreateProjectData.dueDate := Some ''2024-06-30''\<rparr>"

section \<open>Properties of the middleware\<close>

text \<open>
  C7 (as the code has it). For a user who is neither admin/superadmin nor the demo user
  and whose tenant id resolves to no tenant or to an inactive tenant, the middleware
  answers 403 and the handler (hence every domain service operation) does not run: the
  answer is the same whatever the handler is.
\<close>

theorem validateTenantAccess_denies:
  assumes "user req = Some u"
    and "role u \<noteq> Some ''admin''" and "role u \<noteq> Some ''superadmin''"
    and "AuthUser.id' u \<noteq> Some ''demo-user-id''"
    and "AuthUser.tenantId u = Some tid"
    and "dir tid = Inr None \<or> (\<exists>t. dir tid = Inr (Some t) \<and> \<not> isActive t)"
  shows "handle_request (validateTenantAccess dir tdb) handler req
           = Respond 403 (denied_body dir tid)"
  using assms
  by (auto simp: handle_request_def validateTenantAccess_def denied_body_def truthy_def)

theorem validateTenantAccess_denies_witness:
  "handle_request (validateTenantAccess empty_directory some_handles) ok_handler
      (request_of regular_user)
     = Respond 403 [(''error'', ''Access denied: Tenant not found'')]
   \<and> handle_request (validateTenantAccess inactive_directory some_handles) ok_handler
      (request_of regular_user)
     = Respond 403 [(''error'', ''Access denied: Tenant is inactive'')]"
proof -
  have u: "user (request_of regular_user) = Some regular_user"
    by (simp add: request_of_def)
  have r: "role regular_user \<noteq> Some ''admin''" "role regular_user \<noteq> Some ''superadmin''"
    "AuthUser.id' regular_user \<noteq> Some ''demo-user-id''"
    "AuthUser.tenantId regular_user = Some ''t-1''"
    by (simp_all add: regular_user_def)
  have e: "empty_directory ''t-1'' = Inr None
      \<or> (\<exists>t. empty_directory ''t-1'' = Inr (Some t) \<and> \<not> isActive t)"
    by (simp add: empty_directory_def)
  have i: "inactive_directory ''t-1'' = Inr None
      \<or> (\<exists>t. inactive_directory ''t-1'' = Inr (Some t) \<and> \<not> isActive t)"
    by (simp add: inactive_directory_def)
  show ?thesis
    using validateTenantAccess_denies
        [where dir = empty_directory and tid = "''t-1''" and tdb = some_handles
          and handler = ok_handler, OF u r e]
      validateTenantAccess_denies
        [where dir = inactive_directory and tid = "''t-1''" and tdb = some_handles
          and handler = ok_handler, OF u r i]
    by (simp add: denied_body_def empty_directory_def inactive_directory_def)
qed

text \<open>
  C7 (as the claim states it) fails for an admin: the tenant id of the admin below resolves
  to no tenant, yet the middleware calls \<open>next()\<close> and the handler runs.
\<close>

theorem validateTenantAccess_admin_counterexample:
  "empty_directory ''ghost'' = Inr None
   \<and> AuthUser.tenantId admin_user = Some ''ghost''
   \<and> handle_request (validateTenantAccess empty_directory some_handles) ok_handler
        (request_of admin_user) = Respond 200 [(''ran'', ''service'')]"
  by (simp add: handle_request_def validateTenantAccess_def empty_directory_def
      admin_user_def request_of_def ok_handler_def)

text \<open>
  C9. An admin or superadmin proceeds with the request untouched (no tenant, no tenant
  database attached), and a non-admin user with id \<open>demo-user-id\<close> proceeds with the
  hardcoded demo tenant and schema; in both cases whatever the tenant directory and the
  handle factory are, that is, without consulting them.
\<close>

theorem validateTenantAccess_bypass:
  "(user req = Some u \<and> (role u = Some ''admin'' \<or> role u = Some ''superadmin'')
      \<longrightarrow> validateTenantAccess dir tdb req = Next req)
   \<and> (user req = Some u \<and> role u \<noteq> Some ''admin'' \<and> role u \<noteq> Some ''superadmin''
        \<and> AuthUser.id' u = Some ''demo-user-id''
      \<longrightarrow> validateTenantAccess dir tdb req =
            Next (req\<lparr>tenant := Some \<lparr>Tenant.id' = ''demo-tenant-id'', name = ''Demo Tenant'',
                                        isActive = True\<rparr>,
                       tenantDB := Some \<lparr>TenantDatabase.tenantId = ''demo-tenant-id'',
                                          schemaName = ''tenant_demotenantid''\<rparr>\<rparr>))"
  by (simp add: validateTenantAccess_def)

theorem validateTenantAccess_bypass_witness:
  "validateTenantAccess empty_directory some_handles (request_of admin_user)
     = Next \<lparr>user = Some admin_user, tenant = None, tenantDB = None\<rparr>
   \<and> validateTenantAccess empty_directory some_handles (request_of demo_user)
     = Next \<lparr>user = Some demo_user,
             tenant = Some \<lparr>Tenant.id' = ''demo-tenant-id'', name = ''Demo Tenant'',
                             isActive = True\<rparr>,
             tenantDB = Some \<lparr>TenantDatabase.tenantId = ''demo-tenant-id'',
                               schemaName = ''tenant_demotenantid''\<rparr>\<rparr>"
  using validateTenantAccess_bypass
    [of "request_of admin_user" admin_user empty_directory some_handles]
    validateTenantAccess_bypass
    [of "request_of demo_user" demo_user empty_directory some_handles]
  by (simp add: request_of_def admin_user_def demo_user_def)

section \<open>Properties of the list hooks\<close>

lemma loadClients_mock:
  "(case api of Inl e \<Rightarrow> True | Inr r \<Rightarrow> no_clients r) \<Longrightarrow>
   loadClients mock api st =
     (\<lparr>ClientsHook.clients = mock, isLoading = False, error = None\<rparr>, Mock mock)"
  by (cases st) (auto simp: loadClients_def no_clients_def split: sum.splits)

lemma loadTasks_mock:
  "(case api of Inl e \<Rightarrow> True | Inr r \<Rightarrow> no_tasks r) \<Longrightarrow>
   loadTasks mock api st =
     (\<lparr>TasksHook.tasks = mock, isLoading = False, error = None\<rparr>, Mock mock)"
  by (cases st) (auto simp: loadTasks_def no_tasks_def split: sum.splits)

lemma loadProjects_mock:
  "(case api of Inl e \<Rightarrow> True | Inr r \<Rightarrow> no_projects r) \<Longrightarrow>
   loadProjects mock bt api st =
     (\<lparr>ProjectsHook.projects = convertProjects mock,
       stats = Some (calculateStatsFromProjects bt (convertProjects mock)),
       isLoading = False, error = None\<rparr>, Mock (convertProjects mock))"
  by (cases st) (auto simp: loadProjects_def no_projects_def Let_def split: sum.splits)

lemma loadClients_populated:
  "ClientsResponse.clients r = Some cs \<Longrightarrow> cs \<noteq> [] \<Longrightarrow>
   loadClients mock (Inr r) st =
     (\<lparr>ClientsHook.clients = cs, isLoading = False, error = None\<rparr>, Response r)"
  by (cases st) (auto simp: loadClients_def)

lemma loadTasks_populated:
  "TasksResponse.tasks r = Some ts \<Longrightarrow> ts \<noteq> [] \<Longrightarrow>
   loadTasks mock (Inr r) st =
     (\<lparr>TasksHook.tasks = ts, isLoading = False, error = None\<rparr>, Response r)"
  by (cases st) (auto simp: loadTasks_def)

lemma loadProjects_populated:
  "ProjectsResponse.projects r = Some ps \<Longrightarrow> ps \<noteq> [] \<Longrightarrow>
   loadProjects mock bt (Inr r) st =
     (\<lparr>ProjectsHook.projects = ps, stats = ProjectsHook.stats st, isLoading = False,
       error = None\<rparr>, Response r)"
  by (cases st) (auto simp: loadProjects_def)

text \<open>
  C8. When the list call fails or returns no rows, each list hook displays the mock data,
  reports no error and returns the mock data, so the two cases leave the same state and
  value; a populated response leaves its own rows and no error, so the displayed state
  is the one a populated response holding the mock rows would leave.
\<close>

theorem list_hooks_substitute_mock:
  "((case api_c of Inl e \<Rightarrow> True | Inr r \<Rightarrow> no_clients r) \<longrightarrow>
      loadClients mock_c api_c st_c =
        (\<lparr>ClientsHook.clients = mock_c, isLoading = False, error = None\<rparr>, Mock mock_c))
   \<and> (ClientsResponse.clients r_c = Some cs \<and> cs \<noteq> [] \<longrightarrow>
      loadClients mock_c (Inr r_c) st_c =
        (\<lparr>ClientsHook.clients = cs, isLoading = False, error = None\<rparr>, Response r_c))
   \<and> ((case api_t of Inl e \<Rightarrow> True | Inr r \<Rightarrow> no_tasks r) \<longrightarrow>
      loadTasks mock_t api_t st_t =
        (\<lparr>TasksHook.tasks = mock_t, isLoading = False, error = None\<rparr>, Mock mock_t))
   \<and> (TasksResponse.tasks r_t = Some ts \<and> ts \<noteq> [] \<longrightarrow>
      loadTasks mock_t (Inr r_t) st_t =
        (\<lparr>TasksHook.tasks = ts, isLoading = False, error = None\<rparr>, Response r_t))
   \<and> ((case api_p of Inl e \<Rightarrow> True | Inr r \<Rightarrow> no_projects r) \<longrightarrow>
      loadProjects mock_p bt api_p st_p =
        (\<lparr>ProjectsHook.projects = convertProjects mock_p,
          stats = Some (calculateStatsFromProjects bt (convertProjects mock_p)),
          isLoading = False, error = None\<rparr>, Mock (convertProjects mock_p)))
   \<and> (ProjectsResponse.projects r_p = Some ps \<and> ps \<noteq> [] \<longrightarrow>
      loadProjects mock_p bt (Inr r_p) st_p =
        (\<lparr>ProjectsHook.projects = ps, stats = ProjectsHook.stats st_p, isLoading = False,
          error = None\<rparr>, Response r_p))"
  by (simp add: loadClients_mock loadTasks_mock loadProjects_mock
      loadClients_populated loadTasks_populated loadProjects_populated)

theorem list_hooks_substitute_mock_witness:
  "loadClients [''Ana''] (Inr \<lparr>ClientsResponse.clients = Some []\<rparr>) stale_clients
     = (\<lparr>ClientsHook.clients = [''Ana''], isLoading = False, error = None\<rparr>, Mock [''Ana''])
   \<and> loadClients [''Ana''] (Inl (Thrown ''Network Error'') :: thrown + string ClientsResponse)
        stale_clients
     = (\<lparr>ClientsHook.clients = [''Ana''], isLoading = False, error = None\<rparr>, Mock [''Ana''])
   \<and> loadClients [''Ana''] (Inr \<lparr>ClientsResponse.clients = Some [''Ana'']\<rparr>) stale_clients
     = (\<lparr>ClientsHook.clients = [''Ana''], isLoading = False, error = None\<rparr>,
        Response \<lparr>ClientsResponse.clients = Some [''Ana'']\<rparr>)
   \<and> loadTasks [''Draft''] (Inr \<lparr>TasksResponse.tasks = None\<rparr>) stale_tasks
     = (\<lparr>TasksHook.tasks = [''Draft''], isLoading = False, error = None\<rparr>, Mock [''Draft''])
   \<and> loadTasks [''Draft''] (Inl (Thrown ''Network Error'') :: thrown + string TasksResponse)
        stale_tasks
     = (\<lparr>TasksHook.tasks = [''Draft''], isLoading = False, error = None\<rparr>, Mock [''Draft''])
   \<and> fst (loadProjects [sample_project] never_before
        (Inr \<lparr>ProjectsResponse.projects = Some []\<rparr>) stale_projects)
     = fst (loadProjects [sample_project] never_before
        (Inl (Thrown ''Network Error'') :: thrown + ProjectsResponse) stale_projects)
   \<and> ProjectsHook.error (fst (loadProjects [sample_project] never_before
        (Inr \<lparr>ProjectsResponse.projects = Some []\<rparr>) stale_projects)) = None
   \<and> map HookProject.priority (ProjectsHook.projects (fst (loadProjects [sample_project]
        never_before (Inr \<lparr>ProjectsResponse.projects = Some []\<rparr>) stale_projects)))
     = [''high'']"
proof -
  note empty = list_hooks_substitute_mock
    [where api_c = "Inr \<lparr>ClientsResponse.clients = Some []\<rparr>" and mock_c = "[''Ana'']"
      and st_c = stale_clients
      and r_c = "\<lparr>ClientsResponse.clients = Some [''Ana'']\<rparr>" and cs = "[''Ana'']"
      and api_t = "Inr \<lparr>TasksResponse.tasks = None\<rparr>" and mock_t = "[''Draft'']"
      and st_t = stale_tasks
      and r_t = "\<lparr>TasksResponse.tasks = Some [''Draft'']\<rparr>" and ts = "[''Draft'']"
      and api_p = "Inr \<lparr>ProjectsResponse.projects = Some []\<rparr>"
      and mock_p = "[sample_project]" and bt = never_before and st_p = stale_projects
      and r_p = "\<lparr>ProjectsResponse.projects = Some [sample_project]\<rparr>"
      and ps = "[sample_project]"]
  note failed = list_hooks_substitute_mock
    [where api_c = "Inl (Thrown ''Network Error'') :: thrown + string ClientsResponse"
      and mock_c = "[''Ana'']" and st_c = stale_clients
      and r_c = "\<lparr>ClientsResponse.clients = Some [''Ana'']\<rparr>" and cs = "[''Ana'']"
      and api_t = "Inl (Thrown ''Network Error'') :: thrown + string TasksResponse"
      and mock_t = "[''Draft'']" and st_t = stale_tasks
      and r_t = "\<lparr>TasksResponse.tasks = Some [''Draft'']\<rparr>" and ts = "[''Draft'']"
      and api_p = "Inl (Thrown ''Network Error'') :: thrown + ProjectsResponse"
      and mock_p = "[sample_project]" and bt = never_before and st_p = stale_projects
      and r_p = "\<lparr>ProjectsResponse.projects = Some [sample_project]\<rparr>"
      and ps = "[sample_project]"]
  show ?thesis
    using empty failed
    by (simp add: no_clients_def no_tasks_def no_projects_def convertProjects_def
        sample_project_def)
qed

section \<open>Properties of ensureTables\<close>

lemma run_ignoring_append:
  "run_ignoring ex (xs @ ys) = run_ignoring ex xs @ run_ignoring ex ys"
  by (induction xs) (auto split: option.splits)

lemma run_ignoring_map_filter:
  "run_ignoring ex xs = List.map_filter (\<lambda>s. map_option (Ignored s) (ex s)) xs"
  by (induction xs) (auto simp: List.map_filter_simps split: option.splits)

text \<open>
  C2 (as the code has it). In \<open>ProjectsService.ensureTables\<close> every migration statement
  is guarded: when the table-existence query itself does not throw, \<open>ensureTables\<close>
  returns normally whichever migration statements fail, its log holds exactly the
  failed statements in order, and the method that called it proceeds.
\<close>

theorem ProjectsService_ensureTables_never_throws:
  assumes "throws db CheckTableExists = None"
  shows "ProjectsService_ensureTables db =
           Inr (case tableExists db of
                  [] \<Rightarrow> [TableMissing]
                | ex # _ \<Rightarrow> if ex then ignored_failures db else [TableMissing])
         \<and> after_ensureTables (ProjectsService_ensureTables db) rest = Inr rest"
proof -
  have "run_ignoring (throws db) alterStatements
          @ run_ignoring (throws db) [MigrateEndDate]
          @ run_ignoring (throws db) [FillStartDate]
          @ run_ignoring (throws db) [FillDueDate]
          @ run_ignoring (throws db) [SetNotNull ''start_date'']
          @ run_ignoring (throws db) [SetNotNull ''due_date'']
        = run_ignoring (throws db) projects_migrations"
    unfolding projects_migrations_def
    by (simp only: run_ignoring_append [symmetric] append.simps append_assoc)
  then show ?thesis
    using assms
    by (auto simp: ProjectsService_ensureTables_def after_ensureTables_def ignored_failures_def
        run_ignoring_map_filter split: list.splits)
qed

theorem ProjectsService_ensureTables_never_throws_witness:
  "ProjectsService_ensureTables drifted_db =
     Inr (map (\<lambda>s. Ignored s (Thrown ''permission denied'')) projects_migrations)
   \<and> after_ensureTables (ProjectsService_ensureTables drifted_db) ''rows'' = Inr ''rows''"
proof -
  have h: "throws drifted_db CheckTableExists = None"
    by (simp add: drifted_db_def)
  have f: "ignored_failures drifted_db
             = map (\<lambda>s. Ignored s (Thrown ''permission denied'')) projects_migrations"
    by (simp add: drifted_db_def ignored_failures_def projects_migrations_def
        alterStatements_def List.map_filter_simps)
  have t: "tableExists drifted_db = [True]"
    by (simp add: drifted_db_def)
  show ?thesis
    using ProjectsService_ensureTables_never_throws [OF h, of "''rows''"]
    by (auto simp: f t)
qed

text \<open>
  C2 (as the claim states it) fails for the tasks service: its \<open>ensureTables\<close> awaits the
  index statements without a guard, so one failing statement aborts the request.
\<close>

theorem TasksService_ensureTables_counterexample:
  "TasksService_ensureTables no_index_db = Inl (Thrown ''permission denied'')
   \<and> after_ensureTables (TasksService_ensureTables no_index_db) ''rows''
       = Inl (Thrown ''permission denied'')"
  by (simp add: TasksService_ensureTables_def no_index_db_def tasks_indexes_def
      after_ensureTables_def)

section \<open>Properties of the data handed to the CRUD helpers\<close>

lemma fst_present: "fst ` set (present xs) \<subseteq> fst ` set xs"
  by (induction xs) (auto simp: present_def split: option.splits)

lemma map_of_present_notin: "k \<notin> fst ` set xs \<Longrightarrow> map_of (present xs) k = None"
  using fst_present [of xs] by (auto simp: map_of_eq_None_iff)

lemma map_of_present:
  "distinct (map fst xs) \<Longrightarrow>
   map_of (present xs) k = (case map_of xs k of Some (Some v) \<Rightarrow> Some v | _ \<Rightarrow> None)"
proof (induction xs)
  case Nil
  then show ?case by (simp add: present_def)
next
  case (Cons x xs)
  obtain c v where x: "x = (c, v)" by (cases x)
  from Cons.prems x have notin: "c \<notin> fst ` set xs" and d: "distinct (map fst xs)" by auto
  have step: "present ((c, v) # xs) = (case v of None \<Rightarrow> present xs | Some w \<Rightarrow> (c, w) # present xs)"
    by (simp add: present_def split: option.splits)
  show ?case
  proof (cases "k = c")
    case True
    then show ?thesis
      using map_of_present_notin [OF notin] by (simp add: step x split: option.splits)
  next
    case False
    then show ?thesis
      using Cons.IH [OF d] by (simp add: step x split: option.splits)
  qed
qed

lemma distinct_present: "distinct (map fst xs) \<Longrightarrow> distinct (map fst (present xs))"
proof (induction xs)
  case Nil
  then show ?case by (simp add: present_def)
next
  case (Cons x xs)
  obtain c v where x: "x = (c, v)" by (cases x)
  from Cons.prems x have notin: "c \<notin> fst ` set xs" and d: "distinct (map fst xs)" by auto
  have step: "present ((c, v) # xs) = (case v of None \<Rightarrow> present xs | Some w \<Rightarrow> (c, w) # present xs)"
    by (simp add: present_def split: option.splits)
  from notin fst_present [of xs] have "c \<notin> fst ` set (present xs)" by blast
  then show ?case using Cons.IH [OF d] by (simp add: step x split: option.splits)
qed

lemma trim_nonempty: "trim b \<noteq> [] \<longleftrightarrow> (\<exists>c \<in> set b. \<not> is_space c)"
proof -
  have a: "dropWhile is_space b \<noteq> [] \<longleftrightarrow> (\<exists>c \<in> set b. \<not> is_space c)"
    by (simp add: dropWhile_eq_Nil_conv)
  have "dropWhile is_space (rev (dropWhile is_space b)) \<noteq> [] \<longleftrightarrow>
        (\<exists>c \<in> set (dropWhile is_space b). \<not> is_space c)"
    by (simp add: dropWhile_eq_Nil_conv)
  also have "\<dots> \<longleftrightarrow> (\<exists>c \<in> set b. \<not> is_space c)"
    by (metis a dropWhile_eq_Nil_conv set_dropWhileD hd_dropWhile hd_in_set)
  finally show ?thesis by (simp add: trim_def)
qed

text \<open>
  C10. When a task is created, description, notes, the dates and the client and project
  references are part of the insert only when truthy (a project id of \<open>none\<close> counts
  as absent), tags and subtasks only when non-empty; when a client is created,
  \<open>birth_date\<close> is part of the insert only when the birth date has a character that
  is not white space. An update, in contrast, passes an empty description or an empty
  list of tags on as given.
\<close>

theorem create_omits_falsy_optionals:
  assumes "createTask_data taskData createdBy = Inr data"
  shows "map_of data ''description'' =
           (if truthy (CreateTaskData.description taskData)
            then map_option JStr (CreateTaskData.description taskData) else None)
       \<and> map_of data ''notes'' =
           (if truthy (CreateTaskData.notes' taskData)
            then map_option JStr (CreateTaskData.notes' taskData) else None)
       \<and> map_of data ''start_date'' =
           (if truthy (CreateTaskData.startDate taskData)
            then map_option JStr (CreateTaskData.startDate taskData) else None)
       \<and> map_of data ''end_date'' =
           (if truthy (CreateTaskData.endDate taskData)
            then map_option JStr (CreateTaskData.endDate taskData) else None)
       \<and> map_of data ''client_id'' =
           (if truthy (CreateTaskData.clientId taskData)
            then map_option JStr (CreateTaskData.clientId taskData) else None)
       \<and> map_of data ''client_name'' =
           (if truthy (CreateTaskData.clientName taskData)
            then map_option JStr (CreateTaskData.clientName taskData) else None)
       \<and> map_of data ''project_title'' =
           (if truthy (CreateTaskData.projectTitle taskData)
            then map_option JStr (CreateTaskData.projectTitle taskData) else None)
       \<and> map_of data ''project_id'' =
           (if truthy (CreateTaskData.projectId taskData)
               \<and> CreateTaskData.projectId taskData \<noteq> Some ''none''
            then map_option JStr (CreateTaskData.projectId taskData) else None)
       \<and> map_of data ''tags'' =
           (case CreateTaskData.tags taskData of
              None \<Rightarrow> None
            | Some ts \<Rightarrow> if ts = [] then None else Some (JArr (map JStr ts)))
       \<and> (map_of data ''subtasks'' = None) =
           (CreateTaskData.subtasks taskData = None \<or> CreateTaskData.subtasks taskData = Some [])
       \<and> map_of (createClient_data clientData createdBy) ''birth_date'' =
           (case CreateClientData.birthDate clientData of
              None \<Rightarrow> None
            | Some b \<Rightarrow> if \<exists>c \<in> set b. \<not> is_space c then Some (JStr b) else None)
       \<and> map_of (updateTask_data taskData) ''description'' =
           map_option JStr (CreateTaskData.description taskData)
       \<and> map_of (updateTask_data taskData) ''tags'' =
           map_option (\<lambda>ts. JArr (map JStr ts)) (CreateTaskData.tags taskData)"
proof -
  let ?opts = "[(''description'', if_truthy (CreateTaskData.description taskData)),
         (''project_id'',
            if truthy (CreateTaskData.projectId taskData)
               \<and> CreateTaskData.projectId taskData \<noteq> Some ''none''
            then map_option JStr (CreateTaskData.projectId taskData) else None),
         (''project_title'', if_truthy (CreateTaskData.projectTitle taskData)),
         (''client_id'', if_truthy (CreateTaskData.clientId taskData)),
         (''client_name'', if_truthy (CreateTaskData.clientName taskData)),
         (''start_date'', if_truthy (CreateTaskData.startDate taskData)),
         (''end_date'', if_truthy (CreateTaskData.endDate taskData)),
         (''estimated_hours'', map_option JNum (CreateTaskData.estimatedHours taskData)),
         (''actual_hours'', map_option JNum (CreateTaskData.actualHours taskData)),
         (''notes'', if_truthy (CreateTaskData.notes' taskData)),
         (''tags'',
            case CreateTaskData.tags taskData of
              None \<Rightarrow> None
            | Some ts \<Rightarrow> if length ts > 0 then Some (JStrs ts) else None),
         (''subtasks'',
            case CreateTaskData.subtasks taskData of
              None \<Rightarrow> None
            | Some ss \<Rightarrow> if length ss > 0 then Some (JStr (JSON_stringify (JArr ss)))
                         else None)]"
  have d: "distinct (map fst ?opts)" by simp
  have data: "data =
       [(''title'', jstr (CreateTaskData.title taskData)),
         (''assigned_to'', jstr (CreateTaskData.assignedTo taskData)),
         (''status'', JStr (str_or (CreateTaskData.status taskData) ''not_started'')),
         (''priority'', JStr (str_or (CreateTaskData.priority taskData) ''medium'')),
         (''progress'', JNum (num_or (CreateTaskData.progress taskData) 0)),
         (''created_by'', JStr createdBy)] @ present ?opts"
  proof -
    have "truthy (CreateTaskData.title taskData) \<and> truthy (CreateTaskData.assignedTo taskData)"
      using assms
      by (cases "truthy (CreateTaskData.title taskData)";
          cases "truthy (CreateTaskData.assignedTo taskData)")
        (simp_all add: createTask_data_def)
    then show ?thesis
      using assms by (simp add: createTask_data_def)
  qed
  have task: "\<And>k. k \<notin> set [''title'', ''assigned_to'', ''status'', ''priority'', ''progress'',
        ''created_by''] \<Longrightarrow>
      map_of data k = (case map_of ?opts k of Some (Some v) \<Rightarrow> Some v | _ \<Rightarrow> None)"
    unfolding data map_of_append map_add_def map_of_present [OF d]
    by (simp del: map_of.simps add: map_of_eq_None_iff [THEN iffD2])
  have client: "map_of (createClient_data clientData createdBy) ''birth_date'' =
           (case CreateClientData.birthDate clientData of
              None \<Rightarrow> None
            | Some b \<Rightarrow> if \<exists>c \<in> set b. \<not> is_space c then Some (JStr b) else None)"
    using trim_nonempty
    by (auto simp: createClient_data_def present_def split: option.splits)
  have upd: "map_of (updateTask_data taskData) k =
      (case map_of [(''title'', map_option JStr (CreateTaskData.title taskData)),
      (''description'', map_option JStr (CreateTaskData.description taskData)),
      (''project_id'', map_option JStr (CreateTaskData.projectId taskData)),
      (''project_title'', map_option JStr (CreateTaskData.projectTitle taskData)),
      (''client_id'', map_option JStr (CreateTaskData.clientId taskData)),
      (''client_name'', map_option JStr (CreateTaskData.clientName taskData)),
      (''assigned_to'', map_option JStr (CreateTaskData.assignedTo taskData)),
      (''status'', map_option JStr (CreateTaskData.status taskData)),
      (''priority'', map_option JStr (CreateTaskData.priority taskData)),
      (''start_date'', map_option JStr (CreateTaskData.startDate taskData)),
      (''end_date'', map_option JStr (CreateTaskData.endDate taskData)),
      (''estimated_hours'', map_option JNum (CreateTaskData.estimatedHours taskData)),
      (''actual_hours'', map_option JNum (CreateTaskData.actualHours taskData)),
      (''progress'', map_option JNum (CreateTaskData.progress taskData)),
      (''tags'', map_option JStrs (CreateTaskData.tags taskData)),
      (''notes'', map_option JStr (CreateTaskData.notes' taskData)),
      (''subtasks'',
         map_option (\<lambda>ss. JStr (JSON_stringify (JArr ss))) (CreateTaskData.subtasks taskData))] k
       of Some (Some v) \<Rightarrow> Some v | _ \<Rightarrow> None)" for k
    unfolding updateTask_data_def by (rule map_of_present) simp
  show ?thesis
    unfolding client
    by (intro conjI) (simp_all add: task upd if_truthy_def JStrs_def split: option.splits)
qed

theorem create_omits_falsy_optionals_witness:
  "createTask_data bare_task ''u-1'' =
     Inr [(''title'', JStr ''Draft''), (''assigned_to'', JStr ''bob''),
          (''status'', JStr ''not_started''), (''priority'', JStr ''medium''),
          (''progress'', JNum 0), (''created_by'', JStr ''u-1'')]
   \<and> map_of (createClient_data plain_client ''u-1'') ''birth_date'' = None
   \<and> map_of (createClient_data
               (plain_client\<lparr>CreateClientData.birthDate := Some [CHR 0xA0, CHR 0x09]\<rparr>) ''u-1'')
         ''birth_date'' = None
   \<and> map_of (updateTask_data bare_task) ''description'' = Some (JStr [])
   \<and> map_of (updateTask_data bare_task) ''tags'' = Some (JArr [])"
proof -
  have d: "createTask_data bare_task ''u-1'' =
     Inr [(''title'', JStr ''Draft''), (''assigned_to'', JStr ''bob''),
          (''status'', JStr ''not_started''), (''priority'', JStr ''medium''),
          (''progress'', JNum 0), (''created_by'', JStr ''u-1'')]"
    by (simp add: createTask_data_def bare_task_def truthy_def jstr_def str_or_def num_or_def
        if_truthy_def present_def)
  have s: "\<not> (\<exists>c \<in> set ''  ''. \<not> is_space c)"
    "\<not> (\<exists>c \<in> set [CHR 0xA0, CHR 0x09]. \<not> is_space c)"
    by (simp_all add: is_space_def)
  have b: "CreateClientData.birthDate plain_client = Some ''  ''"
      "CreateTaskData.description bare_task = Some []"
      "CreateTaskData.tags bare_task = Some []"
    by (simp_all add: plain_client_def bare_task_def)
  show ?thesis
    using create_omits_falsy_optionals [OF d, of plain_client] s
      create_omits_falsy_optionals
        [OF d, of "plain_client\<lparr>CreateClientData.birthDate := Some [CHR 0xA0, CHR 0x09]\<rparr>"]
    by (simp add: d b)
qed

text \<open>
  C1, at a task with two tags and one subtask and at a client: the tags reach the insert
  helper as the array itself, but the subtasks and the client's address reach it as a
  string that already holds the JSON text, and so do the subtasks and the address of an
  update.
\<close>

theorem json_fields_handed_over_preserialized:
  "createTask_data task_with_subtasks ''u-1'' =
     Inr [(''title'', JStr ''Draft''), (''assigned_to'', JStr ''bob''),
          (''status'', JStr ''not_started''), (''priority'', JStr ''medium''),
          (''progress'', JNum 0), (''created_by'', JStr ''u-1''),
          (''tags'', JArr [JStr ''a'', JStr ''b'']),
          (''subtasks'', JStr (''[{'' @ dq @ ''title'' @ dq @ '':'' @ dq @ ''s'' @ dq @ ''}]''))]
   \<and> map_of (createClient_data plain_client ''u-1'') ''address'' =
       Some (JStr (''{'' @ dq @ ''street'' @ dq @ '':'' @ dq @ dq @ '',''
                   @ dq @ ''city'' @ dq @ '':'' @ dq @ dq @ '',''
                   @ dq @ ''state'' @ dq @ '':'' @ dq @ dq @ '',''
                   @ dq @ ''zipCode'' @ dq @ '':'' @ dq @ dq @ '',''
                   @ dq @ ''country'' @ dq @ '':'' @ dq @ ''BR'' @ dq @ ''}''))
   \<and> updateTask_data (no_task_keys\<lparr>CreateTaskData.subtasks := Some [JStr ''a'', JStr ''b'']\<rparr>) =
       [(''subtasks'', JStr (''['' @ dq @ ''a'' @ dq @ '','' @ dq @ ''b'' @ dq @ '']''))]
   \<and> updateClient_data (no_client_keys\<lparr>CreateClientData.address := Some ''Rua A''\<rparr>) =
       [(''address'', JStr (dq @ ''Rua A'' @ dq))]"
  by (simp add: createTask_data_def task_with_subtasks_def bare_task_def truthy_def jstr_def
      str_or_def num_or_def if_truthy_def present_def JStrs_def quote_def escape_char_def dq_def
      createClient_data_def plain_client_def updateTask_data_def no_task_keys_def
      updateClient_data_def no_client_keys_def str_or_null_def)

section \<open>Properties of the operations on a table\<close>

lemma col_update: "col (AList.update k v r) c = (if c = k then v else col r c)"
  by (simp add: col_def update_conv')

lemma has_id_deactivated: "has_id i (deactivated r) = has_id i r"
  by (simp add: has_id_def deactivated_def col_update)

lemma not_active_deactivated: "\<not> is_active (deactivated r)"
  by (simp add: is_active_def deactivated_def col_update)

lemma softDelete_found:
  assumes "softDeleteInTenantSchema rows i = (Some r, rows')"
  shows "rows' = map (\<lambda>x. if has_id i x then deactivated x else x) rows"
    and "\<exists>x \<in> set rows. has_id i x"
proof -
  from assms obtain y ys where f: "filter (has_id i) rows = y # ys"
    by (cases "filter (has_id i) rows") (simp_all add: softDeleteInTenantSchema_def)
  from assms f show "rows' = map (\<lambda>x. if has_id i x then deactivated x else x) rows"
    by (simp add: softDeleteInTenantSchema_def)
  have "y \<in> set (filter (has_id i) rows)" by (simp add: f)
  then show "\<exists>x \<in> set rows. has_id i x" by auto
qed

lemma softDelete_hides:
  assumes "softDeleteInTenantSchema rows i = (Some r, rows')"
  shows "filter (\<lambda>x. has_id i x \<and> is_active x) rows' = []"
    and "\<exists>x \<in> set rows'. has_id i x \<and> col x ''is_active'' = JBool False"
    and "length rows' = length rows"
proof -
  note m = softDelete_found(1) [OF assms]
  show "filter (\<lambda>x. has_id i x \<and> is_active x) rows' = []"
    unfolding m by (auto simp: filter_empty_conv has_id_deactivated not_active_deactivated)
  from softDelete_found(2) [OF assms] obtain x where x: "x \<in> set rows" "has_id i x" by blast
  then have "deactivated x \<in> set rows'" unfolding m by force
  moreover have "has_id i (deactivated x)" using x by (simp add: has_id_deactivated)
  moreover have "col (deactivated x) ''is_active'' = JBool False"
    by (simp add: deactivated_def col_update)
  ultimately show "\<exists>x \<in> set rows'. has_id i x \<and> col x ''is_active'' = JBool False" by blast
  show "length rows' = length rows" unfolding m by simp
qed

lemma page_rows_subset:
  "limit_offset l off (newest_first m) = Inr found \<Longrightarrow> set found \<subseteq> set m"
proof -
  assume "limit_offset l off (newest_first m) = Inr found"
  then have "found = take (nat l) (drop (nat off) (newest_first m))"
    by (simp add: limit_offset_def split: if_splits)
  then have "set found \<subseteq> set (newest_first m)"
    using set_take_subset set_drop_subset by (metis subset_trans)
  then show ?thesis by (simp add: newest_first_def)
qed

lemma no_active_id_in_page:
  assumes h: "filter (\<lambda>x. has_id i x \<and> is_active x) rows = []"
    and sub: "set found \<subseteq> set (filter w rows)"
    and act: "\<And>x. w x \<Longrightarrow> is_active x"
  shows "JStr i \<notin> set (ids found)"
proof
  assume "JStr i \<in> set (ids found)"
  then obtain x where "x \<in> set found" "has_id i x"
    by (auto simp: ids_def has_id_def)
  with sub act have "x \<in> set rows" "has_id i x \<and> is_active x" by auto
  with h show False by (auto simp: filter_empty_conv)
qed

lemma getProjects_rows:
  "getProjects rows f = Inr res \<Longrightarrow>
   set (ProjectsPage.projects res) \<subseteq> set (filter (projects_where f) rows)"
  by (auto simp: getProjects_def Let_def split: sum.splits if_splits dest!: page_rows_subset)

lemma getTasks_rows:
  "getTasks rows f = Inr res \<Longrightarrow>
   set (TasksPage.tasks res) \<subseteq> set (filter (tasks_where f) rows)"
  by (auto simp: getTasks_def Let_def split: sum.splits if_splits dest!: page_rows_subset)

lemma getClients_rows:
  "getClients rows f = Inr res \<Longrightarrow>
   set (ClientsPage.clients res) \<subseteq> set (filter (clients_where f) rows)"
  by (auto simp: getClients_def Let_def split: sum.splits if_splits dest!: page_rows_subset)

text \<open>
  C4. When the soft delete of an id succeeds, reading that id afterwards returns the
  not-found signal, no list call returns it whatever the filters, and the row is still
  in the table, with \<open>is_active = false\<close>. This holds for projects, tasks and clients.
\<close>

theorem soft_deleted_is_hidden:
  "(deleteProject rows i = (True, rows') \<longrightarrow>
      getProjectById rows' i = None
      \<and> (\<forall>f res. getProjects rows' f = Inr res \<longrightarrow> JStr i \<notin> set (ids (ProjectsPage.projects res)))
      \<and> (\<exists>x \<in> set rows'. has_id i x \<and> col x ''is_active'' = JBool False)
      \<and> length rows' = length rows)
   \<and> (deleteTask rows i = (True, rows') \<longrightarrow>
      getTaskById rows' i = None
      \<and> (\<forall>f res. getTasks rows' f = Inr res \<longrightarrow> JStr i \<notin> set (ids (TasksPage.tasks res)))
      \<and> (\<exists>x \<in> set rows'. has_id i x \<and> col x ''is_active'' = JBool False)
      \<and> length rows' = length rows)
   \<and> (deleteClient rows i = (True, rows') \<longrightarrow>
      getClientById rows' i = None
      \<and> (\<forall>f res. getClients rows' f = Inr res \<longrightarrow> JStr i \<notin> set (ids (ClientsPage.clients res)))
      \<and> (\<exists>x \<in> set rows'. has_id i x \<and> col x ''is_active'' = JBool False)
      \<and> length rows' = length rows)"
proof -
  have del: "\<exists>r. softDeleteInTenantSchema rows i = (Some r, rows')"
    if "(case softDeleteInTenantSchema rows i of (x, y) \<Rightarrow> (x \<noteq> None, y)) = (True, rows')"
    using that by (cases "softDeleteInTenantSchema rows i") auto
  have core: "getProjectById rows' i = None
      \<and> (\<forall>f res. getProjects rows' f = Inr res \<longrightarrow> JStr i \<notin> set (ids (ProjectsPage.projects res)))
      \<and> getTaskById rows' i = None
      \<and> (\<forall>f res. getTasks rows' f = Inr res \<longrightarrow> JStr i \<notin> set (ids (TasksPage.tasks res)))
      \<and> getClientById rows' i = None
      \<and> (\<forall>f res. getClients rows' f = Inr res \<longrightarrow> JStr i \<notin> set (ids (ClientsPage.clients res)))
      \<and> (\<exists>x \<in> set rows'. has_id i x \<and> col x ''is_active'' = JBool False)
      \<and> length rows' = length rows"
    if s: "softDeleteInTenantSchema rows i = (Some r, rows')" for r
  proof -
    note h = softDelete_hides [OF s]
    have p: "JStr i \<notin> set (ids (ProjectsPage.projects res))"
      if "getProjects rows' f = Inr res" for f res
      using no_active_id_in_page [OF h(1) getProjects_rows [OF that]]
      by (simp add: projects_where_def)
    have t: "JStr i \<notin> set (ids (TasksPage.tasks res))"
      if "getTasks rows' f = Inr res" for f res
      using no_active_id_in_page [OF h(1) getTasks_rows [OF that]]
      by (simp add: tasks_where_def)
    have c: "JStr i \<notin> set (ids (ClientsPage.clients res))"
      if "getClients rows' f = Inr res" for f res
      using no_active_id_in_page [OF h(1) getClients_rows [OF that]]
      by (simp add: clients_where_def)
    show ?thesis
      using h p t c by (simp add: getProjectById_def getTaskById_def getClientById_def)
  qed
  show ?thesis
    unfolding deleteProject_def deleteTask_def deleteClient_def Let_def
    using del core by blast
qed

theorem soft_deleted_is_hidden_witness:
  "deleteProject two_rows ''r-1'' = (True, first_deleted)
   \<and> getProjectById first_deleted ''r-1'' = None
   \<and> getProjects first_deleted no_project_filters =
       Inr \<lparr>ProjectsPage.projects = [[(''id'', JStr ''r-2''), (''created_at'', JNum 2),
                          (''is_active'', JBool True)]],
            ProjectsPage.pagination =
              \<lparr>Pagination.page = 1, Pagination.limit = 50, Pagination.total = 1,
               Pagination.totalPages = 1, Pagination.hasNext = False,
               Pagination.hasPrev = False\<rparr>\<rparr>
   \<and> JStr ''r-1'' \<notin> set (ids [[(''id'', JStr ''r-2''), (''created_at'', JNum 2),
                                 (''is_active'', JBool True)]])
   \<and> deleteTask two_rows ''r-1'' = (True, first_deleted)
   \<and> getTaskById first_deleted ''r-1'' = None
   \<and> deleteClient two_rows ''r-1'' = (True, first_deleted)
   \<and> getClientById first_deleted ''r-1'' = None
   \<and> length first_deleted = length two_rows"
proof -
  have s: "softDeleteInTenantSchema two_rows ''r-1'' = (Some (hd first_deleted), first_deleted)"
    by (simp add: softDeleteInTenantSchema_def two_rows_def first_deleted_def has_id_def col_def
        deactivated_def)
  have d: "deleteProject two_rows ''r-1'' = (True, first_deleted)"
    "deleteTask two_rows ''r-1'' = (True, first_deleted)"
    "deleteClient two_rows ''r-1'' = (True, first_deleted)"
    by (simp_all add: deleteProject_def deleteTask_def deleteClient_def s)
  have g: "getProjects first_deleted no_project_filters =
       Inr \<lparr>ProjectsPage.projects = [[(''id'', JStr ''r-2''), (''created_at'', JNum 2),
                          (''is_active'', JBool True)]],
            ProjectsPage.pagination =
              \<lparr>Pagination.page = 1, Pagination.limit = 50, Pagination.total = 1,
               Pagination.totalPages = 1, Pagination.hasNext = False,
               Pagination.hasPrev = False\<rparr>\<rparr>"
    by (simp add: getProjects_def first_deleted_def no_project_filters_def projects_where_def
        is_active_def col_def eq_filter_def search_filter_def tags_filter_def num_or_def
        limit_offset_def newest_first_def projects_params_def text_param_def tags_param_def)
  note w = soft_deleted_is_hidden [of two_rows "''r-1''" first_deleted]
  from w d have a: "getProjectById first_deleted ''r-1'' = None"
    "getTaskById first_deleted ''r-1'' = None"
    "getClientById first_deleted ''r-1'' = None"
    "length first_deleted = length two_rows"
    by blast+
  from w d have "\<forall>f res. getProjects first_deleted f = Inr res
      \<longrightarrow> JStr ''r-1'' \<notin> set (ids (ProjectsPage.projects res))"
    by blast
  from this g have i: "JStr ''r-1'' \<notin> set (ids [[(''id'', JStr ''r-2''), (''created_at'', JNum 2),
                                 (''is_active'', JBool True)]])"
    by fastforce
  show ?thesis
    using a i d g by simp
qed

subsection \<open>Lists and pages\<close>

lemma wild_lower:
  "lower_char c = CHR ''%'' \<longleftrightarrow> c = CHR ''%''"
  "lower_char c = CHR ''_'' \<longleftrightarrow> c = CHR ''_''"
  "lower_char c = CHR 0x5C \<longleftrightarrow> c = CHR 0x5C"
  by (auto simp: lower_char_def upper_letters_def lower_letters_def split: option.splits if_splits)

lemma like_any: "like_match ''%'' t"
  by (induction t) simp_all

lemma like_percent:
  "like_match (CHR ''%'' # q) t \<longleftrightarrow> (\<exists>a b. t = a @ b \<and> like_match q b)"
proof (induction t)
  case Nil
  then show ?case by simp
next
  case (Cons c cs)
  show ?case
  proof
    assume "like_match (CHR ''%'' # q) (c # cs)"
    then have "like_match q (c # cs) \<or> like_match (CHR ''%'' # q) cs" by simp
    then show "\<exists>a b. c # cs = a @ b \<and> like_match q b"
    proof
      assume "like_match q (c # cs)"
      then have "c # cs = [] @ (c # cs) \<and> like_match q (c # cs)" by simp
      then show ?thesis by blast
    next
      assume "like_match (CHR ''%'' # q) cs"
      with Cons.IH obtain a b where "cs = a @ b" "like_match q b" by blast
      then have "c # cs = (c # a) @ b \<and> like_match q b" by simp
      then show ?thesis by blast
    qed
  next
    assume "\<exists>a b. c # cs = a @ b \<and> like_match q b"
    then obtain a b where ab: "c # cs = a @ b" "like_match q b" by blast
    show "like_match (CHR ''%'' # q) (c # cs)"
    proof (cases a)
      case Nil
      with ab have "like_match q (c # cs)" by simp
      then show ?thesis by simp
    next
      case (Cons x xs)
      with ab have "cs = xs @ b" by simp
      with ab(2) Cons.IH have "like_match (CHR ''%'' # q) cs" by blast
      then show ?thesis by simp
    qed
  qed
qed

lemma like_plain:
  "plain p \<Longrightarrow> like_match (p @ q) t \<longleftrightarrow> (\<exists>b. t = p @ b \<and> like_match q b)"
proof (induction p arbitrary: t)
  case Nil
  then show ?case by simp
next
  case (Cons x xs)
  then have x: "x \<noteq> CHR ''%''" "x \<noteq> CHR ''_''" "x \<noteq> CHR 0x5C" and xs: "plain xs"
    by (simp_all add: plain_def)
  show ?case
  proof (cases t)
    case Nil
    then show ?thesis using x by simp
  next
    case (Cons c cs)
    then show ?thesis using x Cons.IH [OF xs, of cs] by auto
  qed
qed

lemma contains_iff: "contains s t \<longleftrightarrow> (\<exists>a b. t = a @ s @ b)"
proof (induction t)
  case Nil
  then show ?case by auto
next
  case (Cons c cs)
  have p: "take (length s) (c # cs) = s \<longleftrightarrow> (\<exists>b. c # cs = s @ b)"
    by (metis append_eq_conv_conj append_take_drop_id)
  show ?case
  proof
    assume "contains s (c # cs)"
    then have "take (length s) (c # cs) = s \<or> contains s cs" by simp
    then show "\<exists>a b. c # cs = a @ s @ b"
    proof
      assume "take (length s) (c # cs) = s"
      with p obtain b where "c # cs = [] @ s @ b" by auto
      then show ?thesis by blast
    next
      assume "contains s cs"
      with Cons.IH obtain a b where "cs = a @ s @ b" by blast
      then have "c # cs = (c # a) @ s @ b" by simp
      then show ?thesis by blast
    qed
  next
    assume "\<exists>a b. c # cs = a @ s @ b"
    then obtain a b where ab: "c # cs = a @ s @ b" by blast
    show "contains s (c # cs)"
    proof (cases a)
      case Nil
      with ab have "\<exists>b. c # cs = s @ b" by auto
      with p have "take (length s) (c # cs) = s" by simp
      then show ?thesis by simp
    next
      case (Cons x xs)
      with ab have "cs = xs @ s @ b" by simp
      with Cons.IH have "contains s cs" by blast
      then show ?thesis by simp
    qed
  qed
qed

lemma like_contains:
  assumes "plain s"
  shows "like_match (''%'' @ s @ ''%'') t \<longleftrightarrow> contains s t"
proof -
  have "like_match (''%'' @ s @ ''%'') t \<longleftrightarrow> (\<exists>a b. t = a @ b \<and> like_match (s @ ''%'') b)"
    using like_percent [of "s @ ''%''" t] by simp
  also have "\<dots> \<longleftrightarrow> (\<exists>a b. t = a @ b \<and> (\<exists>b'. b = s @ b' \<and> like_match ''%'' b'))"
    using like_plain [OF assms, of "''%''"] by simp
  also have "\<dots> \<longleftrightarrow> (\<exists>a b'. t = a @ s @ b')"
    using like_any by auto
  finally show ?thesis by (simp add: contains_iff)
qed

lemma plain_lower: "plain s \<Longrightarrow> plain (map lower_char s)"
  by (induction s) (simp_all add: plain_def wild_lower)

lemma lower_percent: "lower_char CHR ''%'' = CHR ''%''"
  using wild_lower(1) [of "CHR ''%''"] by simp

lemma ilike_contains:
  assumes "plain s"
  shows "ilike v (''%'' @ s @ ''%'') = contains_ci v s"
proof (cases v)
  case (JStr t)
  have "map lower_char (''%'' @ s @ ''%'') = ''%'' @ map lower_char s @ ''%''"
    by (simp add: lower_percent)
  then show ?thesis
    using like_contains [OF plain_lower [OF assms], of "map lower_char t"]
    by (simp add: ilike_def contains_ci_def JStr)
qed (simp_all add: ilike_def contains_ci_def)

lemma ilike_contains_cons:
  "plain s \<Longrightarrow> ilike v (CHR ''%'' # s @ ''%'') = contains_ci v s"
  using ilike_contains [of s v] by simp

lemma found_in_ilike: "found_in v s = ilike v (CHR ''%'' # s @ ''%'')"
  by (cases "plain s") (simp_all add: found_in_def ilike_contains_cons)

lemma search_supplied:
  "search_filter f cs r = list_all (\<lambda>s. list_ex (\<lambda>c. found_in (col r c) s) cs) (supplied f)"
  by (simp add: search_filter_def supplied_def found_in_ilike split: option.splits)

lemma eq_supplied:
  "eq_filter f c r = list_all (\<lambda>s. col r c = JStr s) (supplied f)"
  by (simp add: eq_filter_def supplied_def split: option.splits)

lemma uuid_supplied:
  "uuid_filter f c r = list_all (same_uuid (col r c)) (supplied f)"
  by (simp add: uuid_filter_def supplied_def same_uuid_def split: option.splits)

lemma tags_shared:
  "tags_filter f r = shares_tag (col r ''tags'') f"
  by (auto simp: tags_filter_def shares_tag_def list_ex_iff split: option.splits)

lemma where_matching:
  "projects_where fp = active_matching_project fp"
  "tasks_where ft = active_matching_task ft"
  "clients_where fc = active_matching_client fc"
  by (simp_all add: fun_eq_iff projects_where_def active_matching_project_def
      tasks_where_def active_matching_task_def clients_where_def active_matching_client_def
      is_active_def eq_supplied uuid_supplied tags_shared search_supplied)

lemma length_take_drop:
  fixes L off :: int
  assumes "0 \<le> L" and "0 \<le> off"
  shows "int (length (take (nat L) (drop (nat off) xs))) = min L (max 0 (int (length xs) - off))"
  using assms by (simp add: min_def max_def) linarith

lemma limit_offset_Inr:
  assumes "limit_offset L off xs = Inr found"
  shows "0 \<le> L" and "0 \<le> off"
    and "int (length found) = min L (max 0 (int (length xs) - off))"
proof -
  from assms have a: "\<not> L < 0" "\<not> off < 0" and f: "found = take (nat L) (drop (nat off) xs)"
    by (auto simp: limit_offset_def split: if_splits)
  from a show "0 \<le> L" "0 \<le> off" by simp_all
  then show "int (length found) = min L (max 0 (int (length xs) - off))"
    unfolding f by (rule length_take_drop)
qed

lemma descriptor_core:
  fixes p L :: int
  assumes lo: "limit_offset L ((p - 1) * L) (newest_first m) = Inr found"
    and L: "L \<noteq> 0"
  shows "page_descriptor_ok p L (int (length m))
           \<lparr>Pagination.page = p, Pagination.limit = L, Pagination.total = int (length m),
            Pagination.totalPages = - ((- int (length m)) div L),
            Pagination.hasNext = p < - ((- int (length m)) div L),
            Pagination.hasPrev = p > 1\<rparr>
           (length found)"
proof -
  have c: "- ((- int (length m)) div L) = \<lceil>real_of_int (int (length m)) / real_of_int L\<rceil>"
    by (simp only: ceiling_divide_eq_div)
  show ?thesis
    using limit_offset_Inr(3) [OF lo] c
    by (simp add: page_descriptor_ok_def newest_first_def)
qed

lemma limit_offset_in_range:
  assumes "page_in_range p L"
  shows "\<exists>found. limit_offset L ((p - 1) * L) xs = Inr found"
proof -
  from assms have "1 \<le> p" "1 \<le> L" by (simp_all add: page_in_range_def)
  then have "0 \<le> (p - 1) * L" by (intro mult_nonneg_nonneg) auto
  then have "\<not> (p - 1) * L < 0" by linarith
  with assms show ?thesis
    by (simp add: limit_offset_def page_in_range_def)
qed

lemma num_or_nonzero: "num_or n 50 \<noteq> 0"
  by (simp add: num_or_def split: option.splits)

text \<open>
  C6. A list call that returns, over \<open>N\<close> active rows matching the filters, with page
  \<open>p\<close> (default 1) and limit \<open>L\<close> (default 50): the descriptor has \<open>total = N\<close>,
  \<open>totalPages = ceil(N / L)\<close>, \<open>hasNext = (p < totalPages)\<close>, \<open>hasPrev = (p > 1)\<close>
  and the page has \<open>min(L, max(0, N - (p - 1) * L))\<close> rows. The call returns whenever
  the database reads its parameters (no text with the character U+0000, a project id that
  is a \<open>uuid\<close>) and the page and the limit are from 1 on, the limit and the offset
  below \<open>2 ^ 53\<close>. This holds for projects, tasks and clients.
\<close>

theorem list_pagination:
  "(getProjects rows fp = Inr pres \<longrightarrow>
      page_descriptor_ok (num_or (ProjectFilters.page fp) 1) (num_or (ProjectFilters.limit fp) 50)
        (int (length (filter (active_matching_project fp) rows)))
        (ProjectsPage.pagination pres) (length (ProjectsPage.projects pres)))
   \<and> (projects_params fp
        \<and> page_in_range (num_or (ProjectFilters.page fp) 1) (num_or (ProjectFilters.limit fp) 50) \<longrightarrow>
      (\<exists>res. getProjects rows fp = Inr res))
   \<and> (getTasks rows ft = Inr tres \<longrightarrow>
      page_descriptor_ok (num_or (TaskFilters.page ft) 1) (num_or (TaskFilters.limit ft) 50)
        (int (length (filter (active_matching_task ft) rows)))
        (TasksPage.pagination tres) (length (TasksPage.tasks tres)))
   \<and> (tasks_params ft
        \<and> page_in_range (num_or (TaskFilters.page ft) 1) (num_or (TaskFilters.limit ft) 50) \<longrightarrow>
      (\<exists>res. getTasks rows ft = Inr res))
   \<and> (getClients rows fc = Inr cres \<longrightarrow>
      page_descriptor_ok (num_or (ClientFilters.page fc) 1) (num_or (ClientFilters.limit fc) 50)
        (int (length (filter (active_matching_client fc) rows)))
        (ClientsPage.pagination cres) (length (ClientsPage.clients cres)))
   \<and> (clients_params fc
        \<and> page_in_range (num_or (ClientFilters.page fc) 1) (num_or (ClientFilters.limit fc) 50) \<longrightarrow>
      (\<exists>res. getClients rows fc = Inr res))"
proof (intro conjI impI)
  assume a: "getProjects rows fp = Inr pres"
  let ?p = "num_or (ProjectFilters.page fp) 1" and ?L = "num_or (ProjectFilters.limit fp) 50"
  let ?m = "filter (projects_where fp) rows"
  from a obtain found where lo: "limit_offset ?L ((?p - 1) * ?L) (newest_first ?m) = Inr found"
    and res: "pres = \<lparr>ProjectsPage.projects = found,
        ProjectsPage.pagination = \<lparr>Pagination.page = ?p, Pagination.limit = ?L,
          Pagination.total = int (length ?m),
          Pagination.totalPages = - ((- int (length ?m)) div ?L),
          Pagination.hasNext = ?p < - ((- int (length ?m)) div ?L),
          Pagination.hasPrev = ?p > 1\<rparr>\<rparr>"
    by (auto simp: getProjects_def Let_def split: if_splits sum.splits)
  have w: "projects_where fp = active_matching_project fp"
    by (simp add: where_matching)
  show "page_descriptor_ok ?p ?L (int (length (filter (active_matching_project fp) rows)))
        (ProjectsPage.pagination pres) (length (ProjectsPage.projects pres))"
    using descriptor_core [OF lo num_or_nonzero] unfolding res w by simp
next
  assume a: "projects_params fp
        \<and> page_in_range (num_or (ProjectFilters.page fp) 1) (num_or (ProjectFilters.limit fp) 50)"
  then obtain found where "limit_offset (num_or (ProjectFilters.limit fp) 50)
      ((num_or (ProjectFilters.page fp) 1 - 1) * num_or (ProjectFilters.limit fp) 50)
      (newest_first (filter (projects_where fp) rows)) = Inr found"
    using limit_offset_in_range by blast
  with a show "\<exists>res. getProjects rows fp = Inr res"
    by (simp add: getProjects_def Let_def)
next
  assume a: "getTasks rows ft = Inr tres"
  let ?p = "num_or (TaskFilters.page ft) 1" and ?L = "num_or (TaskFilters.limit ft) 50"
  let ?m = "filter (tasks_where ft) rows"
  from a obtain found where lo: "limit_offset ?L ((?p - 1) * ?L) (newest_first ?m) = Inr found"
    and res: "tres = \<lparr>TasksPage.tasks = found,
        TasksPage.pagination = \<lparr>Pagination.page = ?p, Pagination.limit = ?L,
          Pagination.total = int (length ?m),
          Pagination.totalPages = - ((- int (length ?m)) div ?L),
          Pagination.hasNext = ?p < - ((- int (length ?m)) div ?L),
          Pagination.hasPrev = ?p > 1\<rparr>\<rparr>"
    by (auto simp: getTasks_def Let_def split: if_splits sum.splits)
  have w: "tasks_where ft = active_matching_task ft"
    by (simp add: where_matching)
  show "page_descriptor_ok ?p ?L (int (length (filter (active_matching_task ft) rows)))
        (TasksPage.pagination tres) (length (TasksPage.tasks tres))"
    using descriptor_core [OF lo num_or_nonzero] unfolding res w by simp
next
  assume a: "tasks_params ft
        \<and> page_in_range (num_or (TaskFilters.page ft) 1) (num_or (TaskFilters.limit ft) 50)"
  then obtain found where "limit_offset (num_or (TaskFilters.limit ft) 50)
      ((num_or (TaskFilters.page ft) 1 - 1) * num_or (TaskFilters.limit ft) 50)
      (newest_first (filter (tasks_where ft) rows)) = Inr found"
    using limit_offset_in_range by blast
  with a show "\<exists>res. getTasks rows ft = Inr res"
    by (simp add: getTasks_def Let_def)
next
  assume a: "getClients rows fc = Inr cres"
  let ?p = "num_or (ClientFilters.page fc) 1" and ?L = "num_or (ClientFilters.limit fc) 50"
  let ?m = "filter (clients_where fc) rows"
  from a obtain found where lo: "limit_offset ?L ((?p - 1) * ?L) (newest_first ?m) = Inr found"
    and res: "cres = \<lparr>ClientsPage.clients = found,
        ClientsPage.pagination = \<lparr>Pagination.page = ?p, Pagination.limit = ?L,
          Pagination.total = int (length ?m),
          Pagination.totalPages = - ((- int (length ?m)) div ?L),
          Pagination.hasNext = ?p < - ((- int (length ?m)) div ?L),
          Pagination.hasPrev = ?p > 1\<rparr>\<rparr>"
    by (auto simp: getClients_def Let_def split: if_splits sum.splits)
  have w: "clients_where fc = active_matching_client fc"
    by (simp add: where_matching)
  show "page_descriptor_ok ?p ?L (int (length (filter (active_matching_client fc) rows)))
        (ClientsPage.pagination cres) (length (ClientsPage.clients cres))"
    using descriptor_core [OF lo num_or_nonzero] unfolding res w by simp
next
  assume a: "clients_params fc
        \<and> page_in_range (num_or (ClientFilters.page fc) 1) (num_or (ClientFilters.limit fc) 50)"
  then obtain found where "limit_offset (num_or (ClientFilters.limit fc) 50)
      ((num_or (ClientFilters.page fc) 1 - 1) * num_or (ClientFilters.limit fc) 50)
      (newest_first (filter (clients_where fc) rows)) = Inr found"
    using limit_offset_in_range by blast
  with a show "\<exists>res. getClients rows fc = Inr res"
    by (simp add: getClients_def Let_def)
qed

theorem list_pagination_witness:
  "(\<exists>res. getProjects many_projects won_acme_vip = Inr res
      \<and> length (ProjectsPage.projects res) = 50
      \<and> Pagination.total (ProjectsPage.pagination res) = 120
      \<and> Pagination.totalPages (ProjectsPage.pagination res) = 3
      \<and> Pagination.hasNext (ProjectsPage.pagination res) = True
      \<and> Pagination.hasPrev (ProjectsPage.pagination res) = False)
   \<and> (\<exists>res. getProjects many_projects (won_acme_vip\<lparr>ProjectFilters.page := Some 3\<rparr>) = Inr res
      \<and> length (ProjectsPage.projects res) = 20
      \<and> Pagination.totalPages (ProjectsPage.pagination res) = 3
      \<and> Pagination.hasNext (ProjectsPage.pagination res) = False)
   \<and> (\<exists>res. getTasks many_tasks of_project = Inr res
      \<and> length (TasksPage.tasks res) = 20
      \<and> Pagination.total (TasksPage.pagination res) = 120
      \<and> Pagination.hasNext (TasksPage.pagination res) = False
      \<and> Pagination.hasPrev (TasksPage.pagination res) = True)"
proof -
  let ?f1 = won_acme_vip
  let ?f3 = "won_acme_vip\<lparr>ProjectFilters.page := Some 3\<rparr>"
  have lc: "lower_char CHR ''a'' = CHR ''a''" "lower_char CHR ''c'' = CHR ''c''"
    "lower_char CHR ''m'' = CHR ''m''" "lower_char CHR ''e'' = CHR ''e''"
    "lower_char CHR ''A'' = CHR ''a''" "lower_char CHR ''L'' = CHR ''l''"
    "lower_char CHR ''t'' = CHR ''t''" "lower_char CHR ''d'' = CHR ''d''"
    "lower_char CHR '' '' = CHR '' ''" "lower_char CHR ''M'' = CHR ''m''"
    "lower_char CHR ''r'' = CHR ''r''" "lower_char CHR ''g'' = CHR ''g''"
    by (simp_all add: lower_char_def upper_letters_def lower_letters_def)
  have same: "active_matching_project ?f3 = active_matching_project ?f1"
    by (simp add: fun_eq_iff active_matching_project_def)
  have m: "active_matching_project ?f1 won_project" "\<not> active_matching_project ?f1 lost_project"
    "\<not> active_matching_project ?f1 deleted_project"
    by (simp_all add: active_matching_project_def won_acme_vip_def won_project_def
        lost_project_def deleted_project_def col_def supplied_def found_in_def plain_def
        contains_ci_def shares_tag_def
        top_level_strings_def List.map_filter_simps lc)
  have n: "int (length (filter (active_matching_project ?f1) many_projects)) = 120"
    "int (length (filter (active_matching_project ?f3) many_projects)) = 120"
    by (simp_all add: many_projects_def m same)
  have p: "num_or (ProjectFilters.page ?f1) 1 = 1" "num_or (ProjectFilters.limit ?f1) 50 = 50"
    "num_or (ProjectFilters.page ?f3) 1 = 3" "num_or (ProjectFilters.limit ?f3) 50 = 50"
    by (simp_all add: num_or_def won_acme_vip_def)
  have ok: "projects_params ?f1" "projects_params ?f3"
    "page_in_range 1 50" "page_in_range 3 50"
    by (simp_all add: projects_params_def text_param_def tags_param_def won_acme_vip_def
        page_in_range_def)
  have u: "uuid_in ''3f2b8c1e-5d47-4a9b-8e21-6c0d9f7a1b34'' = Some ''3f2b8c1e5d474a9b8e216c0d9f7a1b34''"
    "uuid_in ''3F2B8C1E-5D47-4A9B-8E21-6C0D9F7A1B34'' = Some ''3f2b8c1e5d474a9b8e216c0d9f7a1b34''"
    "uuid_in ''0a1b2c3d-4e5f-4a6b-8c7d-9e0f1a2b3c4d'' = Some ''0a1b2c3d4e5f4a6b8c7d9e0f1a2b3c4d''"
    by (simp_all add: uuid_in_def hex4_def hyphen_def is_hex_def lower_hex_def)
  have mt: "active_matching_task of_project project_task"
    "\<not> active_matching_task of_project other_task"
    by (simp_all add: active_matching_task_def of_project_def project_task_def other_task_def
        col_def supplied_def same_uuid_def u)
  have nt: "int (length (filter (active_matching_task of_project) many_tasks)) = 120"
    by (simp add: many_tasks_def mt)
  have pt: "num_or (TaskFilters.page of_project) 1 = 3" "num_or (TaskFilters.limit of_project) 50 = 50"
    by (simp_all add: num_or_def of_project_def)
  have okt: "tasks_params of_project"
    by (simp add: tasks_params_def text_param_def uuid_param_def of_project_def u)
  from list_pagination [where fp = ?f1 and rows = many_projects, THEN conjunct2, THEN conjunct1]
  obtain r1 where r1: "getProjects many_projects ?f1 = Inr r1"
    using ok p by auto
  from list_pagination [where fp = ?f1 and rows = many_projects and pres = r1, THEN conjunct1]
  have d1: "page_descriptor_ok 1 50 120 (ProjectsPage.pagination r1)
      (length (ProjectsPage.projects r1))"
    using r1 unfolding n p by simp
  from list_pagination [where fp = ?f3 and rows = many_projects, THEN conjunct2, THEN conjunct1]
  obtain r3 where r3: "getProjects many_projects ?f3 = Inr r3"
    using ok p by auto
  from list_pagination [where fp = ?f3 and rows = many_projects and pres = r3, THEN conjunct1]
  have d3: "page_descriptor_ok 3 50 120 (ProjectsPage.pagination r3)
      (length (ProjectsPage.projects r3))"
    using r3 unfolding n p by simp
  from list_pagination [where ft = of_project and rows = many_tasks,
      THEN conjunct2, THEN conjunct2, THEN conjunct2, THEN conjunct1]
  obtain t3 where t3: "getTasks many_tasks of_project = Inr t3"
    using okt ok pt by auto
  from list_pagination [where ft = of_project and rows = many_tasks and tres = t3,
      THEN conjunct2, THEN conjunct2, THEN conjunct1]
  have dt: "page_descriptor_ok 3 50 120 (TasksPage.pagination t3)
      (length (TasksPage.tasks t3))"
    using t3 unfolding nt pt by simp
  from r1 d1 r3 d3 t3 dt show ?thesis
    by (auto simp: page_descriptor_ok_def)
qed

section \<open>Properties of update\<close>

lemma map_of_set_cols: "map_of (set_cols data r) = map_of r ++ map_of (rev data)"
proof (induction data arbitrary: r)
  case Nil
  then show ?case by (simp add: set_cols_def)
next
  case (Cons x data)
  obtain c v where x: "x = (c, v)" by (cases x)
  have "set_cols (x # data) r = set_cols data (AList.update c v r)"
    by (simp add: set_cols_def x)
  then show ?case
    by (simp add: Cons.IH update_conv' x map_add_def fun_eq_iff split: option.splits)
qed

lemma map_of_rev_distinct:
  "distinct (map fst xs) \<Longrightarrow> map_of (rev xs) = map_of xs"
proof (induction xs)
  case Nil
  then show ?case by simp
next
  case (Cons x xs)
  then have "map_of xs (fst x) = None"
    by (simp add: map_of_eq_None_iff)
  with Cons show ?case
    by (auto simp: map_add_def fun_eq_iff split: option.splits)
qed

lemma col_set_cols:
  assumes "distinct (map fst data)"
  shows "col (set_cols data r) c = (case map_of data c of Some v \<Rightarrow> v | None \<Rightarrow> col r c)"
  by (simp add: col_def map_of_set_cols map_of_rev_distinct [OF assms] map_add_def split: option.splits)

lemma col_updated_row:
  assumes "distinct (map fst data)"
  shows "col (updated_row now data r) c =
    (if c = ''updated_at'' then JNum now
     else case map_of data c of Some v \<Rightarrow> v | None \<Rightarrow> col r c)"
  by (simp add: updated_row_def col_update col_set_cols [OF assms])

lemma filter_single:
  assumes "filter P xs = [r]"
  shows "\<forall>x \<in> set xs. P x \<longrightarrow> x = r"
proof -
  have "set (filter P xs) = {r}" by (simp add: assms)
  then show ?thesis by auto
qed

lemma update_helper_found:
  assumes ne: "data \<noteq> []"
    and one: "filter (has_id i) rows = [r]"
    and types: "binds T data = Accepted"
    and ok: "checks T (updated_row now data r)"
  shows "updateInTenantSchema rows T now i data =
    Inr (Some (updated_row now data r),
         map (\<lambda>x. if has_id i x then updated_row now data r else x) rows)"
proof -
  note u = filter_single [OF one]
  have "\<not> list_ex (\<lambda>r'. has_id i r' \<and> \<not> checks T (updated_row now data r')) rows"
    using u ok by (auto simp: list_ex_iff)
  moreover have "map (\<lambda>r'. if has_id i r' then updated_row now data r' else r') rows
      = map (\<lambda>x. if has_id i x then updated_row now data r else x) rows"
    using u by (intro map_cong) auto
  ultimately show ?thesis
    using ne one types by (simp add: updateInTenantSchema_def)
qed


lemma updateProject_data_lookup:
  "map_of (updateProject_data up) k =
    (case map_of
      [(''title'', map_option JStr (CreateProjectData.title up)),
       (''description'', map_option JStr (CreateProjectData.description up)),
       (''client_id'', map_option JStr (CreateProjectData.clientId up)),
       (''client_name'', map_option JStr (CreateProjectData.clientName up)),
       (''organization'', map_option JStr (CreateProjectData.organization up)),
       (''address'', map_option JStr (CreateProjectData.address up)),
       (''budget'', map_option JNum (CreateProjectData.budget up)),
       (''currency'', map_option JStr (CreateProjectData.currency up)),
       (''status'', map_option JStr (CreateProjectData.status up)),
       (''priority'', map_option JStr (CreateProjectData.priority up)),
       (''progress'', map_option JNum (CreateProjectData.progress up)),
       (''start_date'', map_option JStr (CreateProjectData.startDate up)),
       (''due_date'', map_option JStr (CreateProjectData.dueDate up)),
       (''tags'', map_option JStrs (CreateProjectData.tags up)),
       (''assigned_to'', map_option JStrs (CreateProjectData.assignedTo up)),
       (''notes'', map_option JStr (CreateProjectData.notes' up)),
       (''contacts'', map_option JArr (CreateProjectData.contacts up))] k
     of Some (Some v) \<Rightarrow> Some v | _ \<Rightarrow> None)"
  unfolding updateProject_data_def by (rule map_of_present) simp

lemma updateTask_data_lookup:
  "map_of (updateTask_data ut) k =
    (case map_of
      [(''title'', map_option JStr (CreateTaskData.title ut)),
       (''description'', map_option JStr (CreateTaskData.description ut)),
       (''project_id'', map_option JStr (CreateTaskData.projectId ut)),
       (''project_title'', map_option JStr (CreateTaskData.projectTitle ut)),
       (''client_id'', map_option JStr (CreateTaskData.clientId ut)),
       (''client_name'', map_option JStr (CreateTaskData.clientName ut)),
       (''assigned_to'', map_option JStr (CreateTaskData.assignedTo ut)),
       (''status'', map_option JStr (CreateTaskData.status ut)),
       (''priority'', map_option JStr (CreateTaskData.priority ut)),
       (''start_date'', map_option JStr (CreateTaskData.startDate ut)),
       (''end_date'', map_option JStr (CreateTaskData.endDate ut)),
       (''estimated_hours'', map_option JNum (CreateTaskData.estimatedHours ut)),
       (''actual_hours'', map_option JNum (CreateTaskData.actualHours ut)),
       (''progress'', map_option JNum (CreateTaskData.progress ut)),
       (''tags'', map_option JStrs (CreateTaskData.tags ut)),
       (''notes'', map_option JStr (CreateTaskData.notes' ut)),
       (''subtasks'',
          map_option (\<lambda>ss. JStr (JSON_stringify (JArr ss))) (CreateTaskData.subtasks ut))] k
     of Some (Some v) \<Rightarrow> Some v | _ \<Rightarrow> None)"
  unfolding updateTask_data_def by (rule map_of_present) simp

lemma updateClient_data_lookup:
  "map_of (updateClient_data uc) k =
    (case map_of
      [(''name'', map_option JStr (CreateClientData.name uc)),
       (''email'', map_option JStr (CreateClientData.email uc)),
       (''phone'', map_option JStr (CreateClientData.phone uc)),
       (''organization'', map_option JStr (CreateClientData.organization uc)),
       (''address'',
          map_option (\<lambda>a. JStr (JSON_stringify (JStr a))) (CreateClientData.address uc)),
       (''budget'', map_option JNum (CreateClientData.budget uc)),
       (''currency'', map_option JStr (CreateClientData.currency uc)),
       (''status'', map_option JStr (CreateClientData.status uc)),
       (''tags'', map_option JStrs (CreateClientData.tags uc)),
       (''notes'', map_option JStr (CreateClientData.notes' uc)),
       (''cpf'', map_option JStr (CreateClientData.cpf uc)),
       (''rg'', map_option JStr (CreateClientData.rg uc)),
       (''professional_title'', map_option JStr (CreateClientData.professionalTitle uc)),
       (''marital_status'', map_option JStr (CreateClientData.maritalStatus uc)),
       (''birth_date'', map_option JStr (CreateClientData.birthDate uc))] k
     of Some (Some v) \<Rightarrow> Some v | _ \<Rightarrow> None)"
  unfolding updateClient_data_def by (rule map_of_present) simp

lemma distinct_update_data:
  "distinct (map fst (updateProject_data up))"
  "distinct (map fst (updateTask_data ut))"
  "distinct (map fst (updateClient_data uc))"
  unfolding updateProject_data_def updateTask_data_def updateClient_data_def
  by (rule distinct_present, simp)+








section \<open>Properties of the enumerated fields\<close>

lemma update_passes_tokens:
  "map_of (updateProject_data up) ''status'' = map_option JStr (CreateProjectData.status up)"
  "map_of (updateProject_data up) ''priority'' = map_option JStr (CreateProjectData.priority up)"
  "map_of (updateProject_data up) ''currency'' = map_option JStr (CreateProjectData.currency up)"
  "map_of (updateTask_data ut) ''status'' = map_option JStr (CreateTaskData.status ut)"
  "map_of (updateTask_data ut) ''priority'' = map_option JStr (CreateTaskData.priority ut)"
  "map_of (updateClient_data uc) ''status'' = map_option JStr (CreateClientData.status uc)"
  "map_of (updateClient_data uc) ''currency'' = map_option JStr (CreateClientData.currency uc)"
  by (simp_all add: updateProject_data_lookup updateTask_data_lookup updateClient_data_lookup
      split: option.splits)

lemma create_passes_tokens:
  "map_of (createClient_data c b) ''status'' = Some (JStr (str_or (CreateClientData.status c) ''active''))"
  "map_of (createClient_data c b) ''currency'' = Some (JStr (str_or (CreateClientData.currency c) ''BRL''))"
  by (simp_all add: createClient_data_def)

lemma createProject_data_tokens:
  assumes "createProject_data p b = Inr data"
  shows "map_of data ''status'' = Some (JStr (str_or (CreateProjectData.status p) ''contacted''))"
    and "map_of data ''priority'' = Some (JStr (str_or (CreateProjectData.priority p) ''medium''))"
    and "map_of data ''currency'' = Some (JStr (str_or (CreateProjectData.currency p) ''BRL''))"
  using assms by (auto simp: createProject_data_def split: if_splits)

lemma tasks_check_status:
  "checks tasks_table r \<Longrightarrow> col r ''status'' = JStr s \<Longrightarrow> s \<in> set task_statuses"
  "checks tasks_table r \<Longrightarrow> col r ''priority'' = JStr s \<Longrightarrow> s \<in> set task_priorities"
  by (simp_all add: tasks_table_def check_in_def)

lemma updateTask_rejects:
  assumes bad: "(CreateTaskData.status ut = Some s \<and> s \<notin> set task_statuses)
      \<or> (CreateTaskData.priority ut = Some s \<and> s \<notin> set task_priorities)"
    and found: "list_ex (has_id i) rows"
  shows "updateTask rows now i ut = Inl QueryError"
proof -
  let ?d = "updateTask_data ut"
  have look: "map_of ?d ''status'' = Some (JStr s) \<and> s \<notin> set task_statuses
      \<or> map_of ?d ''priority'' = Some (JStr s) \<and> s \<notin> set task_priorities"
    using bad by (auto simp: update_passes_tokens)
  then have ne: "?d \<noteq> []" by auto
  have no: "\<not> checks tasks_table (updated_row now ?d x)" for x
  proof
    assume c: "checks tasks_table (updated_row now ?d x)"
    from look show False
    proof
      assume l: "map_of ?d ''status'' = Some (JStr s) \<and> s \<notin> set task_statuses"
      then have "col (updated_row now ?d x) ''status'' = JStr s"
        by (simp add: col_updated_row [OF distinct_update_data(2)])
      from tasks_check_status(1) [OF c this] l show False by simp
    next
      assume l: "map_of ?d ''priority'' = Some (JStr s) \<and> s \<notin> set task_priorities"
      then have "col (updated_row now ?d x) ''priority'' = JStr s"
        by (simp add: col_updated_row [OF distinct_update_data(2)])
      from tasks_check_status(2) [OF c this] l show False by simp
    qed
  qed
  from found obtain y ys where f: "filter (has_id i) rows = y # ys"
    by (cases "filter (has_id i) rows") (auto simp: list_ex_iff filter_empty_conv)
  then have "y \<in> set (filter (has_id i) rows)" by simp
  then have "list_ex (\<lambda>r'. has_id i r' \<and> \<not> checks tasks_table (updated_row now ?d r')) rows"
    using no by (auto simp: list_ex_iff)
  then show ?thesis using ne f by (simp add: updateTask_def updateInTenantSchema_def Let_def)
qed

lemma createTask_data_Inr:
  assumes "createTask_data taskData createdBy = Inr data"
  shows "data =
       [(''title'', jstr (CreateTaskData.title taskData)),
        (''assigned_to'', jstr (CreateTaskData.assignedTo taskData)),
        (''status'', JStr (str_or (CreateTaskData.status taskData) ''not_started'')),
        (''priority'', JStr (str_or (CreateTaskData.priority taskData) ''medium'')),
        (''progress'', JNum (num_or (CreateTaskData.progress taskData) 0)),
        (''created_by'', JStr createdBy)]
       @ present
       [(''description'', if_truthy (CreateTaskData.description taskData)),
        (''project_id'',
           if truthy (CreateTaskData.projectId taskData)
              \<and> CreateTaskData.projectId taskData \<noteq> Some ''none''
           then map_option JStr (CreateTaskData.projectId taskData) else None),
        (''project_title'', if_truthy (CreateTaskData.projectTitle taskData)),
        (''client_id'', if_truthy (CreateTaskData.clientId taskData)),
        (''client_name'', if_truthy (CreateTaskData.clientName taskData)),
        (''start_date'', if_truthy (CreateTaskData.startDate taskData)),
        (''end_date'', if_truthy (CreateTaskData.endDate taskData)),
        (''estimated_hours'', map_option JNum (CreateTaskData.estimatedHours taskData)),
        (''actual_hours'', map_option JNum (CreateTaskData.actualHours taskData)),
        (''notes'', if_truthy (CreateTaskData.notes' taskData)),
        (''tags'',
           case CreateTaskData.tags taskData of
             None \<Rightarrow> None
           | Some ts \<Rightarrow> if length ts > 0 then Some (JStrs ts) else None),
        (''subtasks'',
           case CreateTaskData.subtasks taskData of
             None \<Rightarrow> None
           | Some ss \<Rightarrow> if length ss > 0 then Some (JStr (JSON_stringify (JArr ss)))
                        else None)]"
proof -
  have "truthy (CreateTaskData.title taskData) \<and> truthy (CreateTaskData.assignedTo taskData)"
    using assms
    by (cases "truthy (CreateTaskData.title taskData)";
        cases "truthy (CreateTaskData.assignedTo taskData)")
      (simp_all add: createTask_data_def)
  then show ?thesis
    using assms by (simp add: createTask_data_def)
qed

lemma createTask_data_tokens:
  assumes "createTask_data taskData createdBy = Inr data"
  shows "distinct (map fst data)"
    and "map_of data ''status'' = Some (JStr (str_or (CreateTaskData.status taskData) ''not_started''))"
    and "map_of data ''priority'' = Some (JStr (str_or (CreateTaskData.priority taskData) ''medium''))"
proof -
  note e = createTask_data_Inr [OF assms]
  let ?opts = "[(''description'', if_truthy (CreateTaskData.description taskData)),
        (''project_id'',
           if truthy (CreateTaskData.projectId taskData)
              \<and> CreateTaskData.projectId taskData \<noteq> Some ''none''
           then map_option JStr (CreateTaskData.projectId taskData) else None),
        (''project_title'', if_truthy (CreateTaskData.projectTitle taskData)),
        (''client_id'', if_truthy (CreateTaskData.clientId taskData)),
        (''client_name'', if_truthy (CreateTaskData.clientName taskData)),
        (''start_date'', if_truthy (CreateTaskData.startDate taskData)),
        (''end_date'', if_truthy (CreateTaskData.endDate taskData)),
        (''estimated_hours'', map_option JNum (CreateTaskData.estimatedHours taskData)),
        (''actual_hours'', map_option JNum (CreateTaskData.actualHours taskData)),
        (''notes'', if_truthy (CreateTaskData.notes' taskData)),
        (''tags'',
           case CreateTaskData.tags taskData of
             None \<Rightarrow> None
           | Some ts \<Rightarrow> if length ts > 0 then Some (JStrs ts) else None),
        (''subtasks'',
           case CreateTaskData.subtasks taskData of
             None \<Rightarrow> None
           | Some ss \<Rightarrow> if length ss > 0 then Some (JStr (JSON_stringify (JArr ss)))
                        else None)]"
  define P where "P = present ?opts"
  have d: "distinct (map fst ?opts)" by simp
  have dP: "distinct (map fst P)"
    unfolding P_def by (rule distinct_present [OF d])
  have "fst ` set P \<subseteq> set (map fst ?opts)"
    unfolding P_def using fst_present [of ?opts] by (simp only: set_map)
  also have "set (map fst ?opts) = {''description'', ''project_id'', ''project_title'',
      ''client_id'', ''client_name'', ''start_date'', ''end_date'', ''estimated_hours'',
      ''actual_hours'', ''notes'', ''tags'', ''subtasks''}"
    by simp
  finally have keys: "fst ` set P \<subseteq> {''description'', ''project_id'', ''project_title'',
      ''client_id'', ''client_name'', ''start_date'', ''end_date'', ''estimated_hours'',
      ''actual_hours'', ''notes'', ''tags'', ''subtasks''}" .
  have e': "data =
       [(''title'', jstr (CreateTaskData.title taskData)),
        (''assigned_to'', jstr (CreateTaskData.assignedTo taskData)),
        (''status'', JStr (str_or (CreateTaskData.status taskData) ''not_started'')),
        (''priority'', JStr (str_or (CreateTaskData.priority taskData) ''medium'')),
        (''progress'', JNum (num_or (CreateTaskData.progress taskData) 0)),
        (''created_by'', JStr createdBy)] @ P"
    unfolding P_def by (rule e)
  show "distinct (map fst data)"
    unfolding e' using dP keys by auto
  show "map_of data ''status'' = Some (JStr (str_or (CreateTaskData.status taskData) ''not_started''))"
    unfolding e' by simp
  show "map_of data ''priority'' = Some (JStr (str_or (CreateTaskData.priority taskData) ''medium''))"
    unfolding e' by simp
qed

lemma createTask_rejects:
  assumes bad: "(CreateTaskData.status t = Some s \<and> s \<noteq> [] \<and> s \<notin> set task_statuses)
      \<or> (CreateTaskData.priority t = Some s \<and> s \<noteq> [] \<and> s \<notin> set task_priorities)"
  shows "createTask rows new_id now t b = Inl QueryError
      \<or> (\<exists>e. createTask rows new_id now t b = Inl (Service e))"
proof (cases "createTask_data t b")
  case (Inl e)
  then show ?thesis by (simp add: createTask_def)
next
  case (Inr data)
  note tk = createTask_data_tokens [OF Inr]
  note e = createTask_data_Inr [OF Inr]
  let ?r = "set_cols data ([(''id'', JStr new_id), (''created_at'', JNum now),
                     (''updated_at'', JNum now)] @ defaults tasks_table)"
  have "truthy (CreateTaskData.title t) \<and> truthy (CreateTaskData.assignedTo t)"
    using Inr
    by (cases "truthy (CreateTaskData.title t)"; cases "truthy (CreateTaskData.assignedTo t)")
      (simp_all add: createTask_data_def)
  then have req: "col data ''title'' \<noteq> JNull" "col data ''assigned_to'' \<noteq> JNull"
    "col data ''created_by'' \<noteq> JNull"
    unfolding e by (auto simp: col_def truthy_def jstr_def split: option.splits)
  have "\<not> checks tasks_table ?r"
  proof
    assume c: "checks tasks_table ?r"
    from bad show False
    proof
      assume l: "CreateTaskData.status t = Some s \<and> s \<noteq> [] \<and> s \<notin> set task_statuses"
      then have "col ?r ''status'' = JStr s"
        by (simp add: col_set_cols [OF tk(1)] tk(2) str_or_def)
      from tasks_check_status(1) [OF c this] l show False by simp
    next
      assume l: "CreateTaskData.priority t = Some s \<and> s \<noteq> [] \<and> s \<notin> set task_priorities"
      then have "col ?r ''priority'' = JStr s"
        by (simp add: col_set_cols [OF tk(1)] tk(3) str_or_def)
      from tasks_check_status(2) [OF c this] l show False by simp
    qed
  qed
  moreover have "filter (\<lambda>c. col data c = JNull) (required tasks_table) = []"
    using req by (simp add: tasks_table_def)
  ultimately have "createTask rows new_id now t b = Inl QueryError"
    by (simp add: createTask_def Inr insertInTenantSchema_def Let_def)
  then show ?thesis by simp
qed

lemma status_only_data:
  "updateTask_data (status_only s) = [(''status'', JStr s)]"
  "updateClient_data (client_status_only s) = [(''status'', JStr s)]"
  "updateProject_data (project_status_only s) = [(''status'', JStr s)]"
  by (simp_all add: updateTask_data_def status_only_def no_task_keys_def present_def
      updateClient_data_def client_status_only_def no_client_keys_def
      updateProject_data_def project_status_only_def no_project_keys_def)

lemma tasks_check_after_status:
  assumes "checks tasks_table r" and "s \<in> set task_statuses"
  shows "checks tasks_table (updated_row now [(''status'', JStr s)] r)"
proof -
  have c: "col (updated_row now [(''status'', JStr s)] r) k =
      (if k = ''updated_at'' then JNum now else if k = ''status'' then JStr s else col r k)" for k
    by (simp add: col_updated_row)
  show ?thesis
    using assms by (simp add: tasks_table_def check_in_def c)
qed

lemma binds_status:
  "s \<in> set task_statuses \<Longrightarrow> binds tasks_table [(''status'', JStr s)] = Accepted"
  "s \<in> set client_statuses \<Longrightarrow> binds clients_table [(''status'', JStr s)] = Accepted"
  by (auto simp: binds_def column_inputs_def tasks_table_def clients_table_def task_statuses_def
      client_statuses_def)

text \<open>
  C3 (as the code has it). No service validates status, priority or currency: an update
  hands the supplied token to the CRUD helper unchanged, and so does a create of a
  project, of a task or of a client (with the default for a missing or empty one). For a
  task, a status or priority that is not a recognized token is refused by the CHECK
  constraints of the tasks table: the update of a row fails, the create fails, and no row
  is created or changed. Any status is reachable from any status: an update of the status
  alone sets it whatever the status was.
\<close>

theorem tokens_checked_by_table_only:
  "map_of (updateProject_data up) ''status'' = map_option JStr (CreateProjectData.status up)
   \<and> map_of (updateProject_data up) ''priority'' = map_option JStr (CreateProjectData.priority up)
   \<and> map_of (updateProject_data up) ''currency'' = map_option JStr (CreateProjectData.currency up)
   \<and> map_of (updateTask_data ut) ''status'' = map_option JStr (CreateTaskData.status ut)
   \<and> map_of (updateTask_data ut) ''priority'' = map_option JStr (CreateTaskData.priority ut)
   \<and> map_of (updateClient_data uc) ''status'' = map_option JStr (CreateClientData.status uc)
   \<and> map_of (updateClient_data uc) ''currency'' = map_option JStr (CreateClientData.currency uc)
   \<and> (createProject_data up b = Inr pd \<longrightarrow>
        map_of pd ''status'' = Some (JStr (str_or (CreateProjectData.status up) ''contacted''))
        \<and> map_of pd ''priority'' = Some (JStr (str_or (CreateProjectData.priority up) ''medium''))
        \<and> map_of pd ''currency'' = Some (JStr (str_or (CreateProjectData.currency up) ''BRL'')))
   \<and> (createTask_data ut b = Inr td \<longrightarrow>
        map_of td ''status'' = Some (JStr (str_or (CreateTaskData.status ut) ''not_started''))
        \<and> map_of td ''priority'' = Some (JStr (str_or (CreateTaskData.priority ut) ''medium'')))
   \<and> map_of (createClient_data uc b) ''status'' =
        Some (JStr (str_or (CreateClientData.status uc) ''active''))
   \<and> map_of (createClient_data uc b) ''currency'' =
        Some (JStr (str_or (CreateClientData.currency uc) ''BRL''))
   \<and> (((CreateTaskData.status ut = Some s \<and> s \<notin> set task_statuses)
          \<or> (CreateTaskData.priority ut = Some s \<and> s \<notin> set task_priorities))
        \<and> list_ex (has_id i) rows \<longrightarrow>
       updateTask rows now i ut = Inl QueryError)
   \<and> ((CreateTaskData.status ut = Some s \<and> s \<noteq> [] \<and> s \<notin> set task_statuses)
        \<or> (CreateTaskData.priority ut = Some s \<and> s \<noteq> [] \<and> s \<notin> set task_priorities) \<longrightarrow>
       createTask rows new_id now ut b = Inl QueryError
       \<or> (\<exists>e. createTask rows new_id now ut b = Inl (Service e)))
   \<and> (filter (has_id i) rows = [r] \<and> checks tasks_table r \<and> s' \<in> set task_statuses \<longrightarrow>
       (\<exists>r'. updateTask rows now i (status_only s') =
                Inr (Some r', map (\<lambda>x. if has_id i x then r' else x) rows)
          \<and> col r' ''status'' = JStr s'))
   \<and> (filter (has_id i) rows = [r] \<and> s' \<in> set client_statuses \<longrightarrow>
       (\<exists>r'. updateClient rows now i (client_status_only s') =
                Inr (Some r', map (\<lambda>x. if has_id i x then r' else x) rows)
          \<and> col r' ''status'' = JStr s'))
   \<and> (filter (has_id i) rows = [r]
        \<and> binds T (updateProject_data (project_status_only s')) = Accepted
        \<and> checks T (updated_row now (updateProject_data (project_status_only s')) r) \<longrightarrow>
       (\<exists>r'. updateProject rows T now i (project_status_only s') =
                Inr (Some r', map (\<lambda>x. if has_id i x then r' else x) rows)
          \<and> col r' ''status'' = JStr s'))"
proof -
  have reach_t: "\<exists>r'. updateTask rows now i (status_only s') =
                Inr (Some r', map (\<lambda>x. if has_id i x then r' else x) rows)
          \<and> col r' ''status'' = JStr s'"
    if "filter (has_id i) rows = [r] \<and> checks tasks_table r \<and> s' \<in> set task_statuses"
  proof -
    from that have ok: "checks tasks_table (updated_row now [(''status'', JStr s')] r)"
      by (simp add: tasks_check_after_status)
    from that have one: "filter (has_id i) rows = [r]"
      and types: "binds tasks_table [(''status'', JStr s')] = Accepted"
      by (simp_all add: binds_status)
    have "updateTask rows now i (status_only s') =
        Inr (Some (updated_row now [(''status'', JStr s')] r),
             map (\<lambda>x. if has_id i x then updated_row now [(''status'', JStr s')] r else x) rows)"
      using update_helper_found [OF _ one types ok]
      by (simp add: updateTask_def status_only_data Let_def)
    moreover have "col (updated_row now [(''status'', JStr s')] r) ''status'' = JStr s'"
      by (simp add: col_updated_row)
    ultimately show ?thesis by blast
  qed
  have reach_c: "\<exists>r'. updateClient rows now i (client_status_only s') =
                Inr (Some r', map (\<lambda>x. if has_id i x then r' else x) rows)
          \<and> col r' ''status'' = JStr s'"
    if "filter (has_id i) rows = [r] \<and> s' \<in> set client_statuses"
  proof -
    from that have one: "filter (has_id i) rows = [r]"
      and types: "binds clients_table [(''status'', JStr s')] = Accepted"
      by (simp_all add: binds_status)
    have ok: "checks clients_table (updated_row now [(''status'', JStr s')] r)"
      by (simp add: clients_table_def)
    have "updateClient rows now i (client_status_only s') =
        Inr (Some (updated_row now [(''status'', JStr s')] r),
             map (\<lambda>x. if has_id i x then updated_row now [(''status'', JStr s')] r else x) rows)"
      using update_helper_found [OF _ one types ok]
      by (simp add: updateClient_def status_only_data Let_def)
    moreover have "col (updated_row now [(''status'', JStr s')] r) ''status'' = JStr s'"
      by (simp add: col_updated_row)
    ultimately show ?thesis by blast
  qed
  have reach_p: "\<exists>r'. updateProject rows T now i (project_status_only s') =
                Inr (Some r', map (\<lambda>x. if has_id i x then r' else x) rows)
          \<and> col r' ''status'' = JStr s'"
    if "filter (has_id i) rows = [r]
        \<and> binds T (updateProject_data (project_status_only s')) = Accepted
        \<and> checks T (updated_row now (updateProject_data (project_status_only s')) r)"
  proof -
    from that have one: "filter (has_id i) rows = [r]"
      and types: "binds T [(''status'', JStr s')] = Accepted"
      and ok: "checks T (updated_row now [(''status'', JStr s')] r)"
      by (simp_all add: status_only_data)
    have "updateProject rows T now i (project_status_only s') =
        Inr (Some (updated_row now [(''status'', JStr s')] r),
             map (\<lambda>x. if has_id i x then updated_row now [(''status'', JStr s')] r else x) rows)"
      using update_helper_found [OF _ one types ok]
      by (simp add: updateProject_def status_only_data Let_def)
    moreover have "col (updated_row now [(''status'', JStr s')] r) ''status'' = JStr s'"
      by (simp add: col_updated_row)
    ultimately show ?thesis by blast
  qed
  have rej_u: "updateTask rows now i ut = Inl QueryError"
    if "((CreateTaskData.status ut = Some s \<and> s \<notin> set task_statuses)
          \<or> (CreateTaskData.priority ut = Some s \<and> s \<notin> set task_priorities))
        \<and> list_ex (has_id i) rows"
    using that updateTask_rejects [of ut s i rows now] by blast
  have cp: "map_of pd ''status'' = Some (JStr (str_or (CreateProjectData.status up) ''contacted''))
        \<and> map_of pd ''priority'' = Some (JStr (str_or (CreateProjectData.priority up) ''medium''))
        \<and> map_of pd ''currency'' = Some (JStr (str_or (CreateProjectData.currency up) ''BRL''))"
    if "createProject_data up b = Inr pd"
    using createProject_data_tokens [OF that] by simp
  have ct: "map_of td ''status'' = Some (JStr (str_or (CreateTaskData.status ut) ''not_started''))
        \<and> map_of td ''priority'' = Some (JStr (str_or (CreateTaskData.priority ut) ''medium''))"
    if "createTask_data ut b = Inr td"
    using createTask_data_tokens(2,3) [OF that] by simp
  show ?thesis
    by (intro conjI impI update_passes_tokens create_passes_tokens rej_u
        createTask_rejects reach_t reach_c reach_p cp ct) simp_all
qed

theorem tokens_checked_by_table_only_witness:
  "updateTask [one_task] 9 ''7d9f2a10-3b5c-4e8d-9a61-0c2e4f6a8b1d'' (status_only ''bogus'')
     = Inl QueryError
   \<and> createTask [] ''1e2d3c4b-5a69-4788-9786-a5b4c3d2e1f0'' 9
       (bare_task\<lparr>CreateTaskData.status := Some ''bogus''\<rparr>) ''u-1''
     = Inl QueryError
   \<and> updateTask [one_task] 9 ''7d9f2a10-3b5c-4e8d-9a61-0c2e4f6a8b1d'' (status_only ''completed'')
     = Inr (Some completed_task, [completed_task])
   \<and> updateClient [one_client] 9 ''5a4b3c2d-1e0f-4a9b-8c7d-6e5f4a3b2c1d''
       (client_status_only ''pending'')
     = Inr (Some pending_client, [pending_client])
   \<and> updateProject [one_project] sample_projects_table 9 ''3f2b8c1e-5d47-4a9b-8e21-6c0d9f7a1b34''
       (project_status_only ''won'')
     = Inr (Some won_one_project, [won_one_project])
   \<and> (\<exists>pd. createProject_data archived_new_project ''u-1'' = Inr pd
        \<and> map_of pd ''status'' = Some (JStr ''archived'')
        \<and> map_of pd ''priority'' = Some (JStr ''medium'')
        \<and> map_of pd ''currency'' = Some (JStr ''BRL''))"
proof -
  let ?tid = "''7d9f2a10-3b5c-4e8d-9a61-0c2e4f6a8b1d''"
  let ?cid = "''5a4b3c2d-1e0f-4a9b-8c7d-6e5f4a3b2c1d''"
  let ?pid = "''3f2b8c1e-5d47-4a9b-8e21-6c0d9f7a1b34''"
  let ?bogus = "bare_task\<lparr>CreateTaskData.status := Some ''bogus''\<rparr>"
  have hi: "has_id ?tid one_task" "has_id ?cid one_client" "has_id ?pid one_project"
    by (simp_all add: has_id_def col_def one_task_def one_client_def one_project_def)
  have f: "filter (has_id ?tid) [one_task] = [one_task]"
    "filter (has_id ?cid) [one_client] = [one_client]"
    "filter (has_id ?pid) [one_project] = [one_project]"
    by (simp_all add: hi)
  have ex: "list_ex (has_id ?tid) [one_task]"
    by (simp add: hi)
  have c: "checks tasks_table one_task"
    by (simp add: tasks_table_def check_in_def col_def one_task_def task_statuses_def
        task_priorities_def)
  have cp: "checks sample_projects_table x" for x
    by (simp add: sample_projects_table_def)
  have bp: "binds sample_projects_table [(''status'', JStr ''won'')] = Accepted"
    by (simp add: binds_def column_inputs_def sample_projects_table_def)
  have u: "updated_row 9 [(''status'', JStr ''completed'')] one_task = completed_task"
    "updated_row 9 [(''status'', JStr ''pending'')] one_client = pending_client"
    "updated_row 9 [(''status'', JStr ''won'')] one_project = won_one_project"
    by (simp_all add: updated_row_def set_cols_def one_task_def completed_task_def
        one_client_def pending_client_def one_project_def won_one_project_def)
  have b: "CreateTaskData.status (status_only ''bogus'') = Some ''bogus''"
    "CreateTaskData.status ?bogus = Some ''bogus''"
    "''bogus'' \<notin> set task_statuses" "''completed'' \<in> set task_statuses"
    "''pending'' \<in> set client_statuses"
    by (simp_all add: status_only_def task_statuses_def client_statuses_def)
  note w = tokens_checked_by_table_only
  from w [where ut = "status_only ''bogus''" and s = "''bogus''" and rows = "[one_task]"
      and i = ?tid and now = 9] b ex
  have r1: "updateTask [one_task] 9 ?tid (status_only ''bogus'') = Inl QueryError"
    by blast
  have d: "createTask_data ?bogus ''u-1'' =
     Inr [(''title'', JStr ''Draft''), (''assigned_to'', JStr ''bob''),
          (''status'', JStr ''bogus''), (''priority'', JStr ''medium''),
          (''progress'', JNum 0), (''created_by'', JStr ''u-1'')]"
    by (simp add: createTask_data_def bare_task_def truthy_def jstr_def str_or_def num_or_def
        if_truthy_def present_def)
  from w [where ut = ?bogus and s = "''bogus''" and rows = "[]"
      and new_id = "''1e2d3c4b-5a69-4788-9786-a5b4c3d2e1f0''" and now = 9 and b = "''u-1''"] b
  have "createTask [] ''1e2d3c4b-5a69-4788-9786-a5b4c3d2e1f0'' 9 ?bogus ''u-1'' = Inl QueryError
      \<or> (\<exists>e. createTask [] ''1e2d3c4b-5a69-4788-9786-a5b4c3d2e1f0'' 9 ?bogus ''u-1''
            = Inl (Service e))"
    by blast
  moreover have "\<not> (\<exists>e. createTask [] ''1e2d3c4b-5a69-4788-9786-a5b4c3d2e1f0'' 9 ?bogus ''u-1''
            = Inl (Service e))"
    by (simp add: createTask_def d insertInTenantSchema_def Let_def split: list.splits)
  ultimately have r2:
    "createTask [] ''1e2d3c4b-5a69-4788-9786-a5b4c3d2e1f0'' 9 ?bogus ''u-1'' = Inl QueryError"
    by blast
  from w [where rows = "[one_task]" and i = ?tid and r = one_task and now = 9
      and s' = "''completed''"] f c b
  obtain r' where
    "updateTask [one_task] 9 ?tid (status_only ''completed'')
       = Inr (Some r', map (\<lambda>x. if has_id ?tid x then r' else x) [one_task])"
    by blast
  moreover have "updateTask [one_task] 9 ?tid (status_only ''completed'')
      = Inr (Some completed_task, [completed_task])"
    using tasks_check_after_status [OF c b(4), of 9] binds_status(1) [OF b(4)]
    by (simp add: updateTask_def status_only_data updateInTenantSchema_def hi u Let_def)
  ultimately have r3: "updateTask [one_task] 9 ?tid (status_only ''completed'')
      = Inr (Some completed_task, [completed_task])"
    by simp
  from w [where rows = "[one_client]" and i = ?cid and r = one_client and now = 9
      and s' = "''pending''"] f b
  obtain r'' where
    "updateClient [one_client] 9 ?cid (client_status_only ''pending'')
       = Inr (Some r'', map (\<lambda>x. if has_id ?cid x then r'' else x) [one_client])"
    by blast
  moreover have "updateClient [one_client] 9 ?cid (client_status_only ''pending'')
      = Inr (Some pending_client, [pending_client])"
    using binds_status(2) [OF b(5)]
    by (simp add: updateClient_def status_only_data updateInTenantSchema_def hi u Let_def
        clients_table_def)
  ultimately have r4: "updateClient [one_client] 9 ?cid (client_status_only ''pending'')
      = Inr (Some pending_client, [pending_client])"
    by simp
  have hp: "filter (has_id ?pid) [one_project] = [one_project]
      \<and> binds sample_projects_table (updateProject_data (project_status_only ''won'')) = Accepted
      \<and> checks sample_projects_table
          (updated_row 9 (updateProject_data (project_status_only ''won'')) one_project)"
    by (simp add: hi status_only_data bp cp)
  from w [where rows = "[one_project]" and i = ?pid and r = one_project and now = 9
      and s' = "''won''" and T = sample_projects_table] hp
  obtain p' where
    "updateProject [one_project] sample_projects_table 9 ?pid (project_status_only ''won'')
       = Inr (Some p', map (\<lambda>x. if has_id ?pid x then p' else x) [one_project])"
    by blast
  moreover have "updateProject [one_project] sample_projects_table 9 ?pid
      (project_status_only ''won'') = Inr (Some won_one_project, [won_one_project])"
    by (simp add: updateProject_def status_only_data updateInTenantSchema_def hi u Let_def bp cp)
  ultimately have r5: "updateProject [one_project] sample_projects_table 9 ?pid
      (project_status_only ''won'') = Inr (Some won_one_project, [won_one_project])"
    by simp
  obtain pd where pd: "createProject_data archived_new_project ''u-1'' = Inr pd"
    by (simp add: createProject_data_def archived_new_project_def no_project_keys_def truthy_def)
  from w [where up = archived_new_project and b = "''u-1''" and pd = pd] pd
  have r6: "map_of pd ''status'' = Some (JStr ''archived'')
        \<and> map_of pd ''priority'' = Some (JStr ''medium'')
        \<and> map_of pd ''currency'' = Some (JStr ''BRL'')"
    by (simp add: archived_new_project_def no_project_keys_def str_or_def)
  show ?thesis
    using r1 r2 r3 r4 r5 r6 pd by blast
qed

text \<open>
  C3 (as the claim states it) fails for a client: \<open>archived\<close> is not one of the status
  tokens of a client and \<open>XYZ\<close> is none of the currencies, yet the update stores them,
  and a create hands \<open>archived\<close> to the insert helper.
\<close>

theorem unrecognized_token_counterexample:
  "''archived'' \<notin> set client_statuses
   \<and> updateClient [one_client] 9 ''5a4b3c2d-1e0f-4a9b-8c7d-6e5f4a3b2c1d''
       (client_status_only ''archived'')
     = Inr (Some archived_client, [archived_client])
   \<and> col archived_client ''status'' = JStr ''archived''
   \<and> ''XYZ'' \<notin> set currencies
   \<and> updateClient [one_client] 9 ''5a4b3c2d-1e0f-4a9b-8c7d-6e5f4a3b2c1d''
       (no_client_keys\<lparr>CreateClientData.currency := Some ''XYZ''\<rparr>)
     = Inr (Some xyz_client, [xyz_client])
   \<and> col xyz_client ''currency'' = JStr ''XYZ''
   \<and> map_of (createClient_data (client_status_only ''archived'') ''u-1'') ''status''
       = Some (JStr ''archived'')"
  by (simp add: client_statuses_def currencies_def updateClient_def updateClient_data_def
      client_status_only_def no_client_keys_def present_def updateInTenantSchema_def
      one_client_def archived_client_def xyz_client_def has_id_def col_def updated_row_def
      set_cols_def clients_table_def createClient_data_def str_or_def binds_def
      column_inputs_def)

end
